theory Spec2Isabelle
  imports Complex_Main
begin

section \<open>Numbers, markup and the framework's interpolation\<close>

text \<open>
  The components are TypeScript functions over JavaScript numbers. In this development
  a JavaScript number is idealised as a \<^typ>\<open>real\<close> (no rounding, no NaN, no
  infinities), except where the opacity of the pulsing indicators is computed in double
  precision, with every operation rounded. The frame counter and the video configuration
  (fps, durationInFrames, width, height) are integers, as the rendering framework
  supplies them. A division by zero is NaN or an infinity in JavaScript and 0 in HOL; the
  theorems below either state that the configuration value they divide by is positive or
  fix the configuration.

  A component returns a tree of elements. An element has a tag, a list of attributes
  (style entries included) and children. An attribute value is a string, a number, or a
  template literal, kept as the list of its parts so that no number formatting is needed.
\<close>

datatype val = S string | N real | Tpl "val list"

datatype node = Elem string "(string \<times> val) list" "node list" | Txt val

text \<open>
  \<^verbatim>\<open>Math.floor\<close>, \<open>Math.ceil\<close> and the remainder operator \<open>%\<close> of JavaScript on
  integer operands: the remainder takes the sign of the dividend.
\<close>

definition Math_floor :: "real \<Rightarrow> int" where
  "Math_floor x = \<lfloor>x\<rfloor>"

definition Math_ceil :: "real \<Rightarrow> int" where
  "Math_ceil x = \<lceil>x\<rceil>"

definition js_rem :: "int \<Rightarrow> int \<Rightarrow> int" where
  "js_rem a b = sgn a * (\<bar>a\<bar> mod \<bar>b\<bar>)"

text \<open>
  Modelled from the spec: the function \<open>interpolate\<close>, which every component imports
  from the rendering framework and whose code is not under src/. The spec:
  "Interpolation: linear (or eased) mapping from an input range to an output range, used
  for all animation values". The options are the framework's documented ones: an easing
  applied to the normalised input, and for each side one of \<open>extend\<close> (the default),
  \<open>clamp\<close> or \<open>identity\<close>. The framework rejects ranges of different lengths, ranges
  with fewer than two entries, and an input range that is not strictly increasing; each
  rejection is an error value here.
\<close>

datatype extrapolate = Extend | Clamp | Identity

datatype js_error =
    LengthMismatch
  | RangeTooShort
  | InputRangeNotIncreasing
  | EasingOutOfRange
  | IndexOutOfBounds
  | InvalidArrayLength

record interpolate_options =
  easing :: "real \<Rightarrow> real"
  extrapolateLeft :: extrapolate
  extrapolateRight :: extrapolate

definition default_options :: interpolate_options where
  "default_options = \<lparr>easing = (\<lambda>x. x), extrapolateLeft = Extend, extrapolateRight = Extend\<rparr>"

definition clamp_both :: interpolate_options where
  "clamp_both = \<lparr>easing = (\<lambda>x. x), extrapolateLeft = Clamp, extrapolateRight = Clamp\<rparr>"

definition clamp_right :: interpolate_options where
  "clamp_right = \<lparr>easing = (\<lambda>x. x), extrapolateLeft = Extend, extrapolateRight = Clamp\<rparr>"

definition interpolateFunction ::
  "real \<Rightarrow> real \<Rightarrow> real \<Rightarrow> real \<Rightarrow> real \<Rightarrow> interpolate_options \<Rightarrow> real" where
  "interpolateFunction input inputMin inputMax outputMin outputMax opts =
     (if input < inputMin \<and> extrapolateLeft opts = Identity then input
      else
        let r1 = (if input < inputMin \<and> extrapolateLeft opts = Clamp then inputMin else input)
        in if r1 > inputMax \<and> extrapolateRight opts = Identity then r1
           else
             let r2 = (if r1 > inputMax \<and> extrapolateRight opts = Clamp then inputMax else r1)
             in if outputMin = outputMax then outputMin
                else easing opts ((r2 - inputMin) / (inputMax - inputMin))
                       * (outputMax - outputMin) + outputMin)"

function findRange_from :: "real \<Rightarrow> real list \<Rightarrow> nat \<Rightarrow> nat" where
  "findRange_from input inputRange i =
     (if i < length inputRange - 1
      then (if inputRange ! i \<ge> input then i else findRange_from input inputRange (i + 1))
      else i)"
  by pat_completeness auto
termination
  by (relation "measure (\<lambda>(input, inputRange, i). length inputRange - 1 - i)") auto

definition findRange :: "real \<Rightarrow> real list \<Rightarrow> nat" where
  "findRange input inputRange = findRange_from input inputRange 1 - 1"

fun strictly_increasing :: "real list \<Rightarrow> bool" where
  "strictly_increasing (x # y # ys) = (x < y \<and> strictly_increasing (y # ys))"
| "strictly_increasing _ = True"

definition interpolate ::
  "real \<Rightarrow> real list \<Rightarrow> real list \<Rightarrow> interpolate_options \<Rightarrow> js_error + real" where
  "interpolate input inputRange outputRange opts =
     (if length inputRange \<noteq> length outputRange then Inl LengthMismatch
      else if length inputRange < 2 then Inl RangeTooShort
      else if \<not> strictly_increasing inputRange then Inl InputRangeNotIncreasing
      else
        let range = findRange input inputRange
        in Inr (interpolateFunction input
                  (inputRange ! range) (inputRange ! (range + 1))
                  (outputRange ! range) (outputRange ! (range + 1)) opts))"

section \<open>NeonSaberCountdown (cyberPunkLoadinRing.tsx)\<close>

record NeonSaberCountdownProps =
  startNumber :: int
  color :: string
  coreColor :: string
  fontSize :: int

definition currentSecondIndex :: "int \<Rightarrow> int \<Rightarrow> int" where
  "currentSecondIndex frame fps = Math_floor (real_of_int frame / real_of_int fps)"

definition displayNumber :: "NeonSaberCountdownProps \<Rightarrow> int \<Rightarrow> int \<Rightarrow> int" where
  "displayNumber props frame fps = startNumber props - currentSecondIndex frame fps"

definition localFrame :: "int \<Rightarrow> int \<Rightarrow> int" where
  "localFrame frame fps = js_rem frame fps"

definition black_fill :: "node list \<Rightarrow> node" where
  "black_fill children =
     Elem ''AbsoluteFill'' [(''style.backgroundColor'', S ''#000000'')] children"

text \<open>
  The element returned for the digit: the sub-component \<open>SaberNumber\<close> with its props
  (the \<open>config\<close> prop is the parent's props, passed on field by field).
\<close>

definition SaberNumber_element :: "NeonSaberCountdownProps \<Rightarrow> int \<Rightarrow> int \<Rightarrow> int \<Rightarrow> node" where
  "SaberNumber_element props number lf fps =
     Elem ''SaberNumber''
       [(''key'', N (real_of_int number)),
        (''number'', N (real_of_int number)),
        (''localFrame'', N (real_of_int lf)),
        (''config.startNumber'', N (real_of_int (startNumber props))),
        (''config.color'', S (color props)),
        (''config.coreColor'', S (coreColor props)),
        (''config.fontSize'', N (real_of_int (fontSize props))),
        (''fps'', N (real_of_int fps))] []"

definition NeonSaberCountdown :: "NeonSaberCountdownProps \<Rightarrow> int \<Rightarrow> int \<Rightarrow> node" where
  "NeonSaberCountdown props frame fps =
     (if displayNumber props frame fps < 0 then black_fill []
      else black_fill
             [SaberNumber_element props (displayNumber props frame fps)
                (localFrame frame fps) fps])"

section \<open>SegmentedCountdown (segmentedCountdown30.tsx)\<close>

definition remainingSeconds :: "int \<Rightarrow> int \<Rightarrow> js_error + int" where
  "remainingSeconds frame durationInFrames =
     (case interpolate (real_of_int frame) [0, real_of_int durationInFrames] [30, 0] clamp_both of
        Inl e \<Rightarrow> Inl e
      | Inr v \<Rightarrow> Inr (Math_ceil v))"

definition SegmentedCountdown_progress :: "int \<Rightarrow> int \<Rightarrow> js_error + real" where
  "SegmentedCountdown_progress frame durationInFrames =
     interpolate (real_of_int frame) [0, real_of_int durationInFrames] [1, 0] clamp_both"

definition currentTickThreshold :: "int \<Rightarrow> int \<Rightarrow> int \<Rightarrow> js_error + real" where
  "currentTickThreshold frame durationInFrames ticksCount =
     (case SegmentedCountdown_progress frame durationInFrames of
        Inl e \<Rightarrow> Inl e
      | Inr progress \<Rightarrow> Inr (progress * real_of_int ticksCount))"

text \<open>The body of the second \<open>ticks.map\<close>: the opacity of the active tick with index \<open>i\<close>.\<close>

definition active_opacity :: "real \<Rightarrow> nat \<Rightarrow> real" where
  "active_opacity threshold i =
     (let diff = threshold - real i
      in if diff > 1 then 1 else if diff < 0 then 0 else diff)"

definition active_tick_opacity :: "int \<Rightarrow> int \<Rightarrow> int \<Rightarrow> nat \<Rightarrow> js_error + real" where
  "active_tick_opacity frame durationInFrames ticksCount i =
     (case currentTickThreshold frame durationInFrames ticksCount of
        Inl e \<Rightarrow> Inl e
      | Inr threshold \<Rightarrow> Inr (active_opacity threshold i))"

section \<open>CleanProgressBar (cyberPunkLoadinRing.tsx)\<close>

definition CleanProgressBar_progress :: "int \<Rightarrow> int \<Rightarrow> js_error + real" where
  "CleanProgressBar_progress frame durationInFrames =
     interpolate (real_of_int frame) [0, real_of_int (durationInFrames - 1)] [0, 1] clamp_right"

definition CleanProgressBar_percentage :: "int \<Rightarrow> int \<Rightarrow> js_error + int" where
  "CleanProgressBar_percentage frame durationInFrames =
     (case CleanProgressBar_progress frame durationInFrames of
        Inl e \<Rightarrow> Inl e
      | Inr progress \<Rightarrow> Inr (Math_floor (progress * 100)))"

text \<open>The \<open>width\<close> style entry of the fill, the template literal \<open>`${progress * 100}%`\<close>.\<close>

definition CleanProgressBar_fill_width :: "int \<Rightarrow> int \<Rightarrow> js_error + val" where
  "CleanProgressBar_fill_width frame durationInFrames =
     (case CleanProgressBar_progress frame durationInFrames of
        Inl e \<Rightarrow> Inl e
      | Inr progress \<Rightarrow> Inr (Tpl [N (progress * 100), S ''%'']))"

section \<open>NeonRecIndicator (unnamed/part_000) and NeonLiveIndicator (LIVEind.tsx)\<close>

definition NeonRecIndicator_opacity :: "int \<Rightarrow> js_error + real" where
  "NeonRecIndicator_opacity frame =
     (let cycleDurationFrames = 60;
          t = (real_of_int frame / cycleDurationFrames) * pi * 2
      in interpolate (sin t) [-1, 1] [0.3, 1.0] default_options)"

definition NeonLiveIndicator_opacity :: "int \<Rightarrow> js_error + real" where
  "NeonLiveIndicator_opacity frame =
     (let cycleDurationFrames = 60;
          t = (real_of_int frame / cycleDurationFrames) * pi * 2
      in interpolate (sin t) [-1, 1] [0.3, 1.0] default_options)"

section \<open>NeonEqualizer (progressTrackingLoadingBar.tsx)\<close>

definition BAR_COUNT :: nat where "BAR_COUNT = 30"
definition SEGMENT_COUNT :: nat where "SEGMENT_COUNT = 15"
definition BAR_WIDTH :: real where "BAR_WIDTH = 60"
definition BAR_GAP :: real where "BAR_GAP = 30"
definition SEGMENT_HEIGHT :: real where "SEGMENT_HEIGHT = 40"
definition SEGMENT_GAP :: real where "SEGMENT_GAP = 10"

definition getBarHeight :: "int \<Rightarrow> int \<Rightarrow> nat \<Rightarrow> js_error + real" where
  "getBarHeight frame durationInFrames index =
     (let t = (real_of_int frame / real_of_int durationInFrames) * pi * 2;
          offset = real index * 0.5;
          w1 = sin (t * 2 + offset);
          w2 = sin (t * 4 + offset * 1.5);
          w3 = cos (t * 6 + real index);
          raw = w1 + w2 * 0.5 + w3 * 0.3
      in interpolate raw [-2, 2] [0.1, 1] clamp_both)"

definition activeSegments :: "int \<Rightarrow> int \<Rightarrow> nat \<Rightarrow> js_error + int" where
  "activeSegments frame durationInFrames index =
     (case getBarHeight frame durationInFrames index of
        Inl e \<Rightarrow> Inl e
      | Inr intensity \<Rightarrow> Inr (Math_ceil (intensity * real SEGMENT_COUNT)))"

text \<open>The body of the loop of \<open>renderBar\<close>: one segment of a bar.\<close>

definition isOn :: "int \<Rightarrow> nat \<Rightarrow> bool" where
  "isOn active i = (int i < active)"

definition segment :: "string \<Rightarrow> nat \<Rightarrow> int \<Rightarrow> real \<Rightarrow> nat \<Rightarrow> node" where
  "segment barColor index active opacityMultiplier i =
     (let segmentOpacity = (if isOn active i then 1 else 0.1);
          yPos = - (real i * (SEGMENT_HEIGHT + SEGMENT_GAP)) - SEGMENT_HEIGHT
      in Elem ''rect''
           [(''key'', Tpl [S ''seg-'', N (real index), S ''-'', N (real i)]),
            (''x'', N 0), (''y'', N yPos),
            (''width'', N BAR_WIDTH), (''height'', N SEGMENT_HEIGHT),
            (''fill'', S barColor), (''rx'', N 4), (''ry'', N 4),
            (''style.opacity'', N (segmentOpacity * opacityMultiplier))] [])"

text \<open>
  \<open>interpolateColors\<close> is the framework's colour interpolation; it is a parameter of
  \<open>renderBar\<close> here.
\<close>

definition renderBar ::
  "(real \<Rightarrow> real list \<Rightarrow> string list \<Rightarrow> string) \<Rightarrow> int \<Rightarrow> int \<Rightarrow> int \<Rightarrow> int
     \<Rightarrow> nat \<Rightarrow> real \<Rightarrow> js_error + node" where
  "renderBar interpolateColors frame durationInFrames width height index opacityMultiplier =
     (case activeSegments frame durationInFrames index of
        Inl e \<Rightarrow> Inl e
      | Inr active \<Rightarrow>
          let barColor = interpolateColors (real index) [0, real BAR_COUNT - 1] [''#00FFFF'', ''#AA00FF''];
              totalBarWidth = BAR_WIDTH + BAR_GAP;
              totalWidth = real BAR_COUNT * totalBarWidth - BAR_GAP;
              startX = (real_of_int width - totalWidth) / 2;
              centerY = real_of_int height / 2
          in Inr (Elem ''g''
                    [(''key'', Tpl [S ''bar-'', N (real index)]),
                     (''transform'', Tpl [S ''translate('', N (startX + real index * totalBarWidth),
                                          S '', '', N centerY, S '')''])]
                    (map (segment barColor index active opacityMultiplier) [0..<SEGMENT_COUNT])))"

text \<open>
  Reading a rendered bar: its segments are the children of the \<open><g>\<close> element, and a
  segment is lit when it is a \<open><rect>\<close> whose opacity is \<open>1 * opacityMultiplier\<close>, the
  value the loop gives to a segment that is on (the others get \<open>0.1 * opacityMultiplier\<close>).
\<close>

fun bar_segments :: "node \<Rightarrow> node list" where
  "bar_segments (Elem tag attrs children) = children"
| "bar_segments (Txt v) = []"

fun is_lit :: "real \<Rightarrow> node \<Rightarrow> bool" where
  "is_lit opacityMultiplier (Elem tag attrs children) =
     (tag = ''rect'' \<and> map_of attrs ''style.opacity'' = Some (N (1 * opacityMultiplier)))"
| "is_lit opacityMultiplier (Txt v) = False"

definition lit_rects :: "real \<Rightarrow> node \<Rightarrow> node list" where
  "lit_rects opacityMultiplier bar = filter (is_lit opacityMultiplier) (bar_segments bar)"

section \<open>ZenProgressBar (zenProgressbar.tsx)\<close>

text \<open>
  Modelled from the spec: the easing \<open>Easing.bezier\<close>, imported from the rendering
  framework, whose code is not under src/. The spec speaks of a "linear (or eased)
  mapping"; the framework documents \<open>Easing.bezier (x1, y1, x2, y2)\<close> as the cubic
  Bezier timing curve through \<open>(0, 0)\<close>, \<open>(x1, y1)\<close>, \<open>(x2, y2)\<close>, \<open>(1, 1)\<close>, as a
  function of the first coordinate, with the end points returned exactly, and rejects
  \<open>x1\<close> or \<open>x2\<close> outside \<open>[0, 1]\<close>. The framework finds the curve parameter for a
  given first coordinate by a numeric root search in floating point; \<open>getTForX\<close> is
  the exact root here.
\<close>

definition bezier_a :: "real \<Rightarrow> real \<Rightarrow> real" where
  "bezier_a aA1 aA2 = 1.0 - 3.0 * aA2 + 3.0 * aA1"

definition bezier_b :: "real \<Rightarrow> real \<Rightarrow> real" where
  "bezier_b aA1 aA2 = 3.0 * aA2 - 6.0 * aA1"

definition bezier_c :: "real \<Rightarrow> real" where
  "bezier_c aA1 = 3.0 * aA1"

definition calcBezier :: "real \<Rightarrow> real \<Rightarrow> real \<Rightarrow> real" where
  "calcBezier aT aA1 aA2 = ((bezier_a aA1 aA2 * aT + bezier_b aA1 aA2) * aT + bezier_c aA1) * aT"

definition getTForX :: "real \<Rightarrow> real \<Rightarrow> real \<Rightarrow> real" where
  "getTForX aX mX1 mX2 = (THE t. 0 \<le> t \<and> t \<le> 1 \<and> calcBezier t mX1 mX2 = aX)"

definition Easing_bezier :: "real \<Rightarrow> real \<Rightarrow> real \<Rightarrow> real \<Rightarrow> js_error + (real \<Rightarrow> real)" where
  "Easing_bezier mX1 mY1 mX2 mY2 =
     (if \<not> (mX1 \<ge> 0 \<and> mX1 \<le> 1 \<and> mX2 \<ge> 0 \<and> mX2 \<le> 1) then Inl EasingOutOfRange
      else Inr (\<lambda>x. if mX1 = mY1 \<and> mX2 = mY2 then x
                     else if x = 0 then 0
                     else if x = 1 then 1
                     else calcBezier (getTForX x mX1 mX2) mY1 mY2))"

definition progressPercent :: "int \<Rightarrow> int \<Rightarrow> js_error + real" where
  "progressPercent frame durationInFrames =
     (case Easing_bezier 0.25 0.1 0.25 1.0 of
        Inl e \<Rightarrow> Inl e
      | Inr progressEase \<Rightarrow>
          interpolate (real_of_int frame) [0, real_of_int durationInFrames] [0, 100]
            \<lparr>easing = progressEase, extrapolateLeft = Extend, extrapolateRight = Clamp\<rparr>)"

definition textOpacity :: "int \<Rightarrow> js_error + real" where
  "textOpacity frame =
     (let breathWave = sin (real_of_int frame / 30)
      in interpolate breathWave [-1, 1] [0.7, 1] default_options)"

section \<open>React hooks: memoised arrays\<close>

text \<open>
  Sequencing of computations that may raise: the first error ends the computation.
\<close>

definition then_js :: "js_error + 'a \<Rightarrow> ('a \<Rightarrow> js_error + 'b) \<Rightarrow> js_error + 'b" where
  "then_js m f = (case m of Inl e \<Rightarrow> Inl e | Inr v \<Rightarrow> f v)"

fun collect :: "(nat \<Rightarrow> js_error + 'a) \<Rightarrow> nat list \<Rightarrow> js_error + 'a list" where
  "collect f [] = Inr []"
| "collect f (i # is) = then_js (f i) (\<lambda>x. then_js (collect f is) (\<lambda>xs. Inr (x # xs)))"

text \<open>
  The remainder operator \<open>%\<close> on numbers that need not be integers: the quotient is
  truncated towards zero. (JavaScript yields NaN for a zero divisor; the theorems below
  only divide by positive values.)
\<close>

definition js_trunc :: "real \<Rightarrow> int" where
  "js_trunc x = (if x \<ge> 0 then \<lfloor>x\<rfloor> else \<lceil>x\<rceil>)"

definition js_fmod :: "real \<Rightarrow> real \<Rightarrow> real" where
  "js_fmod x y = x - y * real_of_int (js_trunc (x / y))"

text \<open>
  Modelled from the spec: the hook \<open>useMemo\<close>, imported from React, whose code is not
  under src/. The spec calls the components stateless; the hook is the one place where a
  component keeps something between renders, and it is modelled as React documents it.
  A mounted component instance keeps one cell per
  \<open>useMemo\<close> call: the dependency list of the last computation and the value computed
  then. When the dependencies of a render equal the stored ones the stored value is
  returned, otherwise the value is computed again and stored. For an array the value is
  a reference, so the arrays live in a store and the cell holds the reference: an
  in-place update of the returned array is an update of the memoised one.
\<close>

datatype dep = DNum real | DStr string

record memo_cell =
  cell_deps :: "dep list"
  cell_ref :: nat

record hooks =
  memo :: "memo_cell option"
  heap :: "nat \<Rightarrow> node list option"
  next_ref :: nat

text \<open>The hooks of a freshly mounted instance.\<close>

definition mount :: hooks where
  "mount = \<lparr>memo = None, heap = (\<lambda>r. None), next_ref = 0\<rparr>"

definition store_array :: "dep list \<Rightarrow> node list \<Rightarrow> hooks \<Rightarrow> nat \<times> hooks" where
  "store_array ds xs h =
     (let r = next_ref h
      in (r, \<lparr>memo = Some \<lparr>cell_deps = ds, cell_ref = r\<rparr>,
               heap = (heap h)(r := Some xs),
               next_ref = r + 1\<rparr>))"

definition useMemo :: "dep list \<Rightarrow> (js_error + node list) \<Rightarrow> hooks \<Rightarrow> js_error + nat \<times> hooks" where
  "useMemo ds compute h =
     (case memo h of
        None \<Rightarrow> then_js compute (\<lambda>xs. Inr (store_array ds xs h))
      | Some c \<Rightarrow>
          if cell_deps c = ds then Inr (cell_ref c, h)
          else then_js compute (\<lambda>xs. Inr (store_array ds xs h)))"

text \<open>\<open>Array.prototype.reverse\<close> reverses the array in place and returns the same reference.\<close>

definition Array_reverse :: "nat \<Rightarrow> hooks \<Rightarrow> hooks" where
  "Array_reverse r h =
     (case heap h r of
        None \<Rightarrow> h
      | Some xs \<Rightarrow> h\<lparr>heap := (heap h)(r := Some (rev xs))\<rparr>)"

definition read_array :: "nat \<Rightarrow> hooks \<Rightarrow> node list" where
  "read_array r h = (case heap h r of None \<Rightarrow> [] | Some xs \<Rightarrow> xs)"

section \<open>SpeedDemonSpinner (unnamed/part_005)\<close>

record SpeedDemonProps =
  sd_cyanColor :: string
  sd_iconSize :: real
  sd_strokeThickness :: real

definition SpeedDemon_defaultProps :: SpeedDemonProps where
  "SpeedDemon_defaultProps = \<lparr>sd_cyanColor = ''#00FFFF'', sd_iconSize = 1200, sd_strokeThickness = 40\<rparr>"

definition numTailSegments :: nat where
  "numTailSegments = 20"

text \<open>
  The rotation of the head: the module constant \<open>heavyRushEasing\<close>, the cycle index, the
  frame within the cycle and the eased rotation of one cycle.
\<close>

definition totalRotation :: "int \<Rightarrow> int \<Rightarrow> js_error + real" where
  "totalRotation frame durationInFrames =
     then_js (Easing_bezier 0.8 0.0 0.2 1.0) (\<lambda>heavyRushEasing.
       let cycles = 2;
           framesPerCycle = real_of_int durationInFrames / cycles;
           currentCycleIndex = Math_floor (real_of_int frame / framesPerCycle);
           frameInCycle = js_fmod (real_of_int frame) framesPerCycle
       in then_js (interpolate frameInCycle [0, framesPerCycle] [0, 360]
                     \<lparr>easing = heavyRushEasing, extrapolateLeft = Extend, extrapolateRight = Extend\<rparr>)
            (\<lambda>cycleRotation. Inr ((real_of_int currentCycleIndex * 360) + cycleRotation)))"

text \<open>
  The body of the \<open>map\<close> inside \<open>useMemo\<close>: the element \<open><CometSegment ... />\<close> of the
  stack position \<open>i\<close>.
\<close>

definition CometSegment_element ::
  "SpeedDemonProps \<Rightarrow> real \<Rightarrow> nat \<Rightarrow> js_error + node" where
  "CometSegment_element props rotation i =
     (let center = sd_iconSize props / 2;
          radius = (sd_iconSize props / 2) - sd_strokeThickness props;
          perimeter = 2 * pi * radius
      in then_js (interpolate (real i) [0, real numTailSegments - 1] [1, 0] default_options) (\<lambda>opacity.
         then_js (interpolate (real i) [0, real numTailSegments - 1] [0, 20] default_options) (\<lambda>blur.
         let rotationLag = real i * 2.5
         in then_js (interpolate (real i) [0, real numTailSegments - 1] [0.1, 0.35] default_options)
              (\<lambda>tailLengthRatio.
                 Inr (Elem ''CometSegment''
                        [(''key'', N (real i)),
                         (''center'', N center), (''radius'', N radius),
                         (''thickness'', N (sd_strokeThickness props)),
                         (''color'', S (sd_cyanColor props)),
                         (''perimeter'', N perimeter),
                         (''opacity'', N opacity),
                         (''blur'', N blur),
                         (''rotation'', N (rotation - rotationLag)),
                         (''tailLengthRatio'', N tailLengthRatio)] [])))))"

text \<open>The returned tree, with the children of the \<open>g\<close> element given.\<close>

definition SpeedDemonSpinner_markup :: "SpeedDemonProps \<Rightarrow> node list \<Rightarrow> node" where
  "SpeedDemonSpinner_markup props tailStack =
     (let center = sd_iconSize props / 2;
          radius = (sd_iconSize props / 2) - sd_strokeThickness props
      in Elem ''AbsoluteFill''
           [(''style.backgroundColor'', S ''#000000''), (''style.display'', S ''flex''),
            (''style.justifyContent'', S ''center''), (''style.alignItems'', S ''center'')]
           [Elem ''div''
              [(''style.width'', N (sd_iconSize props)), (''style.height'', N (sd_iconSize props)),
               (''style.position'', S ''relative'')]
              [Elem ''svg''
                 [(''width'', N (sd_iconSize props)), (''height'', N (sd_iconSize props)),
                  (''style.position'', S ''absolute''), (''style.opacity'', N 0.1)]
                 [Elem ''circle''
                    [(''cx'', N center), (''cy'', N center), (''r'', N radius),
                     (''fill'', S ''none''), (''stroke'', S (sd_cyanColor props)),
                     (''strokeWidth'', N (sd_strokeThickness props / 2))] []],
               Elem ''svg''
                 [(''width'', N (sd_iconSize props)), (''height'', N (sd_iconSize props)),
                  (''style.position'', S ''absolute''), (''style.overflow'', S ''visible'')]
                 [Elem ''defs'' []
                    [Elem ''filter'' [(''id'', S ''powerful-bloom'')]
                       [Elem ''feGaussianBlur''
                          [(''in'', S ''SourceGraphic''), (''stdDeviation'', S ''10''),
                           (''result'', S ''blur'')] [],
                        Elem ''feColorMatrix''
                          [(''in'', S ''blur''), (''type'', S ''matrix''),
                           (''values'', S ''1 0 0 0 0 0 1 0 0 0 0 0 1 0 0 0 0 0 1 -0.2''),
                           (''result'', S ''contrastBlur'')] [],
                        Elem ''feMerge'' []
                          [Elem ''feMergeNode'' [(''in'', S ''contrastBlur'')] [],
                           Elem ''feMergeNode'' [(''in'', S ''SourceGraphic'')] []]]],
                  Elem ''g'' [(''filter'', S ''url(#powerful-bloom)'')] tailStack]]])"

text \<open>
  One render of a mounted instance: the hooks before the render go in, the returned tree
  and the hooks after the render come out. \<open>tailStack\<close> is
  \<open>useMemo (...).reverse ()\<close>: the array the hook returns, reversed in place.
\<close>

definition SpeedDemonSpinner ::
  "SpeedDemonProps \<Rightarrow> int \<Rightarrow> int \<Rightarrow> hooks \<Rightarrow> js_error + node \<times> hooks" where
  "SpeedDemonSpinner props frame durationInFrames h =
     (let center = sd_iconSize props / 2;
          radius = (sd_iconSize props / 2) - sd_strokeThickness props;
          perimeter = 2 * pi * radius
      in then_js (totalRotation frame durationInFrames) (\<lambda>rotation.
           then_js (useMemo
                      [DNum center, DNum radius, DNum (sd_strokeThickness props),
                       DStr (sd_cyanColor props), DNum perimeter, DNum rotation]
                      (collect (CometSegment_element props rotation) [0..<numTailSegments])
                      h)
             (\<lambda>(r, h1).
                let h2 = Array_reverse r h1;
                    tailStack = read_array r h2
                in Inr (SpeedDemonSpinner_markup props tailStack, h2))))"

text \<open>
  Rendering a list of frames one after the other in one mounted instance, and the tree
  returned for a frame after such a history.
\<close>

fun SpeedDemonSpinner_frames ::
  "SpeedDemonProps \<Rightarrow> int \<Rightarrow> int list \<Rightarrow> hooks \<Rightarrow> js_error + hooks" where
  "SpeedDemonSpinner_frames props durationInFrames [] h = Inr h"
| "SpeedDemonSpinner_frames props durationInFrames (f # fs) h =
     then_js (SpeedDemonSpinner props f durationInFrames h)
       (\<lambda>(out, h1). SpeedDemonSpinner_frames props durationInFrames fs h1)"

definition SpeedDemonSpinner_after ::
  "SpeedDemonProps \<Rightarrow> int \<Rightarrow> int list \<Rightarrow> int \<Rightarrow> js_error + node" where
  "SpeedDemonSpinner_after props durationInFrames history frame =
     then_js (SpeedDemonSpinner_frames props durationInFrames history mount) (\<lambda>h.
       then_js (SpeedDemonSpinner props frame durationInFrames h) (\<lambda>(out, h1). Inr out))"

section \<open>Framework functions taken as parameters\<close>

text \<open>
  \<open>random\<close> (the framework's seeded pseudo-random function), \<open>spring\<close> and
  \<open>interpolateColors\<close> are imported from the rendering framework and their code is not
  under src/. They are parameters of the components that call them: functions that
  return a value for every argument. The video configuration that \<open>useVideoConfig\<close>
  returns is a record.
\<close>

record spring_args =
  sp_frame :: real
  sp_fps :: real
  sp_damping :: real
  sp_stiffness :: real
  sp_mass :: real
  sp_durationInFrames :: "real option"
  sp_delay :: real

record framework =
  fw_random :: "real \<Rightarrow> real"
  fw_spring :: "spring_args \<Rightarrow> real"
  fw_interpolateColors :: "real \<Rightarrow> real list \<Rightarrow> string list \<Rightarrow> string"

record video_config =
  cfg_fps :: int
  cfg_durationInFrames :: int
  cfg_width :: int
  cfg_height :: int

text \<open>
  Indexing an array. JavaScript yields \<open>undefined\<close> for an index outside the array
  instead of raising; the index is checked here, since an index in bounds is what is to
  be shown. \<open>new Array (n)\<close> raises for a negative length.
\<close>

definition js_nth :: "'a list \<Rightarrow> int \<Rightarrow> js_error + 'a" where
  "js_nth xs i = (if 0 \<le> i \<and> i < int (length xs) then Inr (xs ! nat i) else Inl IndexOutOfBounds)"

definition new_Array :: "int \<Rightarrow> js_error + nat list" where
  "new_Array n = (if n < 0 then Inl InvalidArrayLength else Inr [0..<nat n])"

section \<open>FallingHeartsEmoji (HeartsFallingOverlay.tsx)\<close>

record HeartParticle =
  hp_id :: nat
  hp_x :: real
  hp_size :: real
  hp_color :: string
  hp_speedMultiplier :: real
  hp_swayAmplitude :: real
  hp_swayPhase :: real
  hp_rotationSpeed :: real
  hp_rotationPhase :: real
  hp_startYOffset :: real

definition HEART_COUNT :: int where
  "HEART_COUNT = 50"

definition COLORS :: "string list" where
  "COLORS = [''#FF2400'', ''#FF1493'', ''#FFB6C1'']"

definition LOOP_HEIGHT :: "video_config \<Rightarrow> real" where
  "LOOP_HEIGHT cfg = real_of_int (cfg_height cfg) + 400"

text \<open>The index into \<open>COLORS\<close> of the particle with seed \<open>seed\<close>.\<close>

definition color_index :: "framework \<Rightarrow> real \<Rightarrow> int" where
  "color_index fw seed = Math_floor (fw_random fw (seed + 2) * real (length COLORS))"

text \<open>The body of the \<open>map\<close> inside \<open>useMemo\<close>: the particle with index \<open>i\<close>.\<close>

definition make_heart :: "framework \<Rightarrow> video_config \<Rightarrow> nat \<Rightarrow> js_error + HeartParticle" where
  "make_heart fw cfg i =
     (let seed = real i;
          x = fw_random fw seed * 1.2 - 0.1;
          size = 40 + fw_random fw (seed + 1) * 80
      in then_js (js_nth COLORS (color_index fw seed)) (\<lambda>color.
           let speedMultiplier = 1;
               swayAmplitude = 50 + fw_random fw (seed + 3) * 100;
               swayPhase = fw_random fw (seed + 4) * pi * 2;
               rotationSpeed = (fw_random fw (seed + 5) - 0.5) * 60;
               rotationPhase = fw_random fw (seed + 6) * pi * 2;
               startYOffset = fw_random fw (seed + 7) * LOOP_HEIGHT cfg
           in Inr \<lparr>hp_id = i, hp_x = x, hp_size = size, hp_color = color,
                    hp_speedMultiplier = speedMultiplier,
                    hp_swayAmplitude = swayAmplitude, hp_swayPhase = swayPhase,
                    hp_rotationSpeed = rotationSpeed, hp_rotationPhase = rotationPhase,
                    hp_startYOffset = startYOffset\<rparr>))"

definition make_hearts :: "framework \<Rightarrow> video_config \<Rightarrow> js_error + HeartParticle list" where
  "make_hearts fw cfg = then_js (new_Array HEART_COUNT) (collect (make_heart fw cfg))"

text \<open>The body of the render loop: the element of one particle at a frame.\<close>

definition heart_element :: "video_config \<Rightarrow> int \<Rightarrow> HeartParticle \<Rightarrow> node" where
  "heart_element cfg frame heart =
     (let progress = real_of_int frame / real_of_int (cfg_durationInFrames cfg);
          totalDistance = LOOP_HEIGHT cfg * hp_speedMultiplier heart;
          rawY = hp_startYOffset heart + (progress * totalDistance);
          wrappedY = js_fmod rawY (LOOP_HEIGHT cfg);
          finalY = wrappedY - 200;
          sway = sin (progress * pi * 2 + hp_swayPhase heart) * hp_swayAmplitude heart;
          finalX = (hp_x heart * real_of_int (cfg_width cfg)) + sway;
          rot = sin (progress * pi * 2 + hp_rotationPhase heart) * hp_rotationSpeed heart
      in Elem ''div''
           [(''key'', N (real (hp_id heart))),
            (''style.position'', S ''absolute''),
            (''style.left'', N 0), (''style.top'', N 0),
            (''style.transform'',
               Tpl [S ''translate('', N finalX, S ''px, '', N finalY, S ''px) rotate('', N rot,
                    S ''deg)'']),
            (''style.color'', S (hp_color heart)),
            (''style.fontSize'', Tpl [N (hp_size heart), S ''px'']),
            (''style.opacity'', N 0.85)]
           [Elem ''FaHeart'' [] []])"

text \<open>
  One render of a mounted instance. The dependency list of the \<open>useMemo\<close> is empty, and
  the particle array is never updated in place, so the hook cell is the array itself:
  empty before the first render, the particles of the first render afterwards.
\<close>

definition FallingHeartsEmoji ::
  "framework \<Rightarrow> video_config \<Rightarrow> int \<Rightarrow> HeartParticle list option
     \<Rightarrow> js_error + node \<times> HeartParticle list option" where
  "FallingHeartsEmoji fw cfg frame cell =
     then_js (case cell of None \<Rightarrow> make_hearts fw cfg | Some hearts \<Rightarrow> Inr hearts) (\<lambda>hearts.
       Inr (Elem ''AbsoluteFill'' [(''style.backgroundColor'', S ''#15ff00ff'')]
              (map (heart_element cfg frame) hearts),
            Some hearts))"

fun FallingHeartsEmoji_frames ::
  "framework \<Rightarrow> video_config \<Rightarrow> int list \<Rightarrow> HeartParticle list option
     \<Rightarrow> js_error + HeartParticle list option" where
  "FallingHeartsEmoji_frames fw cfg [] cell = Inr cell"
| "FallingHeartsEmoji_frames fw cfg (f # fs) cell =
     then_js (FallingHeartsEmoji fw cfg f cell)
       (\<lambda>(out, cell1). FallingHeartsEmoji_frames fw cfg fs cell1)"

definition FallingHeartsEmoji_after ::
  "framework \<Rightarrow> video_config \<Rightarrow> int list \<Rightarrow> int \<Rightarrow> js_error + node" where
  "FallingHeartsEmoji_after fw cfg history frame =
     then_js (FallingHeartsEmoji_frames fw cfg history None) (\<lambda>cell.
       then_js (FallingHeartsEmoji fw cfg frame cell) (\<lambda>(out, cell1). Inr out))"

definition FallingHeartsEmoji_config :: video_config where
  "FallingHeartsEmoji_config =
     \<lparr>cfg_fps = 30, cfg_durationInFrames = 10 * 30, cfg_width = 3840, cfg_height = 2160\<rparr>"

section \<open>NeonEKG (unnamed/part_004)\<close>

record EKGProps =
  gridSize :: real
  lineColor :: string
  gridColor :: string
  beatFrequency :: real
  flatlineStart :: real

definition NeonEKG_defaultProps :: EKGProps where
  "NeonEKG_defaultProps =
     \<lparr>gridSize = 100, lineColor = ''#00FF00'', gridColor = ''#003300'',
      beatFrequency = 30, flatlineStart = 210\<rparr>"

definition NeonEKG_config :: video_config where
  "NeonEKG_config =
     \<lparr>cfg_fps = 30, cfg_durationInFrames = 15 * 30, cfg_width = 3840, cfg_height = 2160\<rparr>"

text \<open>
  \<open>Math.random ()\<close> is the only source of values that are not determined by the
  arguments. It is modelled as a stream of numbers, unknown to the component, together
  with the number of values drawn so far.
\<close>

type_synonym rng = "nat \<Rightarrow> real"

text \<open>
  The first \<open>useMemo\<close>, \<open>points\<close>: the loop over the tail, from the head backwards. The
  amplitude of a point is the beat wave before \<open>flatlineStart\<close> and random noise after.
\<close>

definition points_beat :: "real \<Rightarrow> real" where
  "points_beat beatProgress =
     (if beatProgress > 0.1 \<and> beatProgress < 0.2
        then - 30 * sin ((beatProgress - 0.1) * pi * 10)
      else if beatProgress > 0.4 \<and> beatProgress < 0.45 then 50
      else if beatProgress \<ge> 0.45 \<and> beatProgress < 0.5 then - 350
      else if beatProgress \<ge> 0.5 \<and> beatProgress < 0.55 then 80
      else if beatProgress > 0.7 \<and> beatProgress < 0.85
        then - 50 * sin ((beatProgress - 0.7) * pi * 6)
      else 0)"

function points_loop ::
  "EKGProps \<Rightarrow> rng \<Rightarrow> real \<Rightarrow> nat \<Rightarrow> nat \<Rightarrow> (real \<times> real) list \<Rightarrow> (real \<times> real) list \<times> nat" where
  "points_loop props rnd currentHeadX i drawn pts =
     (if i < 2000 then
        let x = currentHeadX - real i
        in if x < 0 then (pts, drawn)
           else
             let speed = 15;
                 tFrame = x / speed
             in if tFrame < flatlineStart props then
                  let beatProgress = js_fmod tFrame (beatFrequency props) / beatFrequency props;
                      amplitude = points_beat beatProgress
                  in points_loop props rnd currentHeadX (i + 5) drawn (pts @ [(x, amplitude)])
                else
                  let amplitude = (rnd drawn - 0.5) * 5
                  in points_loop props rnd currentHeadX (i + 5) (drawn + 1) (pts @ [(x, amplitude)])
      else (pts, drawn))"
  by pat_completeness auto
termination
  by (relation "measure (\<lambda>(props, rnd, currentHeadX, i, drawn, pts). 2000 - i)") auto

declare points_loop.simps [simp del]

definition points :: "EKGProps \<Rightarrow> rng \<Rightarrow> nat \<Rightarrow> int \<Rightarrow> (real \<times> real) list \<times> nat" where
  "points props rnd drawn frame =
     (let speed = 15;
          currentHeadX = real_of_int frame * speed
      in points_loop props rnd currentHeadX 0 drawn [])"

text \<open>
  The second \<open>useMemo\<close>, \<open>polylinePoints\<close>: one entry \<open>`${x},${height / 2 + y}`\<close> for
  every tenth pixel column whose time is not negative, joined by spaces.
\<close>

definition polyline_y :: "EKGProps \<Rightarrow> real \<Rightarrow> real" where
  "polyline_y props tFrame =
     (if tFrame < flatlineStart props then
        let beatProgress = js_fmod tFrame (beatFrequency props) / beatFrequency props
        in if beatProgress > 0.1 \<and> beatProgress < 0.2
             then - 30 * sin ((beatProgress - 0.1) * pi * 10)
           else if beatProgress > 0.4 \<and> beatProgress < 0.43 then 50
           else if beatProgress \<ge> 0.43 \<and> beatProgress < 0.47 then - 400
           else if beatProgress \<ge> 0.47 \<and> beatProgress < 0.5 then 80
           else if beatProgress > 0.6 \<and> beatProgress < 0.75
             then - 60 * sin ((beatProgress - 0.6) * pi * 6)
           else 0
      else sin tFrame * 2)"

function polyline_loop :: "EKGProps \<Rightarrow> video_config \<Rightarrow> int \<Rightarrow> int \<Rightarrow> val list \<Rightarrow> val list" where
  "polyline_loop props cfg frame x p =
     (if x \<le> cfg_width cfg then
        let speed = 20;
            timeOffset = real_of_int (cfg_width cfg - x);
            visualTime = (real_of_int frame * speed) - timeOffset;
            tFrame = visualTime / speed
        in if tFrame < 0 then polyline_loop props cfg frame (x + 10) p
           else
             let y = polyline_y props tFrame
             in polyline_loop props cfg frame (x + 10)
                  (p @ [Tpl [N (real_of_int x), S '','', N ((real_of_int (cfg_height cfg) / 2) + y)]])
      else p)"
  by pat_completeness auto
termination
  by (relation "measure (\<lambda>(props, cfg, frame, x, p). nat (cfg_width cfg + 1 - x))") auto

declare polyline_loop.simps [simp del]

fun join_vals :: "val \<Rightarrow> val list \<Rightarrow> val list" where
  "join_vals sep [] = []"
| "join_vals sep [v] = [v]"
| "join_vals sep (v # w # vs) = v # sep # join_vals sep (w # vs)"

definition polylinePoints :: "EKGProps \<Rightarrow> video_config \<Rightarrow> int \<Rightarrow> val" where
  "polylinePoints props cfg frame = Tpl (join_vals (S '' '') (polyline_loop props cfg frame 0 []))"

text \<open>
  The render: both arrays are computed, the tree is returned together with the number of
  random values drawn. The tree mentions \<open>polylinePoints\<close> only.
\<close>

definition NeonEKG :: "EKGProps \<Rightarrow> video_config \<Rightarrow> rng \<Rightarrow> nat \<Rightarrow> int \<Rightarrow> node \<times> nat" where
  "NeonEKG props cfg rnd drawn frame =
     (let (pts, drawn1) = points props rnd drawn frame;
          line = polylinePoints props cfg frame
      in (Elem ''AbsoluteFill'' [(''style.backgroundColor'', S ''#000500'')]
            [Elem ''Grid'' [(''size'', N (gridSize props)), (''color'', S (gridColor props))] [],
             Elem ''svg''
               [(''width'', N (real_of_int (cfg_width cfg))),
                (''height'', N (real_of_int (cfg_height cfg))),
                (''style.overflow'', S ''visible'')]
               [Elem ''polyline''
                  [(''points'', line),
                   (''fill'', S ''none''),
                   (''stroke'', S (lineColor props)),
                   (''strokeWidth'', S ''8''),
                   (''strokeLinecap'', S ''round''),
                   (''strokeLinejoin'', S ''round''),
                   (''style.filter'',
                      Tpl [S ''drop-shadow(0 0 15px '', S (lineColor props),
                           S '') drop-shadow(0 0 30px '', S (lineColor props), S '')''])] []],
             Elem ''AbsoluteFill''
               [(''style.background'', S ''radial-gradient(circle, transparent 60%, black 100%)''),
                (''style.pointerEvents'', S ''none'')] []],
          drawn1))"

section \<open>The other components: the computations of each render\<close>

text \<open>
  For the components below the model keeps, in source order, every computation of the
  render: the calls of \<open>interpolate\<close> and of the easings, the arrays that are created
  and indexed, and the arithmetic on the frame and the configuration. The result is the
  list of the computed numbers that the returned markup mentions; the constant parts of
  the markup are left out.
\<close>

text \<open>
  Modelled from the spec: the other easings that these components import from the
  rendering framework, whose code is not under src/ (the spec: "linear (or eased)
  mapping"), as the framework documents them. \<open>Easing.ease\<close> is
  \<open>Easing.bezier (0.42, 0, 1, 1)\<close>.
\<close>

definition Easing_linear :: "real \<Rightarrow> real" where
  "Easing_linear t = t"

definition Easing_quad :: "real \<Rightarrow> real" where
  "Easing_quad t = t * t"

definition Easing_out :: "(real \<Rightarrow> real) \<Rightarrow> real \<Rightarrow> real" where
  "Easing_out e t = 1 - e (1 - t)"

definition Easing_inOut :: "(real \<Rightarrow> real) \<Rightarrow> real \<Rightarrow> real" where
  "Easing_inOut e t = (if t < 0.5 then e (t * 2) / 2 else 1 - e ((1 - t) * 2) / 2)"

definition Easing_ease :: "js_error + (real \<Rightarrow> real)" where
  "Easing_ease = Easing_bezier 0.42 0 1 1"

subsection \<open>NeonYearLoad (gameStyleLoadingwithstartEndtext.tsx)\<close>

definition NeonYearLoad_values :: "framework \<Rightarrow> video_config \<Rightarrow> real \<Rightarrow> int \<Rightarrow> js_error + real list" where
  "NeonYearLoad_values fw cfg glowIntensity frame =
     then_js (interpolate (real_of_int frame) [0, real_of_int (cfg_durationInFrames cfg - 20)]
                [0, 100] clamp_right) (\<lambda>progress.
       let percentDisplay = Math_floor progress
       in then_js (interpolate (sin (real_of_int frame / 10)) [-1, 1] [0.5, 1] default_options)
            (\<lambda>pulseOpacity.
               let flicker = fw_random fw (real_of_int frame) * 0.2 + 0.9
               in Inr [progress, real_of_int percentDisplay, pulseOpacity,
                       glowIntensity * flicker, 10 * flicker]))"

definition NeonYearLoad_config :: video_config where
  "NeonYearLoad_config =
     \<lparr>cfg_fps = 30, cfg_durationInFrames = 5 * 30, cfg_width = 3840, cfg_height = 2160\<rparr>"

subsection \<open>GlowingStringLights (lightStringsCombo.tsx)\<close>

definition GlowingBulb_values :: "video_config \<Rightarrow> int \<Rightarrow> int \<Rightarrow> js_error + real list" where
  "GlowingBulb_values cfg frame index =
     (let progress = real_of_int frame / real_of_int (cfg_durationInFrames cfg);
          rad = progress * pi * 2;
          uniqueOffset = real_of_int index * 1337;
          flickerSpeed = real_of_int (js_rem index 3) + 2
      in then_js (interpolate (sin (rad * flickerSpeed + uniqueOffset)) [-1, 1] [0.7, 1.0]
                    default_options) (\<lambda>flicker.
           then_js (interpolate flicker [0.7, 1] [0.95, 1.05] default_options) (\<lambda>scale.
             Inr [scale, flicker * 0.4, flicker * 0.6, flicker])))"

datatype string_type = Curve | Straight | Wave

text \<open>The body of the loop inside \<open>useMemo\<close>: the point with index \<open>i\<close> of a string.\<close>

definition string_point :: "string_type \<Rightarrow> real \<Rightarrow> real \<Rightarrow> real \<Rightarrow> int \<Rightarrow> nat \<Rightarrow> real \<times> real" where
  "string_point type yPos sway width steps i =
     (let x = (real i / real_of_int steps) * width;
          p = x / width
      in case type of
           Curve \<Rightarrow>
             (let sag = 200;
                  swayFactor = sin (p * pi)
              in (x, yPos + (swayFactor * sag) + (sway * swayFactor)))
         | Straight \<Rightarrow> (x, yPos + (sway * 0.5))
         | Wave \<Rightarrow>
             (let frequency = 4 * pi;
                  amplitude = 80
              in (x, yPos + sin (p * frequency + (sway / 50)) * amplitude)))"

definition string_points :: "video_config \<Rightarrow> string_type \<Rightarrow> real \<Rightarrow> real \<Rightarrow> (real \<times> real) list" where
  "string_points cfg type yPos sway =
     (let width = real_of_int (cfg_width cfg);
          steps = Math_ceil (width / 20)
      in map (string_point type yPos sway width steps) [0..<nat (steps + 1)])"

text \<open>The index of the point at which the bulb \<open>i\<close> hangs.\<close>

definition bulb_index :: "int \<Rightarrow> nat \<Rightarrow> int \<Rightarrow> int" where
  "bulb_index bulbCount len i = Math_floor ((real_of_int i / real_of_int bulbCount) * real len)"

text \<open>
  The body of the loop that places the bulbs: \<open>points[index]\<close>, guarded by \<open>if (pos)\<close>,
  and the bulb at that point.
\<close>

definition place_bulb ::
  "video_config \<Rightarrow> int \<Rightarrow> (real \<times> real) list \<Rightarrow> int \<Rightarrow> nat \<Rightarrow> js_error + real list" where
  "place_bulb cfg frame pts bulbCount k =
     (let i = int k + 1;
          index = bulb_index bulbCount (length pts) i
      in if 0 \<le> index \<and> index < int (length pts) then
           (let pos = pts ! nat index
            in then_js (GlowingBulb_values cfg frame i) (\<lambda>vs. Inr (fst pos # snd pos # vs)))
         else Inr [])"

definition LightString_values ::
  "video_config \<Rightarrow> real \<Rightarrow> real \<Rightarrow> string_type \<Rightarrow> real \<Rightarrow> real \<Rightarrow> int \<Rightarrow> js_error + real list" where
  "LightString_values cfg bulbSpacing swayIntensity type yPos swayOffset frame =
     (let progress = real_of_int frame / real_of_int (cfg_durationInFrames cfg);
          loopRad = progress * pi * 2;
          sway = sin (loopRad + swayOffset) * swayIntensity;
          pts = string_points cfg type yPos sway;
          bulbCount = Math_floor (real_of_int (cfg_width cfg) / bulbSpacing)
      in then_js (collect (place_bulb cfg frame pts bulbCount) [0..<nat (bulbCount - 1)]) (\<lambda>bulbs.
           Inr (concat (map (\<lambda>(x, y). [x, y]) pts) @ concat bulbs)))"

definition GlowingStringLights_values ::
  "video_config \<Rightarrow> real \<Rightarrow> real \<Rightarrow> int \<Rightarrow> js_error + real list" where
  "GlowingStringLights_values cfg bulbSpacing swayIntensity frame =
     then_js (LightString_values cfg bulbSpacing swayIntensity Curve
                (real_of_int (cfg_height cfg) * 0.1) 0 frame) (\<lambda>top.
     then_js (LightString_values cfg bulbSpacing swayIntensity Straight
                (real_of_int (cfg_height cfg) * 0.5) 2 frame) (\<lambda>middle.
     then_js (LightString_values cfg bulbSpacing swayIntensity Wave
                (real_of_int (cfg_height cfg) * 0.75) 4 frame) (\<lambda>bottom.
       Inr (top @ middle @ bottom))))"

definition GlowingStringLights_config :: video_config where
  "GlowingStringLights_config =
     \<lparr>cfg_fps = 30, cfg_durationInFrames = 10 * 30, cfg_width = 3840, cfg_height = 2160\<rparr>"

subsection \<open>StreamGlitch (glitchScanStartingSoon.tsx)\<close>

definition Scanlines_values :: "int \<Rightarrow> int \<Rightarrow> real list" where
  "Scanlines_values scanDuration frame =
     (let cycleFrame = js_rem frame scanDuration;
          scrollOffset = (real_of_int cycleFrame / real_of_int scanDuration) * 16
      in [scrollOffset])"

definition GlitchChar_values :: "framework \<Rightarrow> int \<Rightarrow> nat \<Rightarrow> real \<Rightarrow> int \<Rightarrow> nat \<Rightarrow> real list" where
  "GlitchChar_values fw scanDuration totalChars beamProgress frame index =
     (let charPos = real index / real totalChars;
          dist = \<bar>beamProgress - charPos\<bar>;
          isHit = dist < 0.15;
          loopFrame = js_rem frame scanDuration;
          seed = real index * 123 + real_of_int loopFrame;
          jitterX = (fw_random fw seed - 0.5) * (if isHit then 60 else 4);
          jitterY = (fw_random fw (seed + 1) - 0.5) * (if isHit then 10 else 2);
          opacity = (if isHit then fw_random fw (seed + 3) * 0.5 + 0.5 else 1);
          split = (if isHit then 20 else 0)
      in [jitterX, jitterY, opacity, jitterX - split, jitterX + split]
         @ (if isHit \<and> fw_random fw (seed + 4) > 0.7 then [fw_random fw (seed + 5) * 20] else []))"

definition StreamGlitch_values :: "framework \<Rightarrow> string \<Rightarrow> int \<Rightarrow> int \<Rightarrow> js_error + real list" where
  "StreamGlitch_values fw primaryText scanDuration frame =
     (let beamCycle = js_rem frame scanDuration
      in then_js (interpolate (real_of_int beamCycle) [0, real_of_int scanDuration] [-0.2, 1.2]
                    default_options) (\<lambda>beamProgress.
           let chars = primaryText
           in Inr (concat (map (GlitchChar_values fw scanDuration (length chars) beamProgress frame)
                             [0..<length chars])
                   @ [(beamProgress * 100) - 50]
                   @ Scanlines_values scanDuration frame)))"

subsection \<open>NeonCircleFrame (gradientGlowingCircle.tsx)\<close>

definition NeonCircleFrame_values :: "video_config \<Rightarrow> int \<Rightarrow> js_error + real list" where
  "NeonCircleFrame_values cfg frame =
     then_js (interpolate (real_of_int frame) [0, real_of_int (cfg_durationInFrames cfg)] [0, 360]
                \<lparr>easing = Easing_linear, extrapolateLeft = Extend, extrapolateRight = Extend\<rparr>)
       (\<lambda>rotation. Inr [rotation])"

definition frames300_config :: video_config where
  "frames300_config =
     \<lparr>cfg_fps = 30, cfg_durationInFrames = 300, cfg_width = 3840, cfg_height = 2160\<rparr>"

subsection \<open>GyroscopeV2 (gyrospinner.tsx)\<close>

definition GyroscopeV2_values :: "video_config \<Rightarrow> real \<Rightarrow> int \<Rightarrow> js_error + real list" where
  "GyroscopeV2_values cfg ringSize frame =
     then_js (interpolate (real_of_int frame) [0, real_of_int (cfg_durationInFrames cfg)] [0, 360]
                default_options) (\<lambda>innerSpin.
     then_js (interpolate (real_of_int frame) [0, real_of_int (cfg_durationInFrames cfg)] [360, 0]
                default_options) (\<lambda>outerSpin.
       let wobbleSlow = sin (real_of_int frame * 0.02) * 15;
           innerRadius = ringSize * 0.35;
           outerRadius = ringSize * 0.5
       in Inr [innerSpin, 60 + wobbleSlow, 10 - wobbleSlow, innerRadius * 1.5, innerRadius * 0.5,
               outerSpin, - 20 - wobbleSlow, 45 + wobbleSlow, outerRadius * 4, outerRadius * 1]))"

subsection \<open>ErrorCross (cross.tsx)\<close>

definition ErrorCross_values :: "framework \<Rightarrow> video_config \<Rightarrow> real \<Rightarrow> int \<Rightarrow> js_error + real list" where
  "ErrorCross_values fw cfg iconSize frame =
     (let center = iconSize / 2;
          radius = iconSize * 0.45;
          circlePerimeter = 2 * pi * radius;
          xOffset = iconSize * 0.25;
          circleDrawSpring =
            fw_spring fw
              \<lparr>sp_frame = real_of_int frame, sp_fps = real_of_int (cfg_fps cfg),
               sp_damping = 20, sp_stiffness = 150, sp_mass = 1,
               sp_durationInFrames = Some 30, sp_delay = 0\<rparr>
      in then_js (interpolate circleDrawSpring [0, 1] [circlePerimeter, 0] default_options)
           (\<lambda>circleDashOffset.
              let scaleStartFrame = 20;
                  xScaleSpring =
                    fw_spring fw
                      \<lparr>sp_frame = real_of_int frame, sp_fps = real_of_int (cfg_fps cfg),
                       sp_damping = 12, sp_stiffness = 150, sp_mass = 1,
                       sp_durationInFrames = None, sp_delay = scaleStartFrame\<rparr>;
                  shakeStartFrame = scaleStartFrame + 5;
                  shakeFrame = max 0 (real_of_int frame - shakeStartFrame);
                  shakeFrequency = 0.9;
                  shakeAmplitude = 60;
                  shakeDecayRate = 0.18;
                  decayEnvelope = exp (- shakeFrame * shakeDecayRate);
                  sineWave = sin (shakeFrame * shakeFrequency);
                  translateX = (if real_of_int frame > shakeStartFrame
                                then sineWave * shakeAmplitude * decayEnvelope else 0)
              in Inr [center - xOffset, center + xOffset, translateX, center, radius,
                      circlePerimeter, circleDashOffset, xScaleSpring]))"

definition ErrorCross_config :: video_config where
  "ErrorCross_config =
     \<lparr>cfg_fps = 30, cfg_durationInFrames = 120, cfg_width = 3840, cfg_height = 2160\<rparr>"

subsection \<open>GlowingLights (glowingLights.tsx)\<close>

definition Bulb_values :: "real \<Rightarrow> real \<Rightarrow> real \<Rightarrow> real \<Rightarrow> real \<Rightarrow> real \<Rightarrow> js_error + real list" where
  "Bulb_values x y scale seed durationInFrames currentFrame =
     (let progress = currentFrame / durationInFrames;
          flickerRaw = sin (progress * pi * 2 * 15 + seed * 10) * 0.1
                     + sin (progress * pi * 2 * 7 + seed * 20) * 0.05;
          flicker = flickerRaw + 1.0
      in then_js (interpolate flicker [0.85, 1.15] [0.7, 1] default_options) (\<lambda>opacity.
         then_js (interpolate flicker [0.85, 1.15] [1, 1.8] default_options) (\<lambda>brightnessBoost.
           let size = 24 * scale
           in Inr [x, y, size, opacity, 10 * scale, 2 * scale, 40 * scale, 15 * scale,
                   100 * scale, 30 * scale, brightnessBoost])))"

text \<open>The entries of the memoised array \<open>strings\<close>: start, end and sag of each string.\<close>

definition light_strings :: "video_config \<Rightarrow> real \<Rightarrow> ((real \<times> real) \<times> (real \<times> real) \<times> real) list" where
  "light_strings cfg sagStrength =
     (let width = real_of_int (cfg_width cfg)
      in [((- 100, 100), (width * 0.4, 300), sagStrength),
          ((width * 0.3, 200), (width * 0.8, 160), sagStrength + 40),
          ((width * 0.7, 80), (width + 100, 360), sagStrength + 20),
          ((- 40, 500), (width * 0.5, 700), sagStrength + 100),
          ((width * 0.4, 640), (width + 40, 560), sagStrength + 120)])"

definition getPointOnCurve :: "real \<times> real \<Rightarrow> real \<times> real \<Rightarrow> real \<times> real \<Rightarrow> real \<Rightarrow> real \<times> real" where
  "getPointOnCurve p0 p1 p2 t =
     (let invT = 1 - t;
          x = invT * invT * fst p0 + 2 * invT * t * fst p1 + t * t * fst p2;
          y = invT * invT * snd p0 + 2 * invT * t * snd p1 + t * t * snd p2
      in (x, y))"

definition light_string_values ::
  "framework \<Rightarrow> video_config \<Rightarrow> int \<Rightarrow> int \<Rightarrow> nat
     \<Rightarrow> (real \<times> real) \<times> (real \<times> real) \<times> real \<Rightarrow> js_error + real list" where
  "light_string_values fw cfg bulbCount frame index str =
     (let str_start = fst str; str_end = fst (snd str); sag = snd (snd str);
          midX = (fst str_start + fst str_end) / 2;
          midY = (snd str_start + snd str_end) / 2 + sag;
          currentBulbCount = bulbCount + (if index mod 2 = 0 then 5 else 0)
      in then_js (new_Array currentBulbCount) (\<lambda>is.
         then_js (collect
                    (\<lambda>i. let t = (real i + 1) / (real_of_int currentBulbCount + 1);
                             pos = getPointOnCurve str_start (midX, midY + sag) str_end t;
                             seed = fw_random fw (real index * 100 + real i)
                         in Bulb_values (fst pos) (snd pos + 8) (fw_random fw seed * 0.5 + 0.8) seed
                              (real_of_int (cfg_durationInFrames cfg)) (real_of_int frame))
                    is) (\<lambda>bulbs.
           Inr ([fst str_start, snd str_start, midX, midY + sag, fst str_end, snd str_end]
                @ concat bulbs))))"

definition GlowingLights_values ::
  "framework \<Rightarrow> video_config \<Rightarrow> int \<Rightarrow> real \<Rightarrow> int \<Rightarrow> js_error + real list" where
  "GlowingLights_values fw cfg bulbCount sagStrength frame =
     (let strings = light_strings cfg sagStrength
      in then_js (collect (\<lambda>index. light_string_values fw cfg bulbCount frame index (strings ! index))
                    [0..<length strings]) (\<lambda>vs. Inr (concat vs)))"

subsection \<open>NeonRadioWaves (radioSignalWaveCircle.tsx)\<close>

definition wave_values :: "int \<Rightarrow> real \<Rightarrow> real \<Rightarrow> real \<Rightarrow> int \<Rightarrow> nat \<Rightarrow> js_error + real list" where
  "wave_values waveCount waveLifeTime maxRadius strokeWidth frame index =
     (let offset = real index * (waveLifeTime / real_of_int waveCount);
          progress = js_fmod (real_of_int frame + offset) waveLifeTime / waveLifeTime
      in then_js (interpolate progress [0, 1] [0, maxRadius] default_options) (\<lambda>radius.
         then_js (interpolate progress [0, 0.1, 0.8, 1] [0, 1, 1, 0] default_options) (\<lambda>opacity.
         then_js (interpolate progress [0, 1] [strokeWidth, strokeWidth * 0.5] default_options)
           (\<lambda>currentStroke. Inr [radius * 2, radius * 2, currentStroke, opacity]))))"

definition NeonRadioWaves_values :: "int \<Rightarrow> real \<Rightarrow> real \<Rightarrow> real \<Rightarrow> int \<Rightarrow> js_error + real list" where
  "NeonRadioWaves_values waveCount waveLifeTime maxRadius strokeWidth frame =
     then_js (new_Array waveCount) (\<lambda>waves.
       then_js (collect (wave_values waveCount waveLifeTime maxRadius strokeWidth frame) waves)
         (\<lambda>vs. Inr (concat vs)))"

subsection \<open>SuccessCheckmark (successTick.tsx)\<close>

definition SuccessCheckmark_values :: "framework \<Rightarrow> video_config \<Rightarrow> real \<Rightarrow> int \<Rightarrow> js_error + real list" where
  "SuccessCheckmark_values fw cfg iconSize frame =
     (let center = iconSize / 2;
          radius = iconSize * 0.45;
          circlePerimeter = 2 * pi * radius;
          circleDrawSpring =
            fw_spring fw
              \<lparr>sp_frame = real_of_int frame, sp_fps = real_of_int (cfg_fps cfg),
               sp_damping = 20, sp_stiffness = 150, sp_mass = 1,
               sp_durationInFrames = Some 30, sp_delay = 0\<rparr>
      in then_js (interpolate circleDrawSpring [0, 1] [circlePerimeter, 0] default_options)
           (\<lambda>circleDashOffset.
              let checkmarkScaleSpring =
                    fw_spring fw
                      \<lparr>sp_frame = real_of_int frame, sp_fps = real_of_int (cfg_fps cfg),
                       sp_damping = 12, sp_stiffness = 150, sp_mass = 1,
                       sp_durationInFrames = None, sp_delay = 20\<rparr>;
                  pulseStartFrame = 50;
                  pulseFrame = max 0 (real_of_int frame - pulseStartFrame);
                  pulseSine = sin ((pulseFrame / real_of_int (cfg_fps cfg)) * pi * 2)
              in then_js (interpolate pulseSine [-1, 1] [1.0, 1.05] default_options) (\<lambda>pulseScale.
                   let finalScale = checkmarkScaleSpring
                                      * (if real_of_int frame > pulseStartFrame then pulseScale else 1)
                   in Inr [center, radius, circlePerimeter, circleDashOffset, finalScale])))"

definition SuccessCheckmark_config :: video_config where
  "SuccessCheckmark_config =
     \<lparr>cfg_fps = 30, cfg_durationInFrames = 150, cfg_width = 3840, cfg_height = 2160\<rparr>"

subsection \<open>FloatingSlider and ShapeShifter (progressTrackingLoadingBar.tsx)\<close>

definition FloatingSlider_values :: "video_config \<Rightarrow> real \<Rightarrow> int \<Rightarrow> js_error + real list" where
  "FloatingSlider_values cfg barWidth frame =
     then_js (Easing_bezier 0.25 0.1 0.25 1) (\<lambda>ease.
       then_js (interpolate (real_of_int frame) [0, real_of_int (cfg_durationInFrames cfg - 30)]
                  [0, 100]
                  \<lparr>easing = ease, extrapolateLeft = Extend, extrapolateRight = Clamp\<rparr>) (\<lambda>progress.
         let percentDisplay = Math_floor progress;
             currentX = (progress / 100) * barWidth
         in Inr [progress, real_of_int percentDisplay, currentX]))"

definition seconds10_config :: video_config where
  "seconds10_config =
     \<lparr>cfg_fps = 30, cfg_durationInFrames = 10 * 30, cfg_width = 3840, cfg_height = 2160\<rparr>"

definition ShapeShifter_values :: "video_config \<Rightarrow> int \<Rightarrow> js_error + real list" where
  "ShapeShifter_values cfg frame =
     (let halfDuration = real_of_int (cfg_durationInFrames cfg) / 2
      in then_js Easing_ease (\<lambda>ease.
         then_js (interpolate (real_of_int frame)
                    [0, halfDuration, real_of_int (cfg_durationInFrames cfg)] [0, 50, 0]
                    \<lparr>easing = Easing_inOut ease, extrapolateLeft = Clamp, extrapolateRight = Clamp\<rparr>)
           (\<lambda>borderRadius.
              then_js (interpolate (real_of_int frame) [0, real_of_int (cfg_durationInFrames cfg)]
                         [0, 360] default_options)
                (\<lambda>rotation. Inr [borderRadius, rotation]))))"

subsection \<open>NeonEqualizer: the two arrays of bars\<close>

definition NeonEqualizer_values :: "framework \<Rightarrow> video_config \<Rightarrow> int \<Rightarrow> js_error + node list" where
  "NeonEqualizer_values fw cfg frame =
     then_js (new_Array (int BAR_COUNT)) (\<lambda>is.
     then_js (collect (\<lambda>i. renderBar (fw_interpolateColors fw) frame (cfg_durationInFrames cfg)
                               (cfg_width cfg) (cfg_height cfg) i 1) is) (\<lambda>bars.
     then_js (new_Array (int BAR_COUNT)) (\<lambda>js.
     then_js (collect (\<lambda>i. renderBar (fw_interpolateColors fw) frame (cfg_durationInFrames cfg)
                               (cfg_width cfg) (cfg_height cfg) i 0.3) js) (\<lambda>reflectionBars.
       Inr (bars @ reflectionBars)))))"

subsection \<open>CyberpunkDataRing (cyberPunkLoadinRing.tsx)\<close>

definition RingLayer_values :: "video_config \<Rightarrow> real \<Rightarrow> real \<Rightarrow> real \<Rightarrow> real \<Rightarrow> int \<Rightarrow> js_error + real list" where
  "RingLayer_values cfg radius thickness rotationSpeed rotationDirection frame =
     (let totalRotation = 360 * rotationSpeed * rotationDirection
      in then_js (interpolate (real_of_int frame) [0, real_of_int (cfg_durationInFrames cfg)]
                    [0, totalRotation] default_options) (\<lambda>currentRotation.
           let size = (radius + thickness) * 2;
               center = size / 2;
               circumference = 2 * pi * radius
           in Inr [size, currentRotation, center, radius, thickness]))"

definition CyberpunkDataRing_values :: "video_config \<Rightarrow> real \<Rightarrow> int \<Rightarrow> js_error + real list" where
  "CyberpunkDataRing_values cfg iconSize frame =
     (let outerRadius = iconSize * 0.45;
          outerThickness = iconSize * 0.03;
          innerRadius = iconSize * 0.3;
          innerThickness = iconSize * 0.02
      in then_js (RingLayer_values cfg outerRadius outerThickness 1 1 frame) (\<lambda>outer.
         then_js (RingLayer_values cfg innerRadius innerThickness 3 (- 1) frame) (\<lambda>inner.
           Inr (outer @ [outerRadius * 0.5, outerRadius * 0.2]
                @ inner @ [innerRadius * 0.2, innerRadius * 0.2]))))"

subsection \<open>ReededGlassEffect (cyberPunkLoadinRing.tsx)\<close>

definition GradientBackground_blob :: "video_config \<Rightarrow> string list \<Rightarrow> int \<Rightarrow> nat \<Rightarrow> js_error + real list" where
  "GradientBackground_blob cfg colors frame i =
     (let width = real_of_int (cfg_width cfg);
          height = real_of_int (cfg_height cfg);
          blobs = [0, 1, 2 :: nat];
          progress = real_of_int frame / real_of_int (cfg_durationInFrames cfg);
          offset = real i * (pi * 2 / real (length blobs));
          x = sin (progress * pi * 2 + offset) * (width * 0.3) + (width / 2);
          y = cos (progress * pi * 2 * 2 + offset) * (height * 0.2) + (height / 2)
      in then_js (interpolate (sin (progress * pi * 4 + offset)) [-1, 1] [1, 1.5] default_options)
           (\<lambda>scale.
              then_js (js_nth colors (js_rem (int i) (int (length colors)))) (\<lambda>color.
                Inr [x, y, width * 0.6, width * 0.6])))"

definition ReededGlassEffect_values ::
  "video_config \<Rightarrow> int \<Rightarrow> real \<Rightarrow> string list \<Rightarrow> int \<Rightarrow> js_error + real list" where
  "ReededGlassEffect_values cfg stripCount glassBlur colors frame =
     (let stripWidth = real_of_int (cfg_width cfg) / real_of_int stripCount
      in then_js (new_Array stripCount) (\<lambda>strips.
         then_js (collect (GradientBackground_blob cfg colors frame) [0, 1, 2]) (\<lambda>blobs.
           Inr (concat blobs @ map (\<lambda>i. glassBlur) strips))))"

subsection \<open>SaberNumber, the digit of NeonSaberCountdown (cyberPunkLoadinRing.tsx)\<close>

definition SaberNumber_values :: "framework \<Rightarrow> int \<Rightarrow> int \<Rightarrow> js_error + real list" where
  "SaberNumber_values fw lf fps =
     (let entryDriver =
            fw_spring fw
              \<lparr>sp_frame = real_of_int lf, sp_fps = real_of_int fps,
               sp_damping = 12, sp_stiffness = 100, sp_mass = 0.6,
               sp_durationInFrames = Some 20, sp_delay = 0\<rparr>;
          pathLength = 3500
      in then_js (interpolate entryDriver [0, 1] [pathLength, 0] default_options) (\<lambda>strokeOffset.
         then_js (interpolate entryDriver [0, 1] [1.5, 1] default_options) (\<lambda>entryScale.
         then_js (interpolate entryDriver [0, 0.6] [20, 0] clamp_right) (\<lambda>entryBlur.
         then_js (interpolate (real_of_int lf) [real_of_int (fps - 8), real_of_int fps] [0, 1]
                    clamp_both) (\<lambda>exitProgress.
         then_js (interpolate exitProgress [0, 1] [1, 1.1] default_options) (\<lambda>exitScale.
         then_js (interpolate exitProgress [0, 1] [0, 30] default_options) (\<lambda>exitBlur.
         then_js (interpolate exitProgress [0, 0.4, 1] [1, 2.5, 0] default_options) (\<lambda>flash.
         then_js (interpolate exitProgress [0.5, 1] [1, 0] default_options) (\<lambda>exitOpacity.
           let totalScale = entryScale * exitScale;
               totalBlur = entryBlur + exitBlur
           in Inr [totalScale, flash, strokeOffset,
                   40 + totalBlur, 0.5 * exitOpacity,
                   10 + totalBlur, 1 * exitOpacity, totalBlur,
                   0 + totalBlur, 1 * exitOpacity])))))))))"

definition NeonSaberCountdown_values ::
  "framework \<Rightarrow> NeonSaberCountdownProps \<Rightarrow> int \<Rightarrow> int \<Rightarrow> js_error + real list" where
  "NeonSaberCountdown_values fw props frame fps =
     (if displayNumber props frame fps < 0 then Inr []
      else then_js (SaberNumber_values fw (localFrame frame fps) fps) (\<lambda>vs.
             Inr (real_of_int (displayNumber props frame fps) # vs)))"

definition NeonSaberCountdown_defaultProps :: NeonSaberCountdownProps where
  "NeonSaberCountdown_defaultProps =
     \<lparr>startNumber = 10, color = ''#00FFFF'', coreColor = ''#FFFFFF'', fontSize = 800\<rparr>"

subsection \<open>SegmentedCountdown: the whole render\<close>

text \<open>The memoised array \<open>ticks\<close>: the angle of every tick.\<close>

definition ticks :: "int \<Rightarrow> js_error + real list" where
  "ticks ticksCount =
     then_js (new_Array ticksCount) (\<lambda>is.
       Inr (map (\<lambda>i. (360 / real_of_int ticksCount) * real i) is))"

text \<open>The sub-component \<open>Tick\<close>: the position of a tick on the circle.\<close>

definition Tick_values :: "real \<Rightarrow> real \<Rightarrow> real \<Rightarrow> real list" where
  "Tick_values angle opacity radius =
     (let rad = (angle - 90) * (pi / 180);
          x = cos rad * radius;
          y = sin rad * radius
      in [x, y, angle, opacity])"

definition SegmentedCountdown_values ::
  "video_config \<Rightarrow> int \<Rightarrow> real \<Rightarrow> int \<Rightarrow> js_error + real list" where
  "SegmentedCountdown_values cfg ticksCount radius frame =
     then_js (remainingSeconds frame (cfg_durationInFrames cfg)) (\<lambda>seconds.
       let beat = real_of_int (js_rem frame (cfg_fps cfg)) / real_of_int (cfg_fps cfg)
       in then_js (interpolate beat [0, 0.1, 1] [1, 1.02, 1]
                     \<lparr>easing = Easing_out Easing_quad, extrapolateLeft = Extend,
                        extrapolateRight = Extend\<rparr>) (\<lambda>textScale.
          then_js (currentTickThreshold frame (cfg_durationInFrames cfg) ticksCount) (\<lambda>threshold.
          then_js (ticks ticksCount) (\<lambda>angles.
            Inr (concat (map (\<lambda>angle. Tick_values angle 1 radius) angles)
                 @ concat (map (\<lambda>i. Tick_values (angles ! i) (active_opacity threshold i) radius)
                             [0..<length angles])
                 @ [textScale, real_of_int seconds])))))"

definition SegmentedCountdown_config :: video_config where
  "SegmentedCountdown_config =
     \<lparr>cfg_fps = 30, cfg_durationInFrames = 30 * 30, cfg_width = 3840, cfg_height = 2160\<rparr>"

subsection \<open>BreakingNews (unnamed/part_001)\<close>

definition RotatingGlobe_values :: "int \<Rightarrow> js_error + real list" where
  "RotatingGlobe_values frame =
     then_js (interpolate (real_of_int frame) [0, 300] [0, 360] default_options)
       (\<lambda>rotation. Inr [rotation])"

definition LiveIndicator_values :: "int \<Rightarrow> js_error + real list" where
  "LiveIndicator_values frame =
     then_js (interpolate (real_of_int (js_rem frame 30)) [0, 15, 30] [1, 0.4, 1] default_options)
       (\<lambda>opacity. Inr [opacity])"

definition BreakingNews_values :: "framework \<Rightarrow> video_config \<Rightarrow> int \<Rightarrow> js_error + real list" where
  "BreakingNews_values fw cfg frame =
     (let entrySpr =
            fw_spring fw
              \<lparr>sp_frame = real_of_int frame, sp_fps = real_of_int (cfg_fps cfg),
               sp_damping = 14, sp_stiffness = 80, sp_mass = 1,
               sp_durationInFrames = None, sp_delay = 0\<rparr>
      in then_js (interpolate entrySpr [0, 1] [- real_of_int (cfg_width cfg), 0] default_options)
           (\<lambda>slideIn.
              let tickerOffset = js_rem (frame * 6) 2000
              in then_js (interpolate (real_of_int frame) [15, 25] [0, 1] default_options)
                   (\<lambda>textOpacity.
                      then_js (LiveIndicator_values frame) (\<lambda>live.
                      then_js (RotatingGlobe_values frame) (\<lambda>globe.
                        Inr ([real_of_int (cfg_width cfg) - 200, slideIn] @ live @ globe
                             @ [real_of_int tickerOffset]))))))"

subsection \<open>DualNeonChase (unnamed/part_002)\<close>

definition DualNeonChase_values :: "video_config \<Rightarrow> real \<Rightarrow> real \<Rightarrow> int \<Rightarrow> js_error + real list" where
  "DualNeonChase_values cfg thickness glowIntensity frame =
     (let rectW = 3400;
          rectH = 1900;
          cornerRadius = 60;
          startX = (real_of_int (cfg_width cfg) - rectW) / 2;
          startY = (real_of_int (cfg_height cfg) - rectH) / 2;
          perimeter = (rectW - 2 * cornerRadius) * 2 + (rectH - 2 * cornerRadius) * 2
                      + (2 * pi * cornerRadius)
      in then_js (interpolate (real_of_int frame) [0, real_of_int (cfg_durationInFrames cfg)]
                    [0, - perimeter] default_options) (\<lambda>baseOffset.
           let beamLength = perimeter * 0.40;
               gapLength = perimeter * 0.10
           in Inr [startX, startY, startX + rectW, startY + rectH,
                   beamLength, perimeter - beamLength,
                   baseOffset - 0, baseOffset - perimeter / 2,
                   thickness * 3, 0.6 * glowIntensity, thickness * 1.5, 0.8 * glowIntensity,
                   thickness, thickness * 0.3]))"

subsection \<open>NeonGrowth (unnamed/part_003)\<close>

definition NeonGrowth_values :: "video_config \<Rightarrow> real \<Rightarrow> int \<Rightarrow> js_error + real list" where
  "NeonGrowth_values cfg baseScale frame =
     (let getFloat = (\<lambda>offset. sin ((real_of_int frame + offset)
                                      / real_of_int (cfg_durationInFrames cfg) * pi * 4) * 80);
          floatL = getFloat 0;
          floatC = getFloat 20;
          floatR = getFloat 40
      in then_js (interpolate (sin (real_of_int frame / 10)) [-1, 1] [10, 25] default_options)
           (\<lambda>glowPulse.
              Inr [floatL, baseScale, glowPulse, floatC - 80, baseScale * 1.2, floatR,
                   200 * baseScale, glowPulse / 2]))"

subsection \<open>AuroraMeshGradient (unnamed/part_006)\<close>

definition OrganicBlob_values :: "video_config \<Rightarrow> int \<Rightarrow> real \<Rightarrow> int \<Rightarrow> real list" where
  "OrganicBlob_values cfg seed baseSize frame =
     (let width = real_of_int (cfg_width cfg);
          height = real_of_int (cfg_height cfg);
          progress = real_of_int frame / real_of_int (cfg_durationInFrames cfg);
          angle = progress * pi * 2;
          xOffset = sin (real_of_int seed * 11) * (width * 0.2);
          yOffset = cos (real_of_int seed * 7) * (height * 0.1);
          orbitRadiusX = width * (0.15 + real_of_int (js_rem seed 3) * 0.05);
          orbitRadiusY = height * (0.15 + real_of_int (js_rem (seed + 1) 3) * 0.05);
          direction = (if js_rem seed 2 = 0 then 1 else - 1);
          x = (width / 2) + xOffset + cos (angle * direction + real_of_int seed) * orbitRadiusX;
          y = (height / 2) + yOffset + sin (angle * direction + real_of_int seed) * orbitRadiusY;
          breathe = 1 + sin (angle * 2 + real_of_int seed) * 0.2;
          currentSize = baseSize * breathe
      in [x, y, currentSize])"

text \<open>The body of the \<open>map\<close> inside \<open>useMemo\<close>: the blob with index \<open>i\<close>.\<close>

definition aurora_blob ::
  "video_config \<Rightarrow> string list \<Rightarrow> int \<Rightarrow> nat \<Rightarrow> js_error + real list" where
  "aurora_blob cfg colors frame i =
     then_js (js_nth [0, 1, 2, 3, 4, 0] (int i)) (\<lambda>colorIndex.
     then_js (js_nth colors colorIndex) (\<lambda>color.
       let seed = int i * 45;
           baseSize = max (real_of_int (cfg_width cfg)) (real_of_int (cfg_height cfg)) * 0.6
       in Inr (OrganicBlob_values cfg seed baseSize frame)))"

definition AuroraMeshGradient_values ::
  "video_config \<Rightarrow> string list \<Rightarrow> real \<Rightarrow> int \<Rightarrow> js_error + real list" where
  "AuroraMeshGradient_values cfg colors blurAmount frame =
     then_js (collect (aurora_blob cfg colors frame) [0..<6]) (\<lambda>blobs.
       Inr (blurAmount # concat blobs))"

definition AuroraMeshGradient_config :: video_config where
  "AuroraMeshGradient_config =
     \<lparr>cfg_fps = 30, cfg_durationInFrames = 8 * 30, cfg_width = 4096, cfg_height = 2160\<rparr>"

definition AuroraMeshGradient_colors :: "string list" where
  "AuroraMeshGradient_colors = [''#00d2ff'', ''#00ff9d'', ''#006994'', ''#004d40'', ''#e0f7fa'']"

definition ReededGlass_colors :: "string list" where
  "ReededGlass_colors = [''#ffcc33'', ''#ffb347'', ''#ffffff'', ''#fdf5e6'']"

section \<open>The compositions and their default configuration\<close>

text \<open>
  Every file of the repository exports one composition: a component with its video
  configuration and default props. \<open>config_of\<close> is the \<open>compositionConfig\<close> of each
  (fps, duration in frames, width, height), \<open>render_default\<close> runs the render of the
  component at a frame with that configuration and the default props, from a freshly
  mounted instance, and forgets the result: what is left is whether the render raised.
\<close>

datatype component =
    C_NeonYearLoad | C_GlowingStringLights | C_StreamGlitch | C_ZenProgressBar
  | C_NeonCircleFrame | C_FallingHeartsEmoji | C_GyroscopeV2 | C_NeonLiveIndicator
  | C_ErrorCross | C_GlowingLights | C_NeonRadioWaves | C_SuccessCheckmark
  | C_FloatingSlider | C_ShapeShifter | C_NeonEqualizer | C_CyberpunkDataRing
  | C_ReededGlassEffect | C_NeonSaberCountdown | C_CleanProgressBar | C_SegmentedCountdown
  | C_NeonRecIndicator | C_BreakingNews | C_DualNeonChase | C_NeonGrowth
  | C_NeonEKG | C_SpeedDemonSpinner | C_AuroraMeshGradient

fun config_of :: "component \<Rightarrow> video_config" where
  "config_of C_NeonYearLoad = NeonYearLoad_config"
| "config_of C_ZenProgressBar =
     \<lparr>cfg_fps = 30, cfg_durationInFrames = 12 * 30, cfg_width = 3840, cfg_height = 2160\<rparr>"
| "config_of C_StreamGlitch =
     \<lparr>cfg_fps = 30, cfg_durationInFrames = 9 * 30, cfg_width = 3840, cfg_height = 2160\<rparr>"
| "config_of C_FallingHeartsEmoji = FallingHeartsEmoji_config"
| "config_of C_ErrorCross = ErrorCross_config"
| "config_of C_SuccessCheckmark = SuccessCheckmark_config"
| "config_of C_NeonSaberCountdown =
     \<lparr>cfg_fps = 30, cfg_durationInFrames = 11 * 30, cfg_width = 3840, cfg_height = 2160\<rparr>"
| "config_of C_SegmentedCountdown = SegmentedCountdown_config"
| "config_of C_NeonEKG = NeonEKG_config"
| "config_of C_AuroraMeshGradient = AuroraMeshGradient_config"
| "config_of C_GlowingStringLights = GlowingStringLights_config"
| "config_of C_NeonCircleFrame = frames300_config"
| "config_of C_GyroscopeV2 = frames300_config"
| "config_of C_ShapeShifter = frames300_config"
| "config_of C_CyberpunkDataRing = frames300_config"
| "config_of C_CleanProgressBar = frames300_config"
| "config_of C_SpeedDemonSpinner = frames300_config"
| "config_of C_NeonLiveIndicator = seconds10_config"
| "config_of C_GlowingLights = seconds10_config"
| "config_of C_NeonRadioWaves = seconds10_config"
| "config_of C_FloatingSlider = seconds10_config"
| "config_of C_NeonEqualizer = seconds10_config"
| "config_of C_ReededGlassEffect = seconds10_config"
| "config_of C_NeonRecIndicator = seconds10_config"
| "config_of C_BreakingNews = seconds10_config"
| "config_of C_DualNeonChase = seconds10_config"
| "config_of C_NeonGrowth = seconds10_config"

definition finished :: "js_error + 'a \<Rightarrow> js_error + unit" where
  "finished m = then_js m (\<lambda>v. Inr ())"

definition SegmentedCountdown_ticksCount :: int where
  "SegmentedCountdown_ticksCount = 100"

fun render_default :: "framework \<Rightarrow> rng \<Rightarrow> component \<Rightarrow> int \<Rightarrow> js_error + unit" where
  "render_default fw rnd C_NeonYearLoad frame =
     finished (NeonYearLoad_values fw (config_of C_NeonYearLoad) 20 frame)"
| "render_default fw rnd C_GlowingStringLights frame =
     finished (GlowingStringLights_values (config_of C_GlowingStringLights) 80 20 frame)"
| "render_default fw rnd C_StreamGlitch frame =
     finished (StreamGlitch_values fw ''STARTING SOON'' 90 frame)"
| "render_default fw rnd C_ZenProgressBar frame =
     finished (then_js (progressPercent frame (cfg_durationInFrames (config_of C_ZenProgressBar)))
                 (\<lambda>percent. textOpacity frame))"
| "render_default fw rnd C_NeonCircleFrame frame =
     finished (NeonCircleFrame_values (config_of C_NeonCircleFrame) frame)"
| "render_default fw rnd C_FallingHeartsEmoji frame =
     finished (FallingHeartsEmoji fw (config_of C_FallingHeartsEmoji) frame None)"
| "render_default fw rnd C_GyroscopeV2 frame =
     finished (GyroscopeV2_values (config_of C_GyroscopeV2) 1000 frame)"
| "render_default fw rnd C_NeonLiveIndicator frame =
     finished (NeonLiveIndicator_opacity frame)"
| "render_default fw rnd C_ErrorCross frame =
     finished (ErrorCross_values fw (config_of C_ErrorCross) 800 frame)"
| "render_default fw rnd C_GlowingLights frame =
     finished (GlowingLights_values fw (config_of C_GlowingLights) 15 240 frame)"
| "render_default fw rnd C_NeonRadioWaves frame =
     finished (NeonRadioWaves_values 8 120 1000 8 frame)"
| "render_default fw rnd C_SuccessCheckmark frame =
     finished (SuccessCheckmark_values fw (config_of C_SuccessCheckmark) 800 frame)"
| "render_default fw rnd C_FloatingSlider frame =
     finished (FloatingSlider_values (config_of C_FloatingSlider) 2400 frame)"
| "render_default fw rnd C_ShapeShifter frame =
     finished (ShapeShifter_values (config_of C_ShapeShifter) frame)"
| "render_default fw rnd C_NeonEqualizer frame =
     finished (NeonEqualizer_values fw (config_of C_NeonEqualizer) frame)"
| "render_default fw rnd C_CyberpunkDataRing frame =
     finished (CyberpunkDataRing_values (config_of C_CyberpunkDataRing) 1200 frame)"
| "render_default fw rnd C_ReededGlassEffect frame =
     finished (ReededGlassEffect_values (config_of C_ReededGlassEffect) 40 25 ReededGlass_colors frame)"
| "render_default fw rnd C_NeonSaberCountdown frame =
     finished (NeonSaberCountdown_values fw NeonSaberCountdown_defaultProps frame
                 (cfg_fps (config_of C_NeonSaberCountdown)))"
| "render_default fw rnd C_CleanProgressBar frame =
     finished (then_js (CleanProgressBar_percentage frame
                          (cfg_durationInFrames (config_of C_CleanProgressBar)))
                 (\<lambda>percentage. CleanProgressBar_fill_width frame
                                  (cfg_durationInFrames (config_of C_CleanProgressBar))))"
| "render_default fw rnd C_SegmentedCountdown frame =
     finished (SegmentedCountdown_values (config_of C_SegmentedCountdown)
                 SegmentedCountdown_ticksCount 450 frame)"
| "render_default fw rnd C_NeonRecIndicator frame =
     finished (NeonRecIndicator_opacity frame)"
| "render_default fw rnd C_BreakingNews frame =
     finished (BreakingNews_values fw (config_of C_BreakingNews) frame)"
| "render_default fw rnd C_DualNeonChase frame =
     finished (DualNeonChase_values (config_of C_DualNeonChase) 15 1 frame)"
| "render_default fw rnd C_NeonGrowth frame =
     finished (NeonGrowth_values (config_of C_NeonGrowth) 2.5 frame)"
| "render_default fw rnd C_NeonEKG frame =
     finished (Inr (NeonEKG NeonEKG_defaultProps (config_of C_NeonEKG) rnd 0 frame))"
| "render_default fw rnd C_SpeedDemonSpinner frame =
     finished (SpeedDemonSpinner SpeedDemon_defaultProps frame
                 (cfg_durationInFrames (config_of C_SpeedDemonSpinner)) mount)"
| "render_default fw rnd C_AuroraMeshGradient frame =
     finished (AuroraMeshGradient_values (config_of C_AuroraMeshGradient)
                 AuroraMeshGradient_colors 220 frame)"

section \<open>The pulsing indicators in double precision\<close>

text \<open>
  Whether two computed numbers are equal depends on the rounding of every operation, so
  for the opacity of the two indicators the computation is also written in the
  arithmetic the code runs in: IEEE 754 binary64, every operation rounded to the nearest
  double, ties to the even significand. A double is kept as the real number it denotes.
  \<open>quantum x\<close> is the spacing of the doubles around \<open>x\<close> (53 significant bits, subnormal
  below \<open>2 ^ - 1022\<close>) and \<open>fl x\<close> the double nearest to \<open>x\<close>. Overflow is left out: the
  values of this computation stay far below \<open>2 ^ 1024\<close>.
\<close>

definition round_even :: "real \<Rightarrow> int" where
  "round_even r =
     (let n = \<lfloor>r\<rfloor>; d = r - of_int n
      in if d < 1 / 2 then n else if 1 / 2 < d then n + 1 else if even n then n else n + 1)"

definition quantum :: "real \<Rightarrow> real" where
  "quantum x = 2 powr (of_int (max \<lfloor>log 2 \<bar>x\<bar>\<rfloor> (- 1022)) - 52)"

definition fl :: "real \<Rightarrow> real" where
  "fl x = (if x = 0 then 0 else of_int (round_even (x / quantum x)) * quantum x)"

text \<open>
  \<^verbatim>\<open>Math.PI\<close> is the double nearest to \<open>\<pi>\<close>, \<open>884279719003555 / 2 ^ 48\<close>. The language
  leaves the accuracy of \<^verbatim>\<open>Math.sin\<close> to the engine; it is taken here as the correctly
  rounded sine.
\<close>

definition Math_PI :: real where
  "Math_PI = 884279719003555 / 281474976710656"

definition Math_sin :: "real \<Rightarrow> real" where
  "Math_sin x = fl (sin x)"

text \<open>
  Modelled from the spec: \<open>interpolate\<close> as above, with each of its arithmetic
  operations rounded: the input is normalised by \<open>(input - inputMin) / (inputMax -
  inputMin)\<close>, eased, and scaled by \<open>result * (outputMax - outputMin) + outputMin\<close>.
\<close>

definition interpolateFunction64 ::
  "real \<Rightarrow> real \<Rightarrow> real \<Rightarrow> real \<Rightarrow> real \<Rightarrow> interpolate_options \<Rightarrow> real" where
  "interpolateFunction64 input inputMin inputMax outputMin outputMax opts =
     (if input < inputMin \<and> extrapolateLeft opts = Identity then input
      else
        let r1 = (if input < inputMin \<and> extrapolateLeft opts = Clamp then inputMin else input)
        in if r1 > inputMax \<and> extrapolateRight opts = Identity then r1
           else
             let r2 = (if r1 > inputMax \<and> extrapolateRight opts = Clamp then inputMax else r1)
             in if outputMin = outputMax then outputMin
                else fl (fl (easing opts (fl (fl (r2 - inputMin) / fl (inputMax - inputMin)))
                              * fl (outputMax - outputMin)) + outputMin))"

definition interpolate64 ::
  "real \<Rightarrow> real list \<Rightarrow> real list \<Rightarrow> interpolate_options \<Rightarrow> js_error + real" where
  "interpolate64 input inputRange outputRange opts =
     (if length inputRange \<noteq> length outputRange then Inl LengthMismatch
      else if length inputRange < 2 then Inl RangeTooShort
      else if \<not> strictly_increasing inputRange then Inl InputRangeNotIncreasing
      else
        let range = findRange input inputRange
        in Inr (interpolateFunction64 input
                  (inputRange ! range) (inputRange ! (range + 1))
                  (outputRange ! range) (outputRange ! (range + 1)) opts))"

text \<open>
  The opacity of the two indicators (unnamed/part_000 and LIVEind.tsx, lines 20 to 22).
  The literals \<open>60\<close>, \<open>2\<close>, \<open>-1\<close>, \<open>1\<close> and \<open>1.0\<close> are doubles; \<open>0.3\<close> denotes the double
  nearest to it.
\<close>

definition NeonRecIndicator_opacity64 :: "int \<Rightarrow> js_error + real" where
  "NeonRecIndicator_opacity64 frame =
     (let cycleDurationFrames = 60;
          t = fl (fl (fl (real_of_int frame / cycleDurationFrames) * Math_PI) * 2)
      in interpolate64 (Math_sin t) [-1, 1] [fl 0.3, 1.0] default_options)"

definition NeonLiveIndicator_opacity64 :: "int \<Rightarrow> js_error + real" where
  "NeonLiveIndicator_opacity64 frame =
     (let cycleDurationFrames = 60;
          t = fl (fl (fl (real_of_int frame / cycleDurationFrames) * Math_PI) * 2)
      in interpolate64 (Math_sin t) [-1, 1] [fl 0.3, 1.0] default_options)"

section \<open>Reference formulas\<close>

text \<open>
  The formulas the properties are stated against, written from their wording: the linear
  map of \<open>[a, b]\<close> onto \<open>[c, d]\<close> with the input clamped on both sides, or on the right
  only; and the closed form of the indicators' pulse.
\<close>

definition lerp_clamped :: "real \<Rightarrow> real \<Rightarrow> real \<Rightarrow> real \<Rightarrow> real \<Rightarrow> real" where
  "lerp_clamped x a b c d = c + (min (max x a) b - a) / (b - a) * (d - c)"

definition lerp_clamped_right :: "real \<Rightarrow> real \<Rightarrow> real \<Rightarrow> real \<Rightarrow> real \<Rightarrow> real" where
  "lerp_clamped_right x a b c d = c + (min x b - a) / (b - a) * (d - c)"

definition pulse_value :: "int \<Rightarrow> real" where
  "pulse_value f = 0.3 + (sin ((real_of_int f / 60) * pi * 2) + 1) / 2 * 0.7"

text \<open>The easing of ZenProgressBar, \<open>Easing.bezier (0.25, 0.1, 0.25, 1.0)\<close>, unfolded.\<close>

definition progressEase :: "real \<Rightarrow> real" where
  "progressEase x = (if x = 0 then 0 else if x = 1 then 1
                     else calcBezier (getTForX x (1/4) (1/4)) (1/10) 1)"

text \<open>The stack element of SpeedDemonSpinner at position \<open>i\<close>, with its values in closed form.\<close>

definition comet_segment :: "SpeedDemonProps \<Rightarrow> real \<Rightarrow> nat \<Rightarrow> node" where
  "comet_segment props rotation i =
     Elem ''CometSegment''
       [(''key'', N (real i)),
        (''center'', N (sd_iconSize props / 2)),
        (''radius'', N ((sd_iconSize props / 2) - sd_strokeThickness props)),
        (''thickness'', N (sd_strokeThickness props)),
        (''color'', S (sd_cyanColor props)),
        (''perimeter'', N (2 * pi * ((sd_iconSize props / 2) - sd_strokeThickness props))),
        (''opacity'', N (1 + real i / 19 * (0 - 1))),
        (''blur'', N (0 + real i / 19 * (20 - 0))),
        (''rotation'', N (rotation - real i * 2.5)),
        (''tailLengthRatio'', N (0.1 + real i / 19 * (0.35 - 0.1)))] []"

text \<open>The stack in the order the \<open>map\<close> produces it: the head, position 0, first.\<close>

definition head_first :: "SpeedDemonProps \<Rightarrow> real \<Rightarrow> node list" where
  "head_first props rotation = map (comet_segment props rotation) [0..<numTailSegments]"

text \<open>
  An enclosure of the sine of a rational by its Maclaurin polynomial in integer
  arithmetic. With \<open>x\<^sup>2 = yn / yd\<close> and a scale \<open>S\<close>, \<open>lo\<close> and \<open>hi\<close> enclose \<open>S\<close> times
  the term \<open>x ^ m / m!\<close>; the next term is the last one times \<open>x\<^sup>2 / ((m + 1) * (m + 2))\<close>,
  rounded down and up, and the alternating sum is enclosed from the inside out. After
  \<open>n\<close> terms the remainder is at most the next term.
\<close>

fun sin_enclosure :: "nat \<Rightarrow> int \<Rightarrow> int \<Rightarrow> int \<Rightarrow> int \<Rightarrow> int \<Rightarrow> int \<times> int" where
  "sin_enclosure 0 m yn yd lo hi = (- hi, hi)"
| "sin_enclosure (Suc n) m yn yd lo hi =
     (case sin_enclosure n (m + 2) yn yd
             ((lo * yn) div (yd * ((m + 1) * (m + 2))))
             (- ((- (hi * yn)) div (yd * ((m + 1) * (m + 2))))) of
        (l, h) \<Rightarrow> (lo - h, hi - l))"

definition sin_term :: "real \<Rightarrow> nat \<Rightarrow> real" where
  "sin_term x k = x ^ (2 * k + 1) / fact (2 * k + 1)"

definition pulse64 :: "int \<Rightarrow> real" where
  "pulse64 f =
     (let t = fl (fl (fl (real_of_int f / 60) * Math_PI) * 2)
      in fl (fl (fl (fl (Math_sin t - (- 1)) / fl (1 - (- 1))) * fl (1 - fl 0.3)) + fl 0.3))"

section \<open>Properties of the framework's interpolation\<close>

lemma findRange_two: "findRange x [a, b] = 0"
  by (simp add: findRange_def)

lemma interpolate_two:
  assumes "a < b"
  shows "interpolate x [a, b] [c, d] opts = Inr (interpolateFunction x a b c d opts)"
  using assms by (simp add: interpolate_def findRange_two)

lemma interpolateFunction_clamp_both:
  assumes "a < b"
  shows "interpolateFunction x a b c d clamp_both = lerp_clamped x a b c d"
  using assms
  by (auto simp add: interpolateFunction_def clamp_both_def lerp_clamped_def Let_def min_def max_def)

lemma lerp_down_range:
  assumes "a < b" "d \<le> c"
  shows "d \<le> lerp_clamped x a b c d" "lerp_clamped x a b c d \<le> c"
proof -
  define u where "u = (min (max x a) b - a) / (b - a)"
  have u: "0 \<le> u" "u \<le> 1" using assms(1) by (auto simp: u_def min_def max_def)
  have L: "lerp_clamped x a b c d = c + u * (d - c)" by (simp add: lerp_clamped_def u_def)
  have "u * (d - c) \<le> 0" using u assms(2) by (intro mult_nonneg_nonpos) auto
  then show "lerp_clamped x a b c d \<le> c" by (simp add: L)
  have "u * (c - d) \<le> 1 * (c - d)" using u assms(2) by (intro mult_right_mono) auto
  then have "c + u * (d - c) \<ge> d" by (simp add: algebra_simps)
  then show "d \<le> lerp_clamped x a b c d" by (simp add: L)
qed

lemma lerp_down_antimono:
  assumes "a < b" "d \<le> c" "x \<le> y"
  shows "lerp_clamped y a b c d \<le> lerp_clamped x a b c d"
proof -
  have "(min (max x a) b - a) / (b - a) \<le> (min (max y a) b - a) / (b - a)"
    using assms(1,3) by (intro divide_right_mono) (auto simp: min_def max_def)
  then have "(min (max y a) b - a) / (b - a) * (d - c) \<le> (min (max x a) b - a) / (b - a) * (d - c)"
    using assms(2) by (intro mult_right_mono_neg) auto
  then show ?thesis by (simp add: lerp_clamped_def)
qed

lemma interpolateFunction_clamp_right:
  assumes "a < b"
  shows "interpolateFunction x a b c d clamp_right = lerp_clamped_right x a b c d"
  using assms
  by (auto simp add: interpolateFunction_def clamp_right_def lerp_clamped_right_def Let_def min_def)

lemma interpolateFunction_default:
  assumes "a < b"
  shows "interpolateFunction x a b c d default_options = c + (x - a) / (b - a) * (d - c)"
  using assms
  by (auto simp add: interpolateFunction_def default_options_def Let_def)

lemma pulse_range:
  assumes "-1 \<le> s" "s \<le> (1::real)" "lo \<le> hi"
  shows "lo \<le> lo + (s - (-1)) / (1 - (-1)) * (hi - lo)" "lo + (s - (-1)) / (1 - (-1)) * (hi - lo) \<le> hi"
proof -
  define u where "u = (s - (-1)) / (1 - (-1))"
  have u: "0 \<le> u" "u \<le> 1" using assms by (auto simp: u_def)
  have "0 \<le> u * (hi - lo)" using u assms(3) by simp
  then show "lo \<le> lo + (s - (-1)) / (1 - (-1)) * (hi - lo)" by (simp add: u_def)
  have "u * (hi - lo) \<le> 1 * (hi - lo)" using u assms(3) by (intro mult_right_mono) auto
  then show "lo + (s - (-1)) / (1 - (-1)) * (hi - lo) \<le> hi" by (simp add: u_def)
qed

lemma lerp_up_range:
  assumes "a < b" "c \<le> d"
  shows "c \<le> lerp_clamped x a b c d" "lerp_clamped x a b c d \<le> d"
proof -
  define u where "u = (min (max x a) b - a) / (b - a)"
  have u: "0 \<le> u" "u \<le> 1" using assms(1) by (auto simp: u_def min_def max_def)
  have L: "lerp_clamped x a b c d = c + u * (d - c)" by (simp add: lerp_clamped_def u_def)
  have "0 \<le> u * (d - c)" using u assms(2) by simp
  then show "c \<le> lerp_clamped x a b c d" by (simp add: L)
  have "u * (d - c) \<le> 1 * (d - c)" using u assms(2) by (intro mult_right_mono) auto
  then show "lerp_clamped x a b c d \<le> d" by (simp add: L)
qed

lemma interpolate_clamp_both_up:
  assumes "a < b" "c \<le> d"
  shows "\<exists>v. interpolate x [a, b] [c, d] clamp_both = Inr v \<and> c \<le> v \<and> v \<le> d"
  using assms lerp_up_range[OF assms, of x]
  by (simp add: interpolate_two interpolateFunction_clamp_both)

section \<open>Properties of NeonSaberCountdown\<close>

lemma floor_div_int:
  fixes a b :: int
  assumes "0 < b"
  shows "\<lfloor>real_of_int a / real_of_int b\<rfloor> = a div b"
  by (simp add: floor_divide_of_int_eq)

lemma js_rem_nonneg:
  assumes "0 \<le> a" and "0 < b"
  shows "js_rem a b = a mod b"
proof (cases "a = 0")
  case True
  then show ?thesis by (simp add: js_rem_def)
next
  case False
  with assms have "sgn a = 1" "\<bar>a\<bar> = a" "\<bar>b\<bar> = b" by simp_all
  then show ?thesis by (simp add: js_rem_def)
qed

text \<open>
  C9. For every non-negative frame (and a positive frame rate) the displayed number is
  \<open>startNumber - floor (frame / fps)\<close>, the local frame is \<open>frame mod fps\<close> and lies in
  \<open>[0, fps)\<close>. When the displayed number is negative the component returns the black
  fill with no child at all, so no digit is rendered; otherwise it returns the black fill
  with one \<open>SaberNumber\<close> whose \<open>key\<close> and \<open>number\<close> are the displayed number and whose
  \<open>localFrame\<close> is the local frame.
\<close>

theorem NeonSaberCountdown_sequencer:
  assumes "0 \<le> frame" and "0 < fps"
  shows "displayNumber props frame fps = startNumber props - frame div fps
       \<and> localFrame frame fps = frame mod fps
       \<and> 0 \<le> localFrame frame fps \<and> localFrame frame fps < fps
       \<and> (startNumber props - frame div fps < 0 \<longrightarrow>
            NeonSaberCountdown props frame fps
              = Elem ''AbsoluteFill'' [(''style.backgroundColor'', S ''#000000'')] [])
       \<and> (\<not> startNumber props - frame div fps < 0 \<longrightarrow>
            NeonSaberCountdown props frame fps
              = Elem ''AbsoluteFill'' [(''style.backgroundColor'', S ''#000000'')]
                  [Elem ''SaberNumber''
                     [(''key'', N (real_of_int (startNumber props - frame div fps))),
                      (''number'', N (real_of_int (startNumber props - frame div fps))),
                      (''localFrame'', N (real_of_int (frame mod fps))),
                      (''config.startNumber'', N (real_of_int (startNumber props))),
                      (''config.color'', S (color props)),
                      (''config.coreColor'', S (coreColor props)),
                      (''config.fontSize'', N (real_of_int (fontSize props))),
                      (''fps'', N (real_of_int fps))] []])"
proof -
  have d: "displayNumber props frame fps = startNumber props - frame div fps"
    using assms(2)
    by (simp add: displayNumber_def currentSecondIndex_def Math_floor_def floor_div_int)
  have l: "localFrame frame fps = frame mod fps"
    using assms by (simp add: localFrame_def js_rem_nonneg)
  have r: "0 \<le> frame mod fps \<and> frame mod fps < fps"
    using assms(2) by simp
  show ?thesis
    using r by (simp add: NeonSaberCountdown_def black_fill_def SaberNumber_element_def d l)
qed

theorem NeonSaberCountdown_sequencer_witness:
  "(0::int) \<le> 345 \<and> (0::int) < 30
   \<and> displayNumber \<lparr>startNumber = 10, color = ''#00FFFF'', coreColor = ''#FFFFFF'', fontSize = 800\<rparr> 345 30 = -1
   \<and> localFrame 345 30 = 15
   \<and> NeonSaberCountdown \<lparr>startNumber = 10, color = ''#00FFFF'', coreColor = ''#FFFFFF'', fontSize = 800\<rparr> 345 30
       = Elem ''AbsoluteFill'' [(''style.backgroundColor'', S ''#000000'')] []
   \<and> (0::int) \<le> 75
   \<and> NeonSaberCountdown \<lparr>startNumber = 10, color = ''#00FFFF'', coreColor = ''#FFFFFF'', fontSize = 800\<rparr> 75 30
       = Elem ''AbsoluteFill'' [(''style.backgroundColor'', S ''#000000'')]
           [Elem ''SaberNumber''
              [(''key'', N 8), (''number'', N 8), (''localFrame'', N 15),
               (''config.startNumber'', N 10), (''config.color'', S ''#00FFFF''),
               (''config.coreColor'', S ''#FFFFFF''), (''config.fontSize'', N 800),
               (''fps'', N 30)] []]"
  using NeonSaberCountdown_sequencer
          [of 345 30 "\<lparr>startNumber = 10, color = ''#00FFFF'', coreColor = ''#FFFFFF'', fontSize = 800\<rparr>"]
        NeonSaberCountdown_sequencer
          [of 75 30 "\<lparr>startNumber = 10, color = ''#00FFFF'', coreColor = ''#FFFFFF'', fontSize = 800\<rparr>"]
  by simp

section \<open>Properties of SegmentedCountdown\<close>

lemma remainingSeconds_eq:
  assumes "0 < D"
  shows "remainingSeconds frame D = Inr \<lceil>lerp_clamped (real_of_int frame) 0 (real_of_int D) 30 0\<rceil>"
  using assms
  by (simp add: remainingSeconds_def interpolate_two interpolateFunction_clamp_both Math_ceil_def)

text \<open>
  C4. For a positive duration and every frame, \<open>remainingSeconds\<close> is the ceiling of the
  linear interpolation of the frame from \<open>[0, durationInFrames]\<close> to \<open>[30, 0]\<close>, clamped
  on both sides. It lies in \<open>[0, 30]\<close>, is 30 at frame 0 and 0 at frame
  \<open>durationInFrames\<close>, and does not increase when the frame increases.
\<close>

theorem remainingSeconds_countdown:
  assumes "0 < D"
  shows "(\<exists>r. remainingSeconds frame D = Inr r
            \<and> r = \<lceil>lerp_clamped (real_of_int frame) 0 (real_of_int D) 30 0\<rceil>
            \<and> 0 \<le> r \<and> r \<le> 30
            \<and> (\<forall>frame' r'. frame \<le> frame' \<and> remainingSeconds frame' D = Inr r' \<longrightarrow> r' \<le> r))
       \<and> remainingSeconds 0 D = Inr 30
       \<and> remainingSeconds D D = Inr 0"
proof -
  have D: "(0::real) < real_of_int D" using assms by simp
  let ?L = "\<lambda>f. lerp_clamped (real_of_int f) 0 (real_of_int D) 30 0"
  have lo: "0 \<le> \<lceil>?L frame\<rceil>"
    using lerp_down_range(1)[OF D, of 0 30 "real_of_int frame"] by (simp add: le_ceiling_iff)
  have hi: "\<lceil>?L frame\<rceil> \<le> 30"
    using lerp_down_range(2)[OF D, of 0 30 "real_of_int frame"] by (simp add: ceiling_le_iff)
  have mono: "\<lceil>?L f'\<rceil> \<le> \<lceil>?L frame\<rceil>" if "frame \<le> f'" for f'
    using lerp_down_antimono[OF D, of 0 30 "real_of_int frame" "real_of_int f'"] that
    by (simp add: ceiling_mono)
  have z: "?L 0 = 30" using assms by (simp add: lerp_clamped_def)
  have e: "?L D = 0" using assms by (simp add: lerp_clamped_def)
  show ?thesis
    using lo hi mono z e by (auto simp add: remainingSeconds_eq[OF assms])
qed

theorem remainingSeconds_countdown_witness:
  "(0::int) < 900
   \<and> remainingSeconds 0 900 = Inr 30
   \<and> remainingSeconds 900 900 = Inr 0
   \<and> (\<exists>r. remainingSeconds 447 900 = Inr r \<and> 0 \<le> r \<and> r \<le> 30)"
proof -
  have h: "(0::int) < 900" by simp
  from remainingSeconds_countdown [OF h, of 447] show ?thesis by auto
qed

lemma currentTickThreshold_eq:
  assumes "0 < D"
  shows "currentTickThreshold frame D n
           = Inr (lerp_clamped (real_of_int frame) 0 (real_of_int D) 1 0 * real_of_int n)"
  using assms
  by (simp add: currentTickThreshold_def SegmentedCountdown_progress_def interpolate_two
        interpolateFunction_clamp_both)

lemma active_opacity_range: "0 \<le> active_opacity t i \<and> active_opacity t i \<le> 1"
  by (simp add: active_opacity_def Let_def)

lemma active_opacity_mono: "t \<le> t' \<Longrightarrow> active_opacity t i \<le> active_opacity t' i"
  by (simp add: active_opacity_def Let_def)

text \<open>
  C5. For a positive duration, every frame and every tick index \<open>i\<close> below
  \<open>ticksCount\<close>, the opacity of the active tick lies in \<open>[0, 1]\<close>: it is 1 when
  \<open>currentTickThreshold - i > 1\<close>, 0 when \<open>currentTickThreshold - i < 0\<close>, and
  \<open>currentTickThreshold - i\<close> otherwise; and for a fixed \<open>i\<close> it does not increase when
  the frame increases.
\<close>

theorem active_tick_opacity_fades:
  assumes "0 < D" and "int i < ticksCount"
  shows "\<exists>t op. currentTickThreshold frame D ticksCount = Inr t
           \<and> active_tick_opacity frame D ticksCount i = Inr op
           \<and> 0 \<le> op \<and> op \<le> 1
           \<and> (t - real i > 1 \<longrightarrow> op = 1)
           \<and> (t - real i < 0 \<longrightarrow> op = 0)
           \<and> (\<not> t - real i > 1 \<and> \<not> t - real i < 0 \<longrightarrow> op = t - real i)
           \<and> (\<forall>frame' op'. frame \<le> frame'
                  \<and> active_tick_opacity frame' D ticksCount i = Inr op' \<longrightarrow> op' \<le> op)"
proof -
  have D: "(0::real) < real_of_int D" using assms(1) by simp
  have n: "(0::real) \<le> real_of_int ticksCount" using assms(2) by simp
  let ?T = "\<lambda>f. lerp_clamped (real_of_int f) 0 (real_of_int D) 1 0 * real_of_int ticksCount"
  have T: "currentTickThreshold f D ticksCount = Inr (?T f)" for f
    by (rule currentTickThreshold_eq[OF assms(1)])
  have A: "active_tick_opacity f D ticksCount i = Inr (active_opacity (?T f) i)" for f
    by (simp add: active_tick_opacity_def T)
  have mono: "active_opacity (?T f') i \<le> active_opacity (?T frame) i" if "frame \<le> f'" for f'
  proof -
    have "lerp_clamped (real_of_int f') 0 (real_of_int D) 1 0
            \<le> lerp_clamped (real_of_int frame) 0 (real_of_int D) 1 0"
      using that by (intro lerp_down_antimono[OF D]) auto
    then have "?T f' \<le> ?T frame" using n by (rule mult_right_mono)
    then show ?thesis by (rule active_opacity_mono)
  qed
  show ?thesis
    using mono active_opacity_range[of "?T frame" i]
    by (auto simp add: T A) (simp_all add: active_opacity_def Let_def)
qed

theorem active_tick_opacity_fades_witness:
  "(0::int) < 900 \<and> int 50 < 100
   \<and> (\<exists>op. active_tick_opacity 447 900 100 50 = Inr op \<and> 0 \<le> op \<and> op \<le> 1)"
proof -
  have h: "(0::int) < 900" "int 50 < 100" by simp_all
  from active_tick_opacity_fades [OF h, of 447] show ?thesis by auto
qed

section \<open>Properties of CleanProgressBar\<close>

lemma CleanProgressBar_progress_eq:
  assumes "2 \<le> D"
  shows "CleanProgressBar_progress frame D
           = Inr (lerp_clamped_right (real_of_int frame) 0 (real_of_int (D - 1)) 0 1)"
  using assms
  by (simp add: CleanProgressBar_progress_def interpolate_two interpolateFunction_clamp_right)

text \<open>
  The input range \<open>[0, durationInFrames - 1]\<close> is rejected by \<open>interpolate\<close> when the
  composition has a single frame.
\<close>

lemma CleanProgressBar_single_frame:
  "CleanProgressBar_progress 0 1 = Inl InputRangeNotIncreasing"
  by (simp add: CleanProgressBar_progress_def interpolate_def)

text \<open>
  C8. For a composition of at least two frames and every frame in
  \<open>[0, durationInFrames - 1]\<close>, \<open>progress\<close> is the linear interpolation of the frame from
  \<open>[0, durationInFrames - 1]\<close> to \<open>[0, 1]\<close> clamped on the right; it lies in \<open>[0, 1]\<close> and
  does not decrease with the frame. At the last frame \<open>progress\<close> is exactly 1, the fill
  width is \<open>100%\<close> and the displayed percentage is exactly 100.
\<close>

theorem CleanProgressBar_reaches_100:
  assumes "2 \<le> D" and "0 \<le> frame" and "frame \<le> D - 1"
  shows "(\<exists>p. CleanProgressBar_progress frame D = Inr p
            \<and> p = lerp_clamped_right (real_of_int frame) 0 (real_of_int (D - 1)) 0 1
            \<and> 0 \<le> p \<and> p \<le> 1
            \<and> (\<forall>frame' p'. frame \<le> frame' \<and> frame' \<le> D - 1
                   \<and> CleanProgressBar_progress frame' D = Inr p' \<longrightarrow> p \<le> p'))
       \<and> CleanProgressBar_progress (D - 1) D = Inr 1
       \<and> CleanProgressBar_fill_width (D - 1) D = Inr (Tpl [N 100, S ''%''])
       \<and> CleanProgressBar_percentage (D - 1) D = Inr 100"
proof -
  have D: "(0::real) < real_of_int (D - 1)" using assms(1) by simp
  let ?P = "\<lambda>f. lerp_clamped_right (real_of_int f) 0 (real_of_int (D - 1)) 0 1"
  have P: "?P f = min (real_of_int f) (real_of_int (D - 1)) / real_of_int (D - 1)" for f
    by (simp add: lerp_clamped_right_def)
  have lo: "0 \<le> ?P frame" unfolding P using assms D by (intro divide_nonneg_pos) auto
  have hi: "?P frame \<le> 1" unfolding P using D by (simp add: min_def)
  have mono: "?P frame \<le> ?P f'" if "frame \<le> f'" for f'
    unfolding P using that D by (intro divide_right_mono) (auto simp: min_def)
  have last: "?P (D - 1) = 1" unfolding P using D by simp
  show ?thesis
    using lo hi mono last
    by (auto simp add: CleanProgressBar_progress_eq[OF assms(1)] CleanProgressBar_fill_width_def
          CleanProgressBar_percentage_def Math_floor_def)
qed

theorem CleanProgressBar_reaches_100_witness:
  "(2::int) \<le> 300 \<and> (0::int) \<le> 150 \<and> (150::int) \<le> 300 - 1
   \<and> CleanProgressBar_progress 299 300 = Inr 1
   \<and> CleanProgressBar_fill_width 299 300 = Inr (Tpl [N 100, S ''%''])
   \<and> CleanProgressBar_percentage 299 300 = Inr 100"
proof -
  have h: "(2::int) \<le> 300" "(0::int) \<le> 150" "(150::int) \<le> 300 - 1" by simp_all
  from CleanProgressBar_reaches_100 [OF h] show ?thesis by auto
qed

section \<open>Properties of the pulsing indicators\<close>

lemma sin_frame_period:
  "sin ((real_of_int (f + 60) / 60) * pi * 2) = sin ((real_of_int f / 60) * pi * 2)"
proof -
  have "(real_of_int (f + 60) / 60) * pi * 2 = (real_of_int f / 60) * pi * 2 + 2 * pi"
    by (simp add: field_simps)
  then show ?thesis by (simp only: sin_periodic)
qed

lemma NeonRecIndicator_opacity_eq: "NeonRecIndicator_opacity f = Inr (pulse_value f)"
  unfolding NeonRecIndicator_opacity_def Let_def
  by (subst interpolate_two) (simp_all add: interpolateFunction_default pulse_value_def)

lemma NeonLiveIndicator_opacity_eq: "NeonLiveIndicator_opacity f = Inr (pulse_value f)"
  unfolding NeonLiveIndicator_opacity_def Let_def
  by (subst interpolate_two) (simp_all add: interpolateFunction_default pulse_value_def)

lemma pulse_value_range: "0.3 \<le> pulse_value f" "pulse_value f \<le> 1.0"
  using pulse_range[of "sin ((real_of_int f / 60) * pi * 2)" "0.3" "1.0"]
  by (simp_all add: pulse_value_def)

lemma pulse_value_periodic: "pulse_value (f + 60) = pulse_value f"
  by (simp only: pulse_value_def sin_frame_period)

subsection \<open>Rounding to the nearest double\<close>

lemma round_even_bounds: "\<lfloor>r\<rfloor> \<le> round_even r" "round_even r \<le> \<lfloor>r\<rfloor> + 1"
  by (simp_all add: round_even_def Let_def)

lemma round_even_of_int: "round_even (of_int k) = k"
  by (simp add: round_even_def)

lemma round_even_mono:
  assumes "r \<le> s"
  shows "round_even r \<le> round_even s"
proof (cases "\<lfloor>r\<rfloor> = \<lfloor>s\<rfloor>")
  case True
  then show ?thesis using assms by (auto simp: round_even_def Let_def)
next
  case False
  then have "\<lfloor>r\<rfloor> + 1 \<le> \<lfloor>s\<rfloor>" using floor_mono[OF assms] by linarith
  then show ?thesis using round_even_bounds(2)[of r] round_even_bounds(1)[of s] by linarith
qed

lemma round_even_uminus: "round_even (- r) = - round_even r"
proof (cases "r \<in> \<int>")
  case True
  then obtain k where "r = of_int k" by (auto elim: Ints_cases)
  then show ?thesis using round_even_of_int[of "- k"] round_even_of_int[of k] by simp
next
  case False
  then have "r \<noteq> of_int \<lfloor>r\<rfloor>" by (metis Ints_of_int)
  then have f: "\<lfloor>- r\<rfloor> = - \<lfloor>r\<rfloor> - 1" by (simp add: floor_minus ceiling_altdef)
  show ?thesis unfolding round_even_def Let_def f by (auto simp: algebra_simps)
qed

lemma round_even_error: "\<bar>of_int (round_even r) - r\<bar> \<le> 1 / 2"
  unfolding round_even_def Let_def by (auto; linarith)

lemma quantum_pos: "0 < quantum x"
  by (simp add: quantum_def)

lemma quantum_uminus: "quantum (- x) = quantum x"
  by (simp add: quantum_def)

lemma fl_uminus: "fl (- x) = - fl x"
  by (simp add: fl_def quantum_uminus round_even_uminus)

lemma fl_zero: "fl 0 = 0"
  by (simp add: fl_def)

lemma fl_nonneg: "0 \<le> x \<Longrightarrow> 0 \<le> fl x"
proof -
  assume "0 \<le> x"
  then have "0 \<le> x / quantum x" using quantum_pos[of x] by simp
  then have "round_even 0 \<le> round_even (x / quantum x)" by (rule round_even_mono)
  then have "0 \<le> round_even (x / quantum x)" using round_even_of_int[of 0] by simp
  then show ?thesis using quantum_pos[of x] by (simp add: fl_def)
qed

lemma quantum_eq:
  assumes "2 powr of_int e \<le> \<bar>x\<bar>" and "\<bar>x\<bar> < 2 powr (of_int e + 1)" and "- 1022 \<le> e"
  shows "quantum x = 2 powr (of_int e - 52)"
proof -
  have "0 < \<bar>x\<bar>" using assms(1) by (smt (verit) powr_gt_zero)
  then have "\<lfloor>log 2 \<bar>x\<bar>\<rfloor> = e"
    using assms(1,2) by (simp add: floor_log_eq_powr_iff)
  then show ?thesis using assms(3) by (simp add: quantum_def max_def)
qed

lemma fl_at:
  assumes "u = 2 powr (of_int e - 52)" and "- 1022 \<le> e"
    and "2 ^ 52 * u \<le> \<bar>x\<bar>" and "\<bar>x\<bar> < 2 ^ 53 * u"
  shows "fl x = of_int (round_even (x / u)) * u"
proof -
  have a: "2 ^ 52 * u = 2 powr of_int e"
    unfolding assms(1) by (simp add: powr_diff)
  have b: "2 ^ 53 * u = 2 powr (of_int e + 1)"
    unfolding assms(1) by (simp add: powr_diff powr_add)
  have q: "quantum x = u"
    using quantum_eq[of e x] assms(2,3,4) a b assms(1) by simp
  have "x \<noteq> 0" using assms(3) a by (smt (verit) powr_gt_zero)
  then show ?thesis by (simp add: fl_def q)
qed

lemma fl_mono_pos:
  assumes "0 < x" and "x \<le> y"
  shows "fl x \<le> fl y"
proof -
  define ex where "ex = max \<lfloor>log 2 x\<rfloor> (- 1022)"
  define ey where "ey = max \<lfloor>log 2 y\<rfloor> (- 1022)"
  have y: "0 < y" using assms by simp
  have qx: "quantum x = 2 powr (of_int ex - 52)" using assms(1) by (simp add: quantum_def ex_def)
  have qy: "quantum y = 2 powr (of_int ey - 52)" using y by (simp add: quantum_def ey_def)
  have "log 2 x \<le> log 2 y" using assms y by simp
  then have le: "ex \<le> ey" unfolding ex_def ey_def using floor_mono[of "log 2 x" "log 2 y"] by linarith
  have fx: "fl x = of_int (round_even (x / quantum x)) * quantum x" using assms(1) by (simp add: fl_def)
  have fy: "fl y = of_int (round_even (y / quantum y)) * quantum y" using y by (simp add: fl_def)
  show ?thesis
  proof (cases "ex = ey")
    case True
    then have q: "quantum x = quantum y" using qx qy by simp
    have "x / quantum y \<le> y / quantum y" using assms(2) quantum_pos[of y] by (simp add: divide_right_mono)
    then have "round_even (x / quantum y) \<le> round_even (y / quantum y)" by (rule round_even_mono)
    then show ?thesis unfolding fx fy q using quantum_pos[of y] by simp
  next
    case False
    then have lt: "ex + 1 \<le> ey" using le by simp
    then have ey_eq: "ey = \<lfloor>log 2 y\<rfloor>" unfolding ey_def ex_def by linarith
    have "of_int ey \<le> log 2 y" unfolding ey_eq by simp
    then have ylo: "2 powr of_int ey \<le> y" using y by (simp add: le_log_iff)
    have "2 ^ 52 * quantum y = 2 powr of_int ey" unfolding qy by (simp add: powr_diff)
    then have "of_int (2 ^ 52) \<le> y / quantum y"
      using ylo quantum_pos[of y] by (simp add: pos_le_divide_eq)
    then have "round_even (of_int (2 ^ 52)) \<le> round_even (y / quantum y)" by (rule round_even_mono)
    then have "(2 ^ 52 :: int) \<le> round_even (y / quantum y)" unfolding round_even_of_int .
    then have "of_int (2 ^ 52) * quantum y \<le> of_int (round_even (y / quantum y)) * quantum y"
      using quantum_pos[of y] by (simp only: mult_le_cancel_right_pos of_int_le_iff)
    then have ybound: "2 powr of_int ey \<le> fl y"
      unfolding fy using \<open>2 ^ 52 * quantum y = 2 powr of_int ey\<close> by simp
    have "log 2 x < of_int \<lfloor>log 2 x\<rfloor> + 1" by linarith
    also have "\<dots> \<le> of_int ex + 1" unfolding ex_def by simp
    finally have "log 2 x < of_int ex + 1" .
    then have xhi: "x < 2 powr (of_int ex + 1)" using assms(1) by (simp add: log_less_iff)
    have e53: "2 ^ 53 * quantum x = 2 powr (of_int ex + 1)" unfolding qx by (simp add: powr_diff powr_add)
    then have "x / quantum x \<le> of_int (2 ^ 53)"
      using xhi quantum_pos[of x] by (simp add: pos_divide_le_eq)
    then have "round_even (x / quantum x) \<le> round_even (of_int (2 ^ 53))" by (rule round_even_mono)
    then have "round_even (x / quantum x) \<le> (2 ^ 53 :: int)" unfolding round_even_of_int .
    then have "of_int (round_even (x / quantum x)) * quantum x \<le> of_int (2 ^ 53) * quantum x"
      using quantum_pos[of x] by (simp only: mult_le_cancel_right_pos of_int_le_iff)
    then have "fl x \<le> 2 powr (of_int ex + 1)" unfolding fx using e53 by simp
    also have "\<dots> \<le> 2 powr of_int ey" using lt by simp
    finally show ?thesis using ybound by simp
  qed
qed

lemma fl_mono:
  assumes "x \<le> y"
  shows "fl x \<le> fl y"
proof -
  consider "0 < x" | "y < 0" | "x \<le> 0" "0 \<le> y" by linarith
  then show ?thesis
  proof cases
    case 1
    then show ?thesis using assms by (rule fl_mono_pos)
  next
    case 2
    then have "fl (- y) \<le> fl (- x)" using assms by (intro fl_mono_pos) simp_all
    then show ?thesis by (simp add: fl_uminus)
  next
    case 3
    have "0 \<le> fl (- x)" using 3(1) by (intro fl_nonneg) simp
    then have "fl x \<le> 0" by (simp add: fl_uminus)
    then show ?thesis using fl_nonneg[OF 3(2)] by simp
  qed
qed

lemma fl_below:
  assumes "k \<le> 1074" and "2 ^ 52 \<le> \<bar>x\<bar> * 2 ^ k" and "\<bar>x\<bar> * 2 ^ k < 2 ^ 53"
  shows "fl x = of_int (round_even (x * 2 ^ k)) / 2 ^ k"
proof -
  have u: "(1 / 2 ^ k :: real) = 2 powr (of_int (52 - int k) - 52)"
    by (simp add: powr_minus powr_realpow inverse_eq_divide)
  have "fl x = of_int (round_even (x / (1 / 2 ^ k))) * (1 / 2 ^ k)"
    using u
  proof (rule fl_at)
    show "- 1022 \<le> 52 - int k" using assms(1) by simp
    show "2 ^ 52 * (1 / 2 ^ k) \<le> \<bar>x\<bar>" using assms(2) by (simp add: field_simps)
    show "\<bar>x\<bar> < 2 ^ 53 * (1 / 2 ^ k)" using assms(3) by (simp add: field_simps)
  qed
  then show ?thesis by simp
qed

lemma round_even_near:
  assumes "of_int n - 1 / 2 < r" and "r < of_int n + 1 / 2"
  shows "round_even r = n"
proof -
  consider "\<lfloor>r\<rfloor> = n" | "\<lfloor>r\<rfloor> = n - 1" using assms by linarith
  then show ?thesis
  proof cases
    case 1
    then show ?thesis using assms by (simp add: round_even_def Let_def)
  next
    case 2
    then show ?thesis using assms by (simp add: round_even_def Let_def)
  qed
qed

text \<open>The double nearest to a number known by an enclosure of its multiple \<open>2 ^ k\<close>.\<close>

lemma fl_near:
  assumes "k \<le> 1074" and "2 ^ 52 < n" and "n < 2 ^ 53"
    and "of_int n - 1 / 2 < x * 2 ^ k" and "x * 2 ^ k < of_int n + 1 / 2"
  shows "fl x = of_int n / 2 ^ k"
proof -
  have "real_of_int (2 ^ 52 + 1) \<le> of_int n" using assms(2) by (simp only: of_int_le_iff)
  then have lo: "2 ^ 52 \<le> x * 2 ^ k" using assms(4) by simp
  have "real_of_int n \<le> of_int (2 ^ 53 - 1)" using assms(3) by (simp only: of_int_le_iff)
  then have hi: "x * 2 ^ k < 2 ^ 53" using assms(5) by simp
  have "0 < x * 2 ^ k" using lo by (smt (verit) zero_less_power)
  then have x: "0 < x" by (simp add: zero_less_mult_iff)
  have "fl x = of_int (round_even (x * 2 ^ k)) / 2 ^ k"
    using assms(1) lo hi x by (intro fl_below) simp_all
  then show ?thesis using round_even_near[OF assms(4,5)] by simp
qed

subsection \<open>Enclosing the sine\<close>

lemma sin_term_Suc:
  "sin_term x (Suc k) = sin_term x k * (x\<^sup>2 / ((real (2 * k + 1) + 1) * (real (2 * k + 1) + 2)))"
proof -
  define F :: real where "F = fact (2 * k + 1)"
  define c :: real where "c = (real (2 * k + 1) + 1) * (real (2 * k + 1) + 2)"
  have F: "0 < F" unfolding F_def by simp
  have c: "0 < c" unfolding c_def by (intro mult_pos_pos) simp_all
  have "(fact (2 * Suc k + 1) :: real) = c * F"
    unfolding F_def c_def by (simp add: algebra_simps)
  moreover have "x ^ (2 * Suc k + 1) = x ^ (2 * k + 1) * x\<^sup>2"
    by (simp add: power2_eq_square)
  ultimately have "sin_term x (Suc k) = x ^ (2 * k + 1) * x\<^sup>2 / (c * F)"
    unfolding sin_term_def by simp
  also have "\<dots> = x ^ (2 * k + 1) / F * (x\<^sup>2 / c)"
    using F c by (simp add: field_simps)
  finally show ?thesis unfolding sin_term_def F_def c_def .
qed

lemma sin_enclosure_tail:
  assumes "0 < sc" and "0 < yd" and "(x::real)\<^sup>2 = of_int yn / of_int yd"
    and "0 \<le> lo" and "of_int lo \<le> sin_term x k * sc" and "sin_term x k * sc \<le> of_int hi"
    and "sin_enclosure n (int (2 * k + 1)) yn yd lo hi = (l, h)"
  shows "of_int l \<le> ((\<Sum>i<n. (- 1) ^ i * sin_term x (k + i)) - sin_term x (k + n)) * sc
       \<and> ((\<Sum>i<n. (- 1) ^ i * sin_term x (k + i)) + sin_term x (k + n)) * sc \<le> of_int h"
  using assms(4-)
proof (induction n arbitrary: k lo hi l h)
  case 0
  then show ?case by auto
next
  case (Suc n)
  define d where "d = (int (2 * k + 1) + 1) * (int (2 * k + 1) + 2)"
  define lo' where "lo' = (lo * yn) div (yd * d)"
  define hi' where "hi' = - ((- (hi * yn)) div (yd * d))"
  obtain l' h' where e0: "sin_enclosure n (int (2 * k + 1) + 2) yn yd lo' hi' = (l', h')"
    by (metis surj_pair)
  have "(lo - h', hi - l') = (l, h)"
    using Suc.prems(4) e0 unfolding lo'_def hi'_def d_def
    by (simp only: sin_enclosure.simps prod.case)
  then have lh: "l = lo - h'" "h = hi - l'" by simp_all
  have m: "int (2 * k + 1) + 2 = int (2 * Suc k + 1)" by simp
  have e: "sin_enclosure n (int (2 * Suc k + 1)) yn yd lo' hi' = (l', h')"
    unfolding m[symmetric] by (rule e0)
  have d: "0 < d" unfolding d_def by (intro mult_pos_pos) simp_all
  have D: "0 < yd * d" using d assms(2) by simp
  have yn: "0 \<le> yn"
  proof -
    have "0 \<le> real_of_int yn / real_of_int yd" unfolding assms(3)[symmetric] by simp
    then show ?thesis using assms(2) by (simp add: zero_le_divide_iff)
  qed
  have c: "x\<^sup>2 / ((real (2 * k + 1) + 1) * (real (2 * k + 1) + 2)) = of_int yn / of_int (yd * d)"
    unfolding assms(3) d_def by simp
  have "0 \<le> real_of_int yn" "0 < real_of_int (yd * d)"
    using yn D by (simp_all only: of_int_0_le_iff of_int_0_less_iff)
  then have c0: "0 \<le> real_of_int yn / real_of_int (yd * d)" by (simp only: divide_nonneg_pos)
  have t: "sin_term x (Suc k) * sc = sin_term x k * sc * (of_int yn / of_int (yd * d))"
    unfolding sin_term_Suc c by simp
  have 1: "0 \<le> lo'" unfolding lo'_def using Suc.prems(1) yn D by (simp add: pos_imp_zdiv_nonneg_iff)
  have "real_of_int lo' \<le> real_of_int (lo * yn) / real_of_int (yd * d)"
    unfolding lo'_def by (rule real_of_int_div4)
  also have "\<dots> = of_int lo * (of_int yn / of_int (yd * d))" by simp
  also have "\<dots> \<le> sin_term x k * sc * (of_int yn / of_int (yd * d))"
    using Suc.prems(2) c0 by (rule mult_right_mono)
  finally have 2: "of_int lo' \<le> sin_term x (Suc k) * sc" unfolding t .
  have "real_of_int (- (hi * yn) div (yd * d)) \<le> real_of_int (- (hi * yn)) / real_of_int (yd * d)"
    by (rule real_of_int_div4)
  then have "real_of_int (hi * yn) / real_of_int (yd * d) \<le> of_int hi'"
    unfolding hi'_def by simp
  moreover have "sin_term x k * sc * (of_int yn / of_int (yd * d)) \<le> of_int hi * (of_int yn / of_int (yd * d))"
    using Suc.prems(3) c0 by (rule mult_right_mono)
  ultimately have 3: "sin_term x (Suc k) * sc \<le> of_int hi'" unfolding t by simp
  from Suc.IH[OF 1 2 3 e]
  have ih: "of_int l' \<le> ((\<Sum>i<n. (- 1) ^ i * sin_term x (Suc k + i)) - sin_term x (Suc k + n)) * sc"
    "((\<Sum>i<n. (- 1) ^ i * sin_term x (Suc k + i)) + sin_term x (Suc k + n)) * sc \<le> of_int h'" by simp_all
  have s: "(\<Sum>i<Suc n. (- 1) ^ i * sin_term x (k + i))
             = sin_term x k - (\<Sum>i<n. (- 1) ^ i * sin_term x (Suc k + i))"
    by (simp add: sum.lessThan_Suc_shift sum_negf[symmetric] del: sum.lessThan_Suc)
  show ?case unfolding s lh using ih Suc.prems(2,3) by (simp add: algebra_simps)
qed

lemma maclaurin_odd:
  "(\<Sum>m<2 * n + 1. sin_coeff m * x ^ m) = (\<Sum>i<n. (- 1) ^ i * sin_term x i)"
proof (induction n)
  case 0
  then show ?case by (simp add: sin_coeff_def)
next
  case (Suc n)
  have "(\<Sum>m<2 * Suc n + 1. sin_coeff m * x ^ m)
          = (\<Sum>m<2 * n + 1. sin_coeff m * x ^ m) + sin_coeff (2 * n + 1) * x ^ (2 * n + 1)
              + sin_coeff (2 * n + 2) * x ^ (2 * n + 2)"
    by simp
  also have "sin_coeff (2 * n + 2) = 0" by (simp add: sin_coeff_def)
  also have "sin_coeff (2 * n + 1) = (- 1) ^ n / fact (2 * n + 1)" by (simp add: sin_coeff_def)
  finally show ?case using Suc.IH by (simp add: sin_term_def)
qed

lemma sin_enclosure_sound:
  assumes "0 \<le> (x::real)" and "0 < sc" and "0 < yd" and "x\<^sup>2 = of_int yn / of_int yd"
    and "0 \<le> lo" and "of_int lo \<le> x * sc" and "x * sc \<le> of_int hi"
    and "sin_enclosure n 1 yn yd lo hi = (l, h)"
  shows "of_int l \<le> sin x * sc \<and> sin x * sc \<le> of_int h"
proof -
  have t0: "sin_term x 0 = x" by (simp add: sin_term_def)
  have e: "sin_enclosure n (int (2 * 0 + 1)) yn yd lo hi = (l, h)" using assms(8) by simp
  have "of_int l \<le> ((\<Sum>i<n. (- 1) ^ i * sin_term x (0 + i)) - sin_term x (0 + n)) * sc
       \<and> ((\<Sum>i<n. (- 1) ^ i * sin_term x (0 + i)) + sin_term x (0 + n)) * sc \<le> of_int h"
    using assms(2,3,4,5) _ _ e by (rule sin_enclosure_tail) (simp_all add: t0 assms(6,7))
  then have b: "of_int l \<le> ((\<Sum>i<n. (- 1) ^ i * sin_term x i) - sin_term x n) * sc"
    "((\<Sum>i<n. (- 1) ^ i * sin_term x i) + sin_term x n) * sc \<le> of_int h"
    by simp_all
  have "\<bar>sin x - (\<Sum>m<2 * n + 1. sin_coeff m * x ^ m)\<bar> \<le> inverse (fact (2 * n + 1)) * \<bar>x\<bar> ^ (2 * n + 1)"
    by (rule Maclaurin_sin_bound)
  also have "inverse (fact (2 * n + 1)) * \<bar>x\<bar> ^ (2 * n + 1) = sin_term x n"
    using assms(1) by (simp add: sin_term_def field_simps)
  finally have "\<bar>sin x - (\<Sum>i<n. (- 1) ^ i * sin_term x i)\<bar> \<le> sin_term x n"
    unfolding maclaurin_odd .
  then have "(\<Sum>i<n. (- 1) ^ i * sin_term x i) - sin_term x n \<le> sin x"
    "sin x \<le> (\<Sum>i<n. (- 1) ^ i * sin_term x i) + sin_term x n" by linarith+
  then have "((\<Sum>i<n. (- 1) ^ i * sin_term x i) - sin_term x n) * sc \<le> sin x * sc"
    "sin x * sc \<le> ((\<Sum>i<n. (- 1) ^ i * sin_term x i) + sin_term x n) * sc"
    using assms(2) by simp_all
  then show ?thesis using b by linarith
qed

lemma sin_enclosure_numeral:
  "sin_enclosure (numeral n) m yn yd lo hi =
     (case sin_enclosure (pred_numeral n) (m + 2) yn yd
             ((lo * yn) div (yd * ((m + 1) * (m + 2))))
             (- ((- (hi * yn)) div (yd * ((m + 1) * (m + 2))))) of
        (l, h) \<Rightarrow> (lo - h, hi - l))"
  by (simp add: numeral_eq_Suc)

subsection \<open>The opacity in double precision\<close>

lemma fl_03: "fl (0.3) = 5404319552844595 / 2 ^ 54"
  using fl_below[of 54 "0.3"] by (simp add: round_even_def)

lemma fl_2: "fl (1 - (- 1)) = 2"
  using fl_below[of 51 "1 - (- 1)"] by (simp add: round_even_def)

lemma fl_07: "fl (1 - 5404319552844595 / 2 ^ 54) = 3152519739159347 / 2 ^ 52"
  using fl_below[of 53 "1 - 5404319552844595 / 2 ^ 54"] by (simp add: round_even_def)

lemma pulse64_5_a: "fl (real_of_int 5 / 60) = 6004799503160661 / 2 ^ 56"
  using fl_below[of 56 "real_of_int 5 / 60"] by (simp add: round_even_def)

lemma pulse64_5_b: "fl (6004799503160661 / 2 ^ 56 * Math_PI) = 4716158501352293 / 2 ^ 54"
  using fl_below[of 54 "6004799503160661 / 2 ^ 56 * Math_PI"] by (simp add: round_even_def Math_PI_def)

lemma pulse64_5_t: "fl (4716158501352293 / 2 ^ 54 * 2) = 4716158501352293 / 2 ^ 53"
  using fl_below[of 53 "4716158501352293 / 2 ^ 54 * 2"] by (simp add: round_even_def)

lemma pulse64_5_sin: "Math_sin (4716158501352293 / 2 ^ 53) = 9007199254740991 / 2 ^ 54"
proof -
  have e: "sin_enclosure 10 1 22242151009877506254709696357849 81129638414606681695789005144064 632992078939389694050304 632992078939389694050304 = (604462909807314527238484, 604462909807314527238495)"
    by (simp add: sin_enclosure_numeral)
  have "real_of_int 604462909807314527238484 \<le> sin (4716158501352293 / 2 ^ 53) * 2 ^ 80 \<and> sin (4716158501352293 / 2 ^ 53) * 2 ^ 80 \<le> real_of_int 604462909807314527238495"
    by (rule sin_enclosure_sound[OF _ _ _ _ _ _ _ e]) (simp_all add: power2_eq_square)
  then have "real_of_int 9007199254740991 - 1 / 2 < sin (4716158501352293 / 2 ^ 53) * 2 ^ 54"
    and "sin (4716158501352293 / 2 ^ 53) * 2 ^ 54 < real_of_int 9007199254740991 + 1 / 2"
    by simp_all
  then have "fl (sin (4716158501352293 / 2 ^ 53)) = real_of_int 9007199254740991 / 2 ^ 54"
    by (intro fl_near) simp_all
  then show ?thesis by (simp add: Math_sin_def)
qed

lemma pulse64_5_n: "fl (9007199254740991 / 2 ^ 54 - (- 1)) = 3 / 2 ^ 1"
  using fl_below[of 52 "9007199254740991 / 2 ^ 54 - (- 1)"] by (simp add: round_even_def)

lemma pulse64_5_r: "fl (3 / 2 ^ 1 / 2) = 3 / 2 ^ 2"
  using fl_below[of 53 "3 / 2 ^ 1 / 2"] by (simp add: round_even_def)

lemma pulse64_5_p: "fl (3 / 2 ^ 2 * (3152519739159347 / 2 ^ 52)) = 1182194902184755 / 2 ^ 51"
  using fl_below[of 53 "3 / 2 ^ 2 * (3152519739159347 / 2 ^ 52)"] by (simp add: round_even_def)

lemma pulse64_5_o: "fl (1182194902184755 / 2 ^ 51 + 5404319552844595 / 2 ^ 54) = 3715469692580659 / 2 ^ 52"
  using fl_below[of 53 "1182194902184755 / 2 ^ 51 + 5404319552844595 / 2 ^ 54"] by (simp add: round_even_def)

lemma pulse64_5: "pulse64 5 = 3715469692580659 / 2 ^ 52"
  unfolding pulse64_def Let_def pulse64_5_a pulse64_5_b pulse64_5_t pulse64_5_sin fl_03 fl_2 fl_07
    pulse64_5_n pulse64_5_r pulse64_5_p pulse64_5_o
  by (rule refl)

lemma pulse64_65_a: "fl (real_of_int 65 / 60) = 4878899596318037 / 2 ^ 52"
  using fl_below[of 52 "real_of_int 65 / 60"] by (simp add: round_even_def)

lemma pulse64_65_b: "fl (4878899596318037 / 2 ^ 52 * Math_PI) = 1915939391174369 / 2 ^ 49"
  using fl_below[of 51 "4878899596318037 / 2 ^ 52 * Math_PI"] by (simp add: round_even_def Math_PI_def)

lemma pulse64_65_t: "fl (1915939391174369 / 2 ^ 49 * 2) = 1915939391174369 / 2 ^ 48"
  using fl_below[of 50 "1915939391174369 / 2 ^ 49 * 2"] by (simp add: round_even_def)

lemma pulse64_65_sin: "Math_sin (1915939391174369 / 2 ^ 48) = 9007199254740979 / 2 ^ 54"
proof -
  have e: "sin_enclosure 24 1 3670823750653611752368962548161 79228162514264337593543950336 8228897026212065888436224 8228897026212065888436224 = (604462909807313689627042, 604462909807313689627337)"
    by (simp add: sin_enclosure_numeral)
  have "real_of_int 604462909807313689627042 \<le> sin (1915939391174369 / 2 ^ 48) * 2 ^ 80 \<and> sin (1915939391174369 / 2 ^ 48) * 2 ^ 80 \<le> real_of_int 604462909807313689627337"
    by (rule sin_enclosure_sound[OF _ _ _ _ _ _ _ e]) (simp_all add: power2_eq_square)
  then have "real_of_int 9007199254740979 - 1 / 2 < sin (1915939391174369 / 2 ^ 48) * 2 ^ 54"
    and "sin (1915939391174369 / 2 ^ 48) * 2 ^ 54 < real_of_int 9007199254740979 + 1 / 2"
    by simp_all
  then have "fl (sin (1915939391174369 / 2 ^ 48)) = real_of_int 9007199254740979 / 2 ^ 54"
    by (intro fl_near) simp_all
  then show ?thesis by (simp add: Math_sin_def)
qed

lemma pulse64_65_n: "fl (9007199254740979 / 2 ^ 54 - (- 1)) = 6755399441055741 / 2 ^ 52"
  using fl_below[of 52 "9007199254740979 / 2 ^ 54 - (- 1)"] by (simp add: round_even_def)

lemma pulse64_65_r: "fl (6755399441055741 / 2 ^ 52 / 2) = 6755399441055741 / 2 ^ 53"
  using fl_below[of 53 "6755399441055741 / 2 ^ 52 / 2"] by (simp add: round_even_def)

lemma pulse64_65_p: "fl (6755399441055741 / 2 ^ 53 * (3152519739159347 / 2 ^ 52)) = 2364389804369509 / 2 ^ 52"
  using fl_below[of 53 "6755399441055741 / 2 ^ 53 * (3152519739159347 / 2 ^ 52)"] by (simp add: round_even_def)

lemma pulse64_65_o: "fl (2364389804369509 / 2 ^ 52 + 5404319552844595 / 2 ^ 54) = 1857734846290329 / 2 ^ 51"
  using fl_below[of 53 "2364389804369509 / 2 ^ 52 + 5404319552844595 / 2 ^ 54"] by (simp add: round_even_def)

lemma pulse64_65: "pulse64 65 = 1857734846290329 / 2 ^ 51"
  unfolding pulse64_def Let_def pulse64_65_a pulse64_65_b pulse64_65_t pulse64_65_sin fl_03 fl_2 fl_07
    pulse64_65_n pulse64_65_r pulse64_65_p pulse64_65_o
  by (rule refl)

lemma fl_1: "fl (1) = 1"
  using fl_below[of 52 "1"] by (simp add: round_even_def)

lemma fl_two: "fl (2) = 2"
  using fl_below[of 51 "2"] by (simp add: round_even_def)

lemma fl_c: "fl (5404319552844595 / 2 ^ 54) = 5404319552844595 / 2 ^ 54"
  using fl_below[of 54 "5404319552844595 / 2 ^ 54"] by (simp add: round_even_def)

lemma fl_w: "fl (3152519739159347 / 2 ^ 52) = 3152519739159347 / 2 ^ 52"
  using fl_below[of 53 "3152519739159347 / 2 ^ 52"] by (simp add: round_even_def)

lemma fl_wc: "fl (3152519739159347 / 2 ^ 52 + 5404319552844595 / 2 ^ 54) = 1"
  using fl_below[of 53 "3152519739159347 / 2 ^ 52 + 5404319552844595 / 2 ^ 54"] by (simp add: round_even_def)

lemma interpolate64_two:
  assumes "a < b"
  shows "interpolate64 x [a, b] [c, d] opts = Inr (interpolateFunction64 x a b c d opts)"
  using assms by (simp add: interpolate64_def findRange_two)

lemma interpolateFunction64_default:
  assumes "c \<noteq> d"
  shows "interpolateFunction64 x a b c d default_options
           = fl (fl (fl (fl (x - a) / fl (b - a)) * fl (d - c)) + c)"
  using assms by (simp add: interpolateFunction64_def default_options_def Let_def)

lemma fl_03_neq_1: "fl 0.3 \<noteq> 1"
  unfolding fl_03 by simp

lemma NeonRecIndicator_opacity64_eq: "NeonRecIndicator_opacity64 f = Inr (pulse64 f)"
  unfolding NeonRecIndicator_opacity64_def pulse64_def Let_def
  by (simp add: interpolate64_two interpolateFunction64_default fl_03_neq_1)

lemma NeonLiveIndicator_opacity64_eq: "NeonLiveIndicator_opacity64 f = Inr (pulse64 f)"
  unfolding NeonLiveIndicator_opacity64_def pulse64_def Let_def
  by (simp add: interpolate64_two interpolateFunction64_default fl_03_neq_1)

lemma Math_sin_range: "- 1 \<le> Math_sin x" "Math_sin x \<le> 1"
proof -
  have m: "fl (- 1) = - 1" using fl_uminus[of 1] fl_1 by simp
  show "- 1 \<le> Math_sin x" unfolding Math_sin_def
    using fl_mono[of "- 1" "sin x"] m by simp
  show "Math_sin x \<le> 1" unfolding Math_sin_def
    using fl_mono[of "sin x" 1] fl_1 by simp
qed

lemma pulse64_range: "fl 0.3 \<le> pulse64 f" "pulse64 f \<le> 1"
proof -
  define s where "s = Math_sin (fl (fl (fl (real_of_int f / 60) * Math_PI) * 2))"
  define n where "n = fl (s - (- 1))"
  define r where "r = fl (n / 2)"
  define p where "p = fl (r * (3152519739159347 / 2 ^ 52))"
  have e: "pulse64 f = fl (p + 5404319552844595 / 2 ^ 54)"
    unfolding pulse64_def Let_def fl_03 fl_2 fl_07 p_def r_def n_def s_def by (rule refl)
  have s: "- 1 \<le> s" "s \<le> 1" unfolding s_def by (rule Math_sin_range)+
  have "fl 0 \<le> fl (s - (- 1))" "fl (s - (- 1)) \<le> fl 2"
    using s by (intro fl_mono; simp)+
  then have n: "0 \<le> n" "n \<le> 2" unfolding n_def fl_zero fl_two .
  have "fl 0 \<le> fl (n / 2)" "fl (n / 2) \<le> fl 1"
    using n by (intro fl_mono; simp)+
  then have r: "0 \<le> r" "r \<le> 1" unfolding r_def fl_zero fl_1 .
  have "r * (3152519739159347 / 2 ^ 52) \<le> 1 * (3152519739159347 / 2 ^ 52)"
    using r(2) by (intro mult_right_mono) simp_all
  then have "fl (r * (3152519739159347 / 2 ^ 52)) \<le> fl (3152519739159347 / 2 ^ 52)"
    by (intro fl_mono) simp
  moreover have "fl 0 \<le> fl (r * (3152519739159347 / 2 ^ 52))"
    using r(1) by (intro fl_mono) simp
  ultimately have p: "0 \<le> p" "p \<le> 3152519739159347 / 2 ^ 52"
    unfolding p_def fl_zero fl_w by simp_all
  have lo: "fl (5404319552844595 / 2 ^ 54) \<le> fl (p + 5404319552844595 / 2 ^ 54)"
    using p(1) by (intro fl_mono) simp
  have hi: "fl (p + 5404319552844595 / 2 ^ 54)
              \<le> fl (3152519739159347 / 2 ^ 52 + 5404319552844595 / 2 ^ 54)"
    using p(2) by (intro fl_mono) simp
  show "fl 0.3 \<le> pulse64 f" unfolding e fl_03 using lo unfolding fl_c .
  show "pulse64 f \<le> 1" unfolding e using hi unfolding fl_wc .
qed

text \<open>
  Frame 5 and frame 65: the opacity is \<open>0.825\<close> at the first and
  \<open>0.8249999999999997\<close> at the second.
\<close>

theorem indicator_pulse_not_periodic:
  "NeonRecIndicator_opacity64 (5 + 60) \<noteq> NeonRecIndicator_opacity64 5
   \<and> NeonLiveIndicator_opacity64 (5 + 60) \<noteq> NeonLiveIndicator_opacity64 5"
  by (simp add: NeonRecIndicator_opacity64_eq NeonLiveIndicator_opacity64_eq pulse64_5 pulse64_65)

text \<open>
  C7, amended. Computed in double precision, the pill opacity of NeonRecIndicator and of
  NeonLiveIndicator lies in \<open>[0.3, 1.0]\<close> at every frame, \<open>0.3\<close> being the double the
  literal denotes. The formula has period 60 in exact arithmetic; in double precision
  the opacity at frame \<open>f + 60\<close> need not equal the opacity at frame \<open>f\<close>, as frames 5 and
  65 show above.
\<close>

theorem indicator_pulse_bounded:
  "(\<exists>op. NeonRecIndicator_opacity64 f = Inr op \<and> fl 0.3 \<le> op \<and> op \<le> 1.0)
   \<and> (\<exists>op. NeonLiveIndicator_opacity64 f = Inr op \<and> fl 0.3 \<le> op \<and> op \<le> 1.0)
   \<and> NeonRecIndicator_opacity (f + 60) = NeonRecIndicator_opacity f
   \<and> NeonLiveIndicator_opacity (f + 60) = NeonLiveIndicator_opacity f"
  using pulse64_range[of f]
  by (simp add: NeonRecIndicator_opacity64_eq NeonLiveIndicator_opacity64_eq
        NeonRecIndicator_opacity_eq NeonLiveIndicator_opacity_eq pulse_value_periodic)

section \<open>Properties of NeonEqualizer\<close>

lemma getBarHeight_range:
  "\<exists>v. getBarHeight frame D index = Inr v \<and> 0.1 \<le> v \<and> v \<le> 1"
  unfolding getBarHeight_def Let_def
  by (rule interpolate_clamp_both_up) simp_all

lemma count_below: "length (filter (\<lambda>i. i < k) [0..<n]) = min k n"
  by (induction n) auto

lemma is_lit_segment:
  assumes "m \<noteq> 0"
  shows "is_lit m (segment c index active m i) = isOn active i"
  using assms by (simp add: segment_def Let_def)

lemma lit_count:
  assumes "m \<noteq> 0" and "0 \<le> a"
  shows "length (filter (is_lit m) (map (segment c index a m) ns))
           = length (filter (\<lambda>i. i < nat a) ns)"
proof -
  have "isOn a = (\<lambda>i. i < nat a)" using assms(2) by (auto simp: isOn_def fun_eq_iff)
  then show ?thesis
    by (simp add: filter_map o_def is_lit_segment[OF assms(1)])
qed

lemma renderBar_lights:
  assumes "activeSegments frame D index = Inr a" and "1 \<le> a" and "a \<le> 15" and "m \<noteq> 0"
  shows "\<exists>bar. renderBar ic frame D w h index m = Inr bar
           \<and> length (bar_segments bar) = SEGMENT_COUNT
           \<and> length (lit_rects m bar) = nat a"
proof -
  have "length (filter (is_lit m) (map (segment c index a m) [0..<SEGMENT_COUNT])) = nat a" for c
  proof -
    have "0 \<le> a" using assms(2) by simp
    from lit_count[OF assms(4) this]
    have "length (filter (is_lit m) (map (segment c index a m) [0..<SEGMENT_COUNT]))
            = length (filter (\<lambda>i. i < nat a) [0..<SEGMENT_COUNT])" .
    also have "\<dots> = min (nat a) SEGMENT_COUNT" by (rule count_below)
    also have "\<dots> = nat a" using assms(3) by (simp add: SEGMENT_COUNT_def)
    finally show ?thesis .
  qed
  then show ?thesis
    by (simp add: renderBar_def assms(1) Let_def lit_rects_def)
qed

lemma activeSegments_range:
  "\<exists>v a. getBarHeight frame D index = Inr v \<and> 0.1 \<le> v \<and> v \<le> 1
         \<and> activeSegments frame D index = Inr a \<and> a = \<lceil>v * real SEGMENT_COUNT\<rceil>
         \<and> 1 \<le> a \<and> a \<le> 15"
proof -
  obtain v where h: "getBarHeight frame D index = Inr v" and r: "0.1 \<le> v" "v \<le> 1"
    using getBarHeight_range by blast
  have lo: "1 \<le> \<lceil>v * 15\<rceil>" using r(1) by (simp add: le_ceiling_iff)
  have hi: "\<lceil>v * 15\<rceil> \<le> 15" using r(2) by (simp add: ceiling_le_iff)
  show ?thesis
    using r lo hi h by (simp add: activeSegments_def Math_ceil_def SEGMENT_COUNT_def)
qed

lemma rendered_bar:
  assumes "m \<noteq> 0"
  shows "\<exists>bar. renderBar ic frame D w h index m = Inr bar
           \<and> 1 \<le> length (lit_rects m bar) \<and> length (lit_rects m bar) \<le> SEGMENT_COUNT"
proof -
  obtain a where a: "activeSegments frame D index = Inr a" "1 \<le> a" "a \<le> 15"
    using activeSegments_range[of frame D index] by blast
  obtain bar where "renderBar ic frame D w h index m = Inr bar"
    "length (lit_rects m bar) = nat a"
    using renderBar_lights[OF a assms] by blast
  moreover have "1 \<le> nat a" "nat a \<le> 15" using a by linarith+
  ultimately show ?thesis by (auto simp: SEGMENT_COUNT_def)
qed

lemma collect_all:
  assumes "\<And>i. \<exists>v. f i = Inr v \<and> P v"
  shows "\<exists>vs. collect f ns = Inr vs \<and> length vs = length ns \<and> (\<forall>v \<in> set vs. P v)"
proof (induction ns)
  case Nil
  then show ?case by simp
next
  case (Cons n ns)
  obtain v where v: "f n = Inr v" "P v" using assms[of n] by blast
  obtain vs where vs: "collect f ns = Inr vs" "length vs = length ns" "\<forall>v \<in> set vs. P v"
    using Cons.IH by blast
  show ?case by (simp add: v vs then_js_def)
qed

text \<open>
  C10. For a positive duration, every frame and every bar index, \<open>getBarHeight\<close> returns
  an intensity in \<open>[0.1, 1]\<close>, so \<open>activeSegments = ceil (intensity * SEGMENT_COUNT)\<close> lies
  in \<open>[1, SEGMENT_COUNT]\<close>; \<open>renderBar\<close>, with an opacity multiplier other than 0,
  returns a bar of \<open>SEGMENT_COUNT\<close> segments of which exactly \<open>activeSegments\<close> are lit:
  at least 1 and at most \<open>SEGMENT_COUNT\<close>. The component renders \<open>BAR_COUNT\<close> bars with
  multiplier 1 and \<open>BAR_COUNT\<close> reflected bars with multiplier 0.3, and every one of them
  has at least 1 and at most \<open>SEGMENT_COUNT\<close> lit segments.
\<close>

theorem NeonEqualizer_segments:
  assumes "0 < D" and "opacityMultiplier \<noteq> 0"
  shows "(\<exists>intensity active bar.
            getBarHeight frame D index = Inr intensity
          \<and> 0.1 \<le> intensity \<and> intensity \<le> 1
          \<and> activeSegments frame D index = Inr active
          \<and> active = \<lceil>intensity * real SEGMENT_COUNT\<rceil>
          \<and> 1 \<le> active \<and> active \<le> int SEGMENT_COUNT
          \<and> renderBar ic frame D width height index opacityMultiplier = Inr bar
          \<and> length (bar_segments bar) = SEGMENT_COUNT
          \<and> length (lit_rects opacityMultiplier bar) = nat active
          \<and> 1 \<le> length (lit_rects opacityMultiplier bar)
          \<and> length (lit_rects opacityMultiplier bar) \<le> SEGMENT_COUNT)
       \<and> (\<exists>bars reflectionBars.
            NeonEqualizer_values fw
              \<lparr>cfg_fps = fps, cfg_durationInFrames = D, cfg_width = width, cfg_height = height\<rparr>
              frame = Inr (bars @ reflectionBars)
          \<and> length bars = BAR_COUNT \<and> length reflectionBars = BAR_COUNT
          \<and> (\<forall>bar \<in> set bars.
                1 \<le> length (lit_rects 1 bar) \<and> length (lit_rects 1 bar) \<le> SEGMENT_COUNT)
          \<and> (\<forall>bar \<in> set reflectionBars.
                1 \<le> length (lit_rects 0.3 bar) \<and> length (lit_rects 0.3 bar) \<le> SEGMENT_COUNT))"
proof -
  obtain v a where va: "getBarHeight frame D index = Inr v" "0.1 \<le> v" "v \<le> 1"
    "activeSegments frame D index = Inr a" "a = \<lceil>v * real SEGMENT_COUNT\<rceil>" "1 \<le> a" "a \<le> 15"
    using activeSegments_range[of frame D index] by blast
  obtain bar where bar: "renderBar ic frame D width height index opacityMultiplier = Inr bar"
    "length (bar_segments bar) = SEGMENT_COUNT" "length (lit_rects opacityMultiplier bar) = nat a"
    using renderBar_lights[OF va(4,6,7) assms(2)] by blast
  have n: "1 \<le> nat a" "nat a \<le> 15" using va(6,7) by linarith+
  have first: "\<exists>intensity active bar.
            getBarHeight frame D index = Inr intensity
          \<and> 0.1 \<le> intensity \<and> intensity \<le> 1
          \<and> activeSegments frame D index = Inr active
          \<and> active = \<lceil>intensity * real SEGMENT_COUNT\<rceil>
          \<and> 1 \<le> active \<and> active \<le> int SEGMENT_COUNT
          \<and> renderBar ic frame D width height index opacityMultiplier = Inr bar
          \<and> length (bar_segments bar) = SEGMENT_COUNT
          \<and> length (lit_rects opacityMultiplier bar) = nat active
          \<and> 1 \<le> length (lit_rects opacityMultiplier bar)
          \<and> length (lit_rects opacityMultiplier bar) \<le> SEGMENT_COUNT"
    using va bar n by (auto simp: SEGMENT_COUNT_def)
  let ?cfg = "\<lparr>cfg_fps = fps, cfg_durationInFrames = D, cfg_width = width, cfg_height = height\<rparr>"
  obtain bars where bars:
    "collect (\<lambda>i. renderBar (fw_interpolateColors fw) frame D width height i 1) [0..<BAR_COUNT]
       = Inr bars" "length bars = length [0..<BAR_COUNT]"
    "\<forall>b \<in> set bars. 1 \<le> length (lit_rects 1 b) \<and> length (lit_rects 1 b) \<le> SEGMENT_COUNT"
    using collect_all[of "\<lambda>i. renderBar (fw_interpolateColors fw) frame D width height i 1"
            "\<lambda>b. 1 \<le> length (lit_rects 1 b) \<and> length (lit_rects 1 b) \<le> SEGMENT_COUNT"
            "[0..<BAR_COUNT]"]
          rendered_bar[of 1] by auto
  obtain refl where refl:
    "collect (\<lambda>i. renderBar (fw_interpolateColors fw) frame D width height i 0.3) [0..<BAR_COUNT]
       = Inr refl" "length refl = length [0..<BAR_COUNT]"
    "\<forall>b \<in> set refl. 1 \<le> length (lit_rects 0.3 b) \<and> length (lit_rects 0.3 b) \<le> SEGMENT_COUNT"
    using collect_all[of "\<lambda>i. renderBar (fw_interpolateColors fw) frame D width height i 0.3"
            "\<lambda>b. 1 \<le> length (lit_rects 0.3 b) \<and> length (lit_rects 0.3 b) \<le> SEGMENT_COUNT"
            "[0..<BAR_COUNT]"]
          rendered_bar[of "0.3"] by auto
  have "NeonEqualizer_values fw ?cfg frame = Inr (bars @ refl)"
    by (simp add: NeonEqualizer_values_def new_Array_def bars(1) refl(1) then_js_def)
  then have second: "\<exists>bars reflectionBars.
            NeonEqualizer_values fw ?cfg frame = Inr (bars @ reflectionBars)
          \<and> length bars = BAR_COUNT \<and> length reflectionBars = BAR_COUNT
          \<and> (\<forall>bar \<in> set bars.
                1 \<le> length (lit_rects 1 bar) \<and> length (lit_rects 1 bar) \<le> SEGMENT_COUNT)
          \<and> (\<forall>bar \<in> set reflectionBars.
                1 \<le> length (lit_rects 0.3 bar) \<and> length (lit_rects 0.3 bar) \<le> SEGMENT_COUNT)"
    using bars(2,3) refl(2,3) by (intro exI[of _ bars] exI[of _ refl]) simp
  show ?thesis using first second by blast
qed

theorem NeonEqualizer_segments_witness:
  "(0::int) < 300 \<and> (1::real) \<noteq> 0
   \<and> (\<exists>intensity active bar.
            getBarHeight 42 300 7 = Inr intensity
          \<and> 0.1 \<le> intensity \<and> intensity \<le> 1
          \<and> activeSegments 42 300 7 = Inr active
          \<and> active = \<lceil>intensity * real SEGMENT_COUNT\<rceil>
          \<and> 1 \<le> active \<and> active \<le> int SEGMENT_COUNT
          \<and> renderBar (\<lambda>x ir cs. ''#00FFFF'') 42 300 3840 2160 7 1 = Inr bar
          \<and> length (bar_segments bar) = SEGMENT_COUNT
          \<and> length (lit_rects 1 bar) = nat active
          \<and> 1 \<le> length (lit_rects 1 bar)
          \<and> length (lit_rects 1 bar) \<le> SEGMENT_COUNT)"
proof -
  have h: "(0::int) < 300" "(1::real) \<noteq> 0" by simp_all
  have "\<exists>intensity active bar.
            getBarHeight 42 300 7 = Inr intensity
          \<and> 0.1 \<le> intensity \<and> intensity \<le> 1
          \<and> activeSegments 42 300 7 = Inr active
          \<and> active = \<lceil>intensity * real SEGMENT_COUNT\<rceil>
          \<and> 1 \<le> active \<and> active \<le> int SEGMENT_COUNT
          \<and> renderBar (\<lambda>x ir cs. ''#00FFFF'') 42 300 3840 2160 7 1 = Inr bar
          \<and> length (bar_segments bar) = SEGMENT_COUNT
          \<and> length (lit_rects 1 bar) = nat active
          \<and> 1 \<le> length (lit_rects 1 bar)
          \<and> length (lit_rects 1 bar) \<le> SEGMENT_COUNT"
    using NeonEqualizer_segments [OF h, of 42 7 "\<lambda>x ir cs. ''#00FFFF''" 3840 2160]
    by (rule conjunct1)
  then show ?thesis by simp
qed

section \<open>Properties of ZenProgressBar\<close>

lemma bx_eq: "calcBezier t (1/4) (1/4) = t^3 - (3/4) * t^2 + (3/4) * t"
  by (simp add: calcBezier_def bezier_a_def bezier_b_def bezier_c_def power2_eq_square power3_eq_cube field_simps)

lemma by_eq: "calcBezier t (1/10) 1 = - (17/10) * t^3 + (12/5) * t^2 + (3/10) * t"
  by (simp add: calcBezier_def bezier_a_def bezier_b_def bezier_c_def power2_eq_square power3_eq_cube field_simps)

lemma bx_diff:
  "calcBezier s (1/4) (1/4) - calcBezier t (1/4) (1/4)
     = (s - t) * ((s + t / 2 - 3 / 8)^2 + (3 / 4) * (t - 1 / 4)^2 + 9 / 16)"
  unfolding bx_eq by (simp add: power2_eq_square power3_eq_cube field_simps)

lemma bx_strict_mono:
  assumes "t < s"
  shows "calcBezier t (1/4) (1/4) < calcBezier s (1/4) (1/4)"
proof -
  have "0 < (s + t / 2 - 3 / 8)^2 + (3 / 4) * (t - 1 / 4)^2 + 9 / (16::real)"
    by (intro add_nonneg_pos add_nonneg_nonneg mult_nonneg_nonneg) simp_all
  then have "0 < (s - t) * ((s + t / 2 - 3 / 8)^2 + (3 / 4) * (t - 1 / 4)^2 + 9 / 16)"
    using assms by (intro mult_pos_pos) simp_all
  then show ?thesis using bx_diff[of s t] by linarith
qed

lemma by_diff:
  "calcBezier s (1/10) 1 - calcBezier t (1/10) 1
     = (s - t) * (27 * ((1 - s) + (1 - t))
                  - 17 * ((1 - s) * (1 - s) + (1 - s) * (1 - t) + (1 - t) * (1 - t))) / 10"
  unfolding by_eq by (simp add: power2_eq_square power3_eq_cube field_simps)

lemma by_mono:
  assumes "0 \<le> t" "t \<le> s" "s \<le> 1"
  shows "calcBezier t (1/10) 1 \<le> calcBezier s (1/10) 1"
proof -
  define u where "u = 1 - s"
  define v where "v = 1 - t"
  define p where "p = u * u"
  define q where "q = u * v"
  define r where "r = v * v"
  have uv: "0 \<le> u" "u \<le> 1" "0 \<le> v" "v \<le> 1" using assms by (simp_all add: u_def v_def)
  have "p \<le> u" unfolding p_def using uv by (simp add: mult_left_le)
  moreover have "r \<le> v" unfolding r_def using uv by (simp add: mult_left_le)
  moreover have "q \<le> u" unfolding q_def using uv by (simp add: mult_left_le)
  moreover have "q \<le> v" unfolding q_def using uv by (simp add: mult_left_le_one_le)
  ultimately have "17 * (p + q + r) \<le> 27 * (u + v)" using uv by argo
  then have "0 \<le> (s - t) * (27 * (u + v) - 17 * (p + q + r)) / 10"
    using assms by (intro divide_nonneg_pos mult_nonneg_nonneg) simp_all
  then show ?thesis using by_diff[of s t] by (simp add: u_def v_def p_def q_def r_def)
qed

lemma bx_root_exists:
  assumes "0 \<le> x" "x \<le> 1"
  shows "\<exists>t. 0 \<le> t \<and> t \<le> 1 \<and> calcBezier t (1/4) (1/4) = x"
proof -
  have c: "continuous_on {0..1} (\<lambda>t::real. calcBezier t (1/4) (1/4))"
    unfolding bx_eq by (intro continuous_intros)
  have "calcBezier 0 (1/4) (1/4) \<le> x" "x \<le> calcBezier 1 (1/4) (1/4)"
    using assms by (simp_all add: bx_eq)
  from IVT'[OF this _ c] show ?thesis by auto
qed

lemma bx_root_unique:
  assumes "calcBezier t (1/4) (1/4) = x" "calcBezier s (1/4) (1/4) = x"
  shows "t = s"
proof (rule ccontr)
  assume "t \<noteq> s"
  then consider "t < s" | "s < t" by linarith
  then show False
    using assms bx_strict_mono[of t s] bx_strict_mono[of s t] by cases simp_all
qed

lemma getTForX_props:
  assumes "0 \<le> x" "x \<le> 1"
  shows "0 \<le> getTForX x (1/4) (1/4) \<and> getTForX x (1/4) (1/4) \<le> 1
         \<and> calcBezier (getTForX x (1/4) (1/4)) (1/4) (1/4) = x"
proof -
  obtain t where t: "0 \<le> t \<and> t \<le> 1 \<and> calcBezier t (1/4) (1/4) = x"
    using bx_root_exists[OF assms] by blast
  have u: "s = t" if "0 \<le> s \<and> s \<le> 1 \<and> calcBezier s (1/4) (1/4) = x" for s
    using that t bx_root_unique[of s x t] by simp
  show ?thesis
    unfolding getTForX_def using t u by (rule theI)
qed

lemma getTForX_mono:
  assumes "0 \<le> x" "x \<le> y" "y \<le> 1"
  shows "getTForX x (1/4) (1/4) \<le> getTForX y (1/4) (1/4)"
proof (rule ccontr)
  assume "\<not> ?thesis"
  then have "getTForX y (1/4) (1/4) < getTForX x (1/4) (1/4)" by simp
  from bx_strict_mono[OF this] show False
    using getTForX_props[of x] getTForX_props[of y] assms by simp
qed

lemma getTForX_ends: "getTForX 0 (1/4) (1/4) = 0" "getTForX 1 (1/4) (1/4) = 1"
proof -
  have "calcBezier 0 (1/4) (1/4) = 0" by (simp add: bx_eq)
  then show "getTForX 0 (1/4) (1/4) = 0"
    using bx_root_unique[of "getTForX 0 (1/4) (1/4)" 0 0] getTForX_props[of 0] by simp
  have "calcBezier 1 (1/4) (1/4) = 1" by (simp add: bx_eq)
  then show "getTForX 1 (1/4) (1/4) = 1"
    using bx_root_unique[of "getTForX 1 (1/4) (1/4)" 1 1] getTForX_props[of 1] by simp
qed

lemma Easing_bezier_zen: "Easing_bezier (1/4) (1/10) (1/4) 1 = Inr progressEase"
  by (simp add: Easing_bezier_def progressEase_def fun_eq_iff)

lemma progressEase_curve: "progressEase x = calcBezier (getTForX x (1/4) (1/4)) (1/10) 1"
  by (simp add: progressEase_def getTForX_ends by_eq)

lemma progressEase_mono:
  assumes "0 \<le> x" "x \<le> y" "y \<le> 1"
  shows "progressEase x \<le> progressEase y"
proof -
  have x: "0 \<le> getTForX x (1/4) (1/4)" using getTForX_props[of x] assms by simp
  have y: "getTForX y (1/4) (1/4) \<le> 1" using getTForX_props[of y] assms by simp
  show ?thesis
    unfolding progressEase_curve using x getTForX_mono[OF assms] y by (rule by_mono)
qed

lemma progressEase_range:
  assumes "0 \<le> x" "x \<le> 1"
  shows "0 \<le> progressEase x" "progressEase x \<le> 1"
  using progressEase_mono[of 0 x] progressEase_mono[of x 1] assms
  by (simp_all add: progressEase_def)

lemma progressPercent_eq:
  assumes "0 < D" "0 \<le> frame"
  shows "progressPercent frame D
           = Inr (progressEase (min (real_of_int frame) (real_of_int D) / real_of_int D) * 100)"
  using assms
  by (simp add: progressPercent_def Easing_bezier_zen interpolate_two interpolateFunction_def
        Let_def min_def)

lemma textOpacity_range:
  "\<exists>op. textOpacity frame = Inr op \<and> 0.7 \<le> op \<and> op \<le> 1.0"
proof -
  let ?s = "sin (real_of_int frame / 30)"
  have e: "textOpacity frame = Inr (0.7 + (?s - (-1)) / (1 - (-1)) * (1 - 0.7))"
    unfolding textOpacity_def Let_def
    by (subst interpolate_two) (simp_all add: interpolateFunction_default)
  show ?thesis
    unfolding e using pulse_range[of ?s "0.7" 1] by simp
qed

text \<open>
  C6. For a positive duration and every non-negative frame, \<open>progressPercent\<close> lies in
  \<open>[0, 100]\<close> and is exactly 100 from frame \<open>durationInFrames\<close> on; it does not decrease
  with the frame over \<open>[0, durationInFrames]\<close>; and \<open>textOpacity\<close> lies in \<open>[0.7, 1.0]\<close>.
\<close>

theorem ZenProgressBar_progress:
  assumes "0 < D" and "0 \<le> frame"
  shows "(\<exists>p. progressPercent frame D = Inr p \<and> 0 \<le> p \<and> p \<le> 100
            \<and> (D \<le> frame \<longrightarrow> p = 100)
            \<and> (\<forall>frame' p'. frame \<le> frame' \<and> frame' \<le> D
                   \<and> progressPercent frame' D = Inr p' \<longrightarrow> p \<le> p'))
       \<and> (\<exists>op. textOpacity frame = Inr op \<and> 0.7 \<le> op \<and> op \<le> 1.0)"
proof -
  have D: "(0::real) < real_of_int D" using assms(1) by simp
  let ?x = "\<lambda>f. min (real_of_int f) (real_of_int D) / real_of_int D"
  have x0: "0 \<le> ?x f" if "0 \<le> f" for f
    using that D by (intro divide_nonneg_pos) (auto simp: min_def)
  have x1: "?x f \<le> 1" for f using D by (simp add: min_def)
  have xm: "?x frame \<le> ?x f" if "frame \<le> f" for f
    using that D by (intro divide_right_mono) (auto simp: min_def)
  have lo: "0 \<le> progressEase (?x frame) * 100"
    using progressEase_range(1)[OF x0[OF assms(2)] x1] by simp
  have hi: "progressEase (?x frame) * 100 \<le> 100"
    using progressEase_range(2)[OF x0[OF assms(2)] x1] by simp
  have full: "progressEase (?x frame) * 100 = 100" if "D \<le> frame"
  proof -
    have "?x frame = 1" using that D by (simp add: min_def)
    then show ?thesis by (simp add: progressEase_def)
  qed
  have mono: "progressEase (?x frame) * 100 \<le> progressEase (?x f) * 100" if "frame \<le> f" for f
    using progressEase_mono[OF x0[OF assms(2)] xm[OF that] x1] by simp
  have P: "progressPercent f D = Inr (progressEase (?x f) * 100)" if "0 \<le> f" for f
    using progressPercent_eq[OF assms(1) that] .
  have m: "\<forall>frame' p'. frame \<le> frame' \<and> frame' \<le> D \<and> progressPercent frame' D = Inr p'
             \<longrightarrow> progressEase (?x frame) * 100 \<le> p'"
  proof (intro allI impI)
    fix frame' p'
    assume h: "frame \<le> frame' \<and> frame' \<le> D \<and> progressPercent frame' D = Inr p'"
    then have "0 \<le> frame'" using assms(2) by simp
    from P[OF this] h have "Inr p' = (Inr (progressEase (?x frame') * 100) :: js_error + real)"
      by (simp only:)
    then have "p' = progressEase (?x frame') * 100" by (simp only: sum.inject)
    moreover have "progressEase (?x frame) * 100 \<le> progressEase (?x frame') * 100"
      using mono h by blast
    ultimately show "progressEase (?x frame) * 100 \<le> p'" by (simp only:)
  qed
  show ?thesis
    using lo hi full m textOpacity_range[of frame] by (simp add: P[OF assms(2)])
qed

theorem ZenProgressBar_progress_witness:
  "(0::int) < 360 \<and> (0::int) \<le> 360
   \<and> progressPercent 360 360 = Inr 100
   \<and> (\<exists>op. textOpacity 360 = Inr op \<and> 0.7 \<le> op \<and> op \<le> 1.0)"
proof -
  have h: "(0::int) < 360" "(0::int) \<le> 360" by simp_all
  from ZenProgressBar_progress [OF h] show ?thesis by auto
qed

section \<open>Properties of SpeedDemonSpinner\<close>

lemma then_js_Inr [simp]: "then_js (Inr v) f = f v"
  by (simp add: then_js_def)

lemma then_js_Inl [simp]: "then_js (Inl e) f = Inl e"
  by (simp add: then_js_def)

lemma collect_total:
  assumes "\<And>i. f i = Inr (g i)"
  shows "collect f ns = Inr (map g ns)"
  by (induction ns) (simp_all add: assms)

lemma interpolate_tail:
  "interpolate x [0, real numTailSegments - 1] [c, d] default_options
     = Inr (c + x / 19 * (d - c))"
  by (simp add: numTailSegments_def interpolate_two interpolateFunction_default)

lemma CometSegment_element_eq:
  "CometSegment_element props rotation i = Inr (comet_segment props rotation i)"
  unfolding CometSegment_element_def Let_def interpolate_tail then_js_Inr comet_segment_def
  by simp

lemma tail_collect:
  "collect (CometSegment_element props rotation) [0..<numTailSegments]
     = Inr (head_first props rotation)"
  unfolding head_first_def by (rule collect_total) (rule CometSegment_element_eq)

lemma totalRotation_ok:
  assumes "0 < D"
  shows "\<exists>rotation. totalRotation frame D = Inr rotation"
  using assms by (simp add: totalRotation_def Easing_bezier_def Let_def interpolate_two)

lemma totalRotation_frame_0:
  assumes "0 < D"
  shows "totalRotation 0 D = Inr 0"
  using assms
  by (simp add: totalRotation_def Easing_bezier_def Let_def interpolate_two
        interpolateFunction_def js_fmod_def js_trunc_def Math_floor_def)

lemma SpeedDemonSpinner_unfold:
  "SpeedDemonSpinner props frame D h =
     then_js (totalRotation frame D) (\<lambda>rotation.
       then_js (useMemo
                  [DNum (sd_iconSize props / 2), DNum ((sd_iconSize props / 2) - sd_strokeThickness props),
                   DNum (sd_strokeThickness props), DStr (sd_cyanColor props),
                   DNum (2 * pi * ((sd_iconSize props / 2) - sd_strokeThickness props)), DNum rotation]
                  (Inr (head_first props rotation)) h)
         (\<lambda>(r, h1). Inr (SpeedDemonSpinner_markup props (read_array r (Array_reverse r h1)),
                          Array_reverse r h1)))"
  unfolding SpeedDemonSpinner_def by (simp add: Let_def tail_collect)

text \<open>
  The first render of a mounted instance computes the stack and reverses it: the head is
  the last child. The hook keeps the reference, and the array behind it is now reversed.
\<close>

lemma SpeedDemonSpinner_first_render:
  assumes "totalRotation frame D = Inr rotation" and "memo h = None"
  shows "\<exists>h1. SpeedDemonSpinner props frame D h
           = Inr (SpeedDemonSpinner_markup props (rev (head_first props rotation)), h1)
         \<and> memo h1 = Some \<lparr>cell_deps =
                  [DNum (sd_iconSize props / 2), DNum ((sd_iconSize props / 2) - sd_strokeThickness props),
                   DNum (sd_strokeThickness props), DStr (sd_cyanColor props),
                   DNum (2 * pi * ((sd_iconSize props / 2) - sd_strokeThickness props)), DNum rotation],
                cell_ref = next_ref h\<rparr>
         \<and> heap h1 (next_ref h) = Some (rev (head_first props rotation))"
  unfolding SpeedDemonSpinner_unfold
  using assms
  by (simp add: useMemo_def store_array_def Let_def Array_reverse_def read_array_def)

text \<open>
  A render with unchanged dependencies gets the stored reference back and reverses the
  array behind it once more.
\<close>

lemma SpeedDemonSpinner_rerender:
  assumes "totalRotation frame D = Inr rotation"
      and "memo h = Some \<lparr>cell_deps =
                  [DNum (sd_iconSize props / 2), DNum ((sd_iconSize props / 2) - sd_strokeThickness props),
                   DNum (sd_strokeThickness props), DStr (sd_cyanColor props),
                   DNum (2 * pi * ((sd_iconSize props / 2) - sd_strokeThickness props)), DNum rotation],
                cell_ref = r\<rparr>"
      and "heap h r = Some xs"
  shows "\<exists>h1. SpeedDemonSpinner props frame D h
           = Inr (SpeedDemonSpinner_markup props (rev xs), h1)"
  unfolding SpeedDemonSpinner_unfold
  using assms
  by (simp add: useMemo_def Array_reverse_def read_array_def)

lemma SpeedDemonSpinner_twice:
  assumes "totalRotation frame D = Inr rotation"
  shows "\<exists>h1 h2.
           SpeedDemonSpinner props frame D mount
             = Inr (SpeedDemonSpinner_markup props (rev (head_first props rotation)), h1)
         \<and> SpeedDemonSpinner props frame D h1
             = Inr (SpeedDemonSpinner_markup props (head_first props rotation), h2)"
proof -
  have m: "memo mount = None" by (simp add: mount_def)
  obtain h1 where
    r1: "SpeedDemonSpinner props frame D mount
           = Inr (SpeedDemonSpinner_markup props (rev (head_first props rotation)), h1)"
    and m1: "memo h1 = Some \<lparr>cell_deps =
                  [DNum (sd_iconSize props / 2), DNum ((sd_iconSize props / 2) - sd_strokeThickness props),
                   DNum (sd_strokeThickness props), DStr (sd_cyanColor props),
                   DNum (2 * pi * ((sd_iconSize props / 2) - sd_strokeThickness props)), DNum rotation],
                cell_ref = next_ref mount\<rparr>"
    and s1: "heap h1 (next_ref mount) = Some (rev (head_first props rotation))"
    using SpeedDemonSpinner_first_render[OF assms m, of props] by blast
  obtain h2 where
    "SpeedDemonSpinner props frame D h1
       = Inr (SpeedDemonSpinner_markup props (rev (rev (head_first props rotation))), h2)"
    using SpeedDemonSpinner_rerender[OF assms m1 s1] by blast
  then show ?thesis using r1 by auto
qed

lemma comet_segment_inj:
  "comet_segment props rotation i = comet_segment props rotation j \<Longrightarrow> i = j"
  by (simp add: comet_segment_def)

lemma head_first_not_palindrome: "head_first props rotation \<noteq> rev (head_first props rotation)"
proof
  let ?xs = "head_first props rotation"
  assume e: "?xs = rev ?xs"
  have "?xs ! 0 = comet_segment props rotation 0"
    by (simp add: head_first_def numTailSegments_def)
  moreover have "rev ?xs ! 0 = comet_segment props rotation 19"
    by (simp add: head_first_def numTailSegments_def rev_nth)
  ultimately have "comet_segment props rotation 0 = comet_segment props rotation 19"
    using e by simp
  then show False using comet_segment_inj by fastforce
qed

lemma SpeedDemonSpinner_markup_inj:
  "SpeedDemonSpinner_markup props xs = SpeedDemonSpinner_markup props ys \<Longrightarrow> xs = ys"
  by (simp add: SpeedDemonSpinner_markup_def Let_def)

lemma SpeedDemonSpinner_orders_differ:
  "SpeedDemonSpinner_markup props (rev (head_first props rotation))
     \<noteq> SpeedDemonSpinner_markup props (head_first props rotation)"
  using head_first_not_palindrome[of props rotation] SpeedDemonSpinner_markup_inj by fastforce

text \<open>
  C1 (the code departs from it). With the default props and the composition's 300
  frames, two renders of frame 0 in one mounted instance return different trees: the
  first has the head of the comet as the last child of the \<open>g\<close> element, as the source
  comment announces, the second has it as the first child.
\<close>

theorem SpeedDemonSpinner_rerender_differs:
  "\<exists>h1 h2.
      SpeedDemonSpinner SpeedDemon_defaultProps 0 300 mount
        = Inr (SpeedDemonSpinner_markup SpeedDemon_defaultProps
                 (rev (head_first SpeedDemon_defaultProps 0)), h1)
    \<and> SpeedDemonSpinner SpeedDemon_defaultProps 0 300 h1
        = Inr (SpeedDemonSpinner_markup SpeedDemon_defaultProps
                 (head_first SpeedDemon_defaultProps 0), h2)
    \<and> SpeedDemonSpinner_markup SpeedDemon_defaultProps (rev (head_first SpeedDemon_defaultProps 0))
        \<noteq> SpeedDemonSpinner_markup SpeedDemon_defaultProps (head_first SpeedDemon_defaultProps 0)"
proof -
  have "totalRotation 0 300 = Inr 0" by (rule totalRotation_frame_0) simp
  from SpeedDemonSpinner_twice[OF this, of SpeedDemon_defaultProps]
  show ?thesis using SpeedDemonSpinner_orders_differ by blast
qed

text \<open>
  C2 (the code departs from it). The tree returned for frame 0 depends on what was
  rendered before in the same mounted instance: after no render it is the tree with the
  head last, after one render of frame 0 it is the tree with the head first.
\<close>

theorem SpeedDemonSpinner_history_dependent:
  "SpeedDemonSpinner_after SpeedDemon_defaultProps 300 [] 0
     = Inr (SpeedDemonSpinner_markup SpeedDemon_defaultProps
              (rev (head_first SpeedDemon_defaultProps 0)))
   \<and> SpeedDemonSpinner_after SpeedDemon_defaultProps 300 [0] 0
     = Inr (SpeedDemonSpinner_markup SpeedDemon_defaultProps
              (head_first SpeedDemon_defaultProps 0))
   \<and> SpeedDemonSpinner_after SpeedDemon_defaultProps 300 [0] 0
     \<noteq> SpeedDemonSpinner_after SpeedDemon_defaultProps 300 [] 0"
proof -
  have "totalRotation 0 300 = Inr 0" by (rule totalRotation_frame_0) simp
  from SpeedDemonSpinner_twice[OF this, of SpeedDemon_defaultProps]
  obtain h1 h2 where
    r1: "SpeedDemonSpinner SpeedDemon_defaultProps 0 300 mount
           = Inr (SpeedDemonSpinner_markup SpeedDemon_defaultProps
                    (rev (head_first SpeedDemon_defaultProps 0)), h1)"
    and r2: "SpeedDemonSpinner SpeedDemon_defaultProps 0 300 h1
           = Inr (SpeedDemonSpinner_markup SpeedDemon_defaultProps
                    (head_first SpeedDemon_defaultProps 0), h2)"
    by blast
  have a: "SpeedDemonSpinner_after SpeedDemon_defaultProps 300 [] 0
             = Inr (SpeedDemonSpinner_markup SpeedDemon_defaultProps
                      (rev (head_first SpeedDemon_defaultProps 0)))"
    by (simp add: SpeedDemonSpinner_after_def r1)
  have b: "SpeedDemonSpinner_after SpeedDemon_defaultProps 300 [0] 0
             = Inr (SpeedDemonSpinner_markup SpeedDemon_defaultProps
                      (head_first SpeedDemon_defaultProps 0))"
    by (simp add: SpeedDemonSpinner_after_def r1 r2)
  show ?thesis
    unfolding a b using SpeedDemonSpinner_orders_differ[of SpeedDemon_defaultProps 0] by simp
qed

section \<open>Properties of FallingHeartsEmoji\<close>

lemma collect_ok:
  assumes "\<And>i. i \<in> set ns \<Longrightarrow> \<exists>v. f i = Inr v"
  shows "\<exists>vs. collect f ns = Inr vs \<and> length vs = length ns"
  using assms
proof (induction ns)
  case Nil
  then show ?case by simp
next
  case (Cons n ns)
  obtain v where v: "f n = Inr v" using Cons.prems[of n] by auto
  obtain vs where vs: "collect f ns = Inr vs" "length vs = length ns"
    using Cons.IH Cons.prems by auto
  show ?case by (simp add: v vs)
qed

lemma color_index_range:
  assumes "0 \<le> fw_random fw (seed + 2)" and "fw_random fw (seed + 2) < 1"
  shows "0 \<le> color_index fw seed \<and> color_index fw seed < int (length COLORS)"
proof -
  have "0 \<le> fw_random fw (seed + 2) * 3" using assms(1) by simp
  then have lo: "0 \<le> \<lfloor>fw_random fw (seed + 2) * 3\<rfloor>" by simp
  have "fw_random fw (seed + 2) * 3 < 3" using assms(2) by simp
  then have hi: "\<lfloor>fw_random fw (seed + 2) * 3\<rfloor> < 3" by (simp add: floor_less_iff)
  show ?thesis using lo hi by (simp add: color_index_def COLORS_def Math_floor_def)
qed

lemma make_heart_ok:
  assumes "0 \<le> fw_random fw (real i + 2)" and "fw_random fw (real i + 2) < 1"
  shows "\<exists>heart. make_heart fw cfg i = Inr heart"
  using color_index_range[OF assms]
  by (simp add: make_heart_def Let_def js_nth_def)

lemma make_hearts_ok:
  assumes "\<And>s. 0 \<le> fw_random fw s \<and> fw_random fw s < 1"
  shows "\<exists>hearts. make_hearts fw cfg = Inr hearts \<and> length hearts = 50"
proof -
  have "\<exists>vs. collect (make_heart fw cfg) [0..<50] = Inr vs \<and> length vs = length [0..<50]"
    by (rule collect_ok) (use assms make_heart_ok in blast)
  then show ?thesis by (simp add: make_hearts_def new_Array_def HEART_COUNT_def)
qed

lemma FallingHeartsEmoji_first:
  assumes "make_hearts fw cfg = Inr hearts"
  shows "FallingHeartsEmoji fw cfg frame None
           = Inr (Elem ''AbsoluteFill'' [(''style.backgroundColor'', S ''#15ff00ff'')]
                    (map (heart_element cfg frame) hearts), Some hearts)"
  by (simp add: FallingHeartsEmoji_def assms)

lemma FallingHeartsEmoji_later:
  "FallingHeartsEmoji fw cfg frame (Some hearts)
     = Inr (Elem ''AbsoluteFill'' [(''style.backgroundColor'', S ''#15ff00ff'')]
              (map (heart_element cfg frame) hearts), Some hearts)"
  by (simp add: FallingHeartsEmoji_def)

lemma FallingHeartsEmoji_frames_Some:
  "FallingHeartsEmoji_frames fw cfg history (Some hearts) = Inr (Some hearts)"
  by (induction history) (simp_all add: FallingHeartsEmoji_later)

lemma FallingHeartsEmoji_frames_None:
  assumes "make_hearts fw cfg = Inr hearts"
  shows "FallingHeartsEmoji_frames fw cfg history None
           = Inr (if history = [] then None else Some hearts)"
  by (cases history)
     (simp_all add: FallingHeartsEmoji_first[OF assms] FallingHeartsEmoji_frames_Some)

text \<open>
  In FallingHeartsEmoji the particles are computed from the seeds alone, once; after any
  list of frames rendered before in the same mounted instance, the tree returned for a
  frame is the tree of these particles at that frame.
\<close>

lemma FallingHeartsEmoji_layout_fixed:
  assumes "\<And>s. 0 \<le> fw_random fw s \<and> fw_random fw s < 1"
  shows "\<exists>hearts. make_hearts fw cfg = Inr hearts
           \<and> (\<forall>history frame.
                 FallingHeartsEmoji_after fw cfg history frame
                   = Inr (Elem ''AbsoluteFill'' [(''style.backgroundColor'', S ''#15ff00ff'')]
                            (map (heart_element cfg frame) hearts)))"
proof -
  obtain hearts where h: "make_hearts fw cfg = Inr hearts"
    using make_hearts_ok[OF assms] by blast
  have "FallingHeartsEmoji_after fw cfg history frame
          = Inr (Elem ''AbsoluteFill'' [(''style.backgroundColor'', S ''#15ff00ff'')]
                   (map (heart_element cfg frame) hearts))" for history frame
    by (simp add: FallingHeartsEmoji_after_def FallingHeartsEmoji_frames_None[OF h]
          FallingHeartsEmoji_first[OF h] FallingHeartsEmoji_later)
  then show ?thesis using h by blast
qed

section \<open>Properties of NeonEKG\<close>

text \<open>
  In NeonEKG the tree does not depend on the random stream, nor on how many random values
  were drawn before: the random amplitudes stay in \<open>points\<close>, which the tree does not
  mention.
\<close>

lemma NeonEKG_random_free:
  "fst (NeonEKG props cfg rnd drawn frame) = fst (NeonEKG props cfg rnd' drawn' frame)"
  by (simp add: NeonEKG_def Let_def split: prod.splits)

lemma points_loop_extends:
  "\<exists>more. fst (points_loop props rnd headX i drawn pts) = pts @ more"
proof (induction props rnd headX i drawn pts rule: points_loop.induct)
  case (1 props rnd currentHeadX i drawn pts)
  show ?case
  proof (cases "i < 2000 \<and> \<not> currentHeadX - real i < 0")
    case False
    then show ?thesis by (subst points_loop.simps) (auto simp: Let_def)
  next
    case True
    show ?thesis
    proof (cases "(currentHeadX - real i) / 15 < flatlineStart props")
      case alive: True
      from "1.IH"(1)[OF _ refl _ refl refl alive refl refl] True
      obtain more where
        "fst (points_loop props rnd currentHeadX (i + 5) drawn
                (pts @ [(currentHeadX - real i,
                         points_beat (js_fmod ((currentHeadX - real i) / 15) (beatFrequency props)
                                        / beatFrequency props))]))
           = (pts @ [(currentHeadX - real i,
                      points_beat (js_fmod ((currentHeadX - real i) / 15) (beatFrequency props)
                                     / beatFrequency props))]) @ more"
        by auto
      then show ?thesis
        using True alive by (subst points_loop.simps) (simp add: Let_def)
    next
      case dead: False
      from "1.IH"(2)[OF _ refl _ refl refl dead refl] True
      obtain more where
        "fst (points_loop props rnd currentHeadX (i + 5) (drawn + 1)
                (pts @ [(currentHeadX - real i, (rnd drawn - 0.5) * 5)]))
           = (pts @ [(currentHeadX - real i, (rnd drawn - 0.5) * 5)]) @ more"
        by auto
      then show ?thesis
        using True dead by (subst points_loop.simps) (simp add: Let_def)
    qed
  qed
qed

text \<open>At frame 211 the newest point of \<open>points\<close> is random noise.\<close>

lemma points_reads_random:
  "\<exists>more. fst (points NeonEKG_defaultProps rnd drawn 211) = (3165, (rnd drawn - 0.5) * 5) # more"
proof -
  obtain more where
    "fst (points_loop NeonEKG_defaultProps rnd 3165 5 (drawn + 1) ([] @ [(3165, (rnd drawn - 0.5) * 5)]))
       = ([] @ [(3165, (rnd drawn - 0.5) * 5)]) @ more"
    using points_loop_extends by blast
  then show ?thesis
    unfolding points_def Let_def
    by (subst points_loop.simps) (simp add: Let_def NeonEKG_defaultProps_def)
qed

section \<open>Every render returns\<close>

lemma interpolate_ok:
  assumes "length ir = length outs" and "2 \<le> length ir" and "strictly_increasing ir"
  shows "\<not> isl (interpolate x ir outs opts)"
  using assms by (simp add: interpolate_def Let_def)

lemma then_js_ok:
  assumes "\<not> isl m" and "\<And>v. \<not> isl (f v)"
  shows "\<not> isl (then_js m f)"
  using assms by (cases m) simp_all

lemma collect_no_error:
  assumes "\<And>i. \<not> isl (f i)"
  shows "\<not> isl (collect f ns)"
proof (induction ns)
  case Nil
  then show ?case by simp
next
  case (Cons n ns)
  show ?case
    unfolding collect.simps
    by (intro then_js_ok assms Cons.IH) simp
qed

lemma if_ok:
  assumes "c \<Longrightarrow> \<not> isl a" and "\<not> c \<Longrightarrow> \<not> isl b"
  shows "\<not> isl (if c then a else b)"
  using assms by simp

lemma Inr_ok: "\<not> isl (Inr v)"
  by simp

lemma finished_ok:
  assumes "\<not> isl m"
  shows "finished m = Inr ()"
  using assms by (cases m) (simp_all add: finished_def)

lemma new_Array_ok:
  assumes "0 \<le> n"
  shows "\<not> isl (new_Array n)"
  using assms by (simp add: new_Array_def)

lemma Easing_bezier_ok:
  assumes "0 \<le> x1" "x1 \<le> 1" "0 \<le> x2" "x2 \<le> 1"
  shows "\<not> isl (Easing_bezier x1 y1 x2 y2)"
  using assms by (simp add: Easing_bezier_def)

lemmas ok_intros = then_js_ok collect_no_error if_ok Inr_ok interpolate_ok

lemma NeonYearLoad_ok: "\<not> isl (NeonYearLoad_values fw NeonYearLoad_config g frame)"
  unfolding NeonYearLoad_values_def Let_def
  by (intro ok_intros) (simp_all add: NeonYearLoad_config_def)

lemma GlowingBulb_ok: "\<not> isl (GlowingBulb_values cfg frame index)"
  unfolding GlowingBulb_values_def Let_def
  by (intro ok_intros) simp_all

lemma LightString_ok: "\<not> isl (LightString_values cfg a b type yPos swayOffset frame)"
  unfolding LightString_values_def place_bulb_def Let_def
  by (intro ok_intros GlowingBulb_ok)

lemma GlowingStringLights_ok: "\<not> isl (GlowingStringLights_values cfg a b frame)"
  unfolding GlowingStringLights_values_def
  by (intro ok_intros LightString_ok)

lemma StreamGlitch_ok: "\<not> isl (StreamGlitch_values fw ''STARTING SOON'' 90 frame)"
  unfolding StreamGlitch_values_def Let_def
  by (intro ok_intros) simp_all

lemma NeonCircleFrame_ok: "\<not> isl (NeonCircleFrame_values frames300_config frame)"
  unfolding NeonCircleFrame_values_def
  by (intro ok_intros) (simp_all add: frames300_config_def)

lemma GyroscopeV2_ok: "\<not> isl (GyroscopeV2_values frames300_config r frame)"
  unfolding GyroscopeV2_values_def Let_def
  by (intro ok_intros) (simp_all add: frames300_config_def)

lemma ErrorCross_ok: "\<not> isl (ErrorCross_values fw cfg 800 frame)"
  unfolding ErrorCross_values_def Let_def
  by (intro ok_intros) simp_all

lemma Bulb_ok: "\<not> isl (Bulb_values x y scale seed d f)"
  unfolding Bulb_values_def Let_def
  by (intro ok_intros) simp_all

lemma light_string_ok: "\<not> isl (light_string_values fw cfg 15 frame index str)"
  unfolding light_string_values_def Let_def
  by (intro ok_intros Bulb_ok new_Array_ok) simp

lemma GlowingLights_ok: "\<not> isl (GlowingLights_values fw cfg 15 sag frame)"
  unfolding GlowingLights_values_def Let_def
  by (intro ok_intros light_string_ok)

lemma wave_ok: "\<not> isl (wave_values 8 120 1000 8 frame index)"
  unfolding wave_values_def Let_def
  by (intro ok_intros) simp_all

lemma NeonRadioWaves_ok: "\<not> isl (NeonRadioWaves_values 8 120 1000 8 frame)"
  unfolding NeonRadioWaves_values_def
  by (intro ok_intros wave_ok new_Array_ok) simp

lemma SuccessCheckmark_ok: "\<not> isl (SuccessCheckmark_values fw cfg 800 frame)"
  unfolding SuccessCheckmark_values_def Let_def
  by (intro ok_intros) simp_all

lemma FloatingSlider_ok: "\<not> isl (FloatingSlider_values seconds10_config w frame)"
  unfolding FloatingSlider_values_def Let_def
  by (intro ok_intros Easing_bezier_ok) (simp_all add: seconds10_config_def)

lemma ShapeShifter_ok: "\<not> isl (ShapeShifter_values frames300_config frame)"
  unfolding ShapeShifter_values_def Let_def Easing_ease_def
  by (intro ok_intros Easing_bezier_ok) (simp_all add: frames300_config_def)

lemma renderBar_ok: "\<not> isl (renderBar ic frame D w h i m)"
proof -
  obtain v where "getBarHeight frame D i = Inr v" using getBarHeight_range by blast
  then show ?thesis by (simp add: renderBar_def activeSegments_def Let_def)
qed

lemma NeonEqualizer_ok: "\<not> isl (NeonEqualizer_values fw cfg frame)"
  unfolding NeonEqualizer_values_def
  by (intro ok_intros renderBar_ok new_Array_ok) simp_all

lemma RingLayer_ok: "\<not> isl (RingLayer_values frames300_config r t s d frame)"
  unfolding RingLayer_values_def Let_def
  by (intro ok_intros) (simp_all add: frames300_config_def)

lemma CyberpunkDataRing_ok: "\<not> isl (CyberpunkDataRing_values frames300_config s frame)"
  unfolding CyberpunkDataRing_values_def Let_def
  by (intro ok_intros RingLayer_ok)

lemma GradientBackground_blob_ok:
  assumes "i < 3"
  shows "\<not> isl (GradientBackground_blob cfg ReededGlass_colors frame i)"
proof -
  have "js_rem (int i) 4 = int i" using assms by (simp add: js_rem_nonneg)
  then have "\<not> isl (js_nth ReededGlass_colors (js_rem (int i) (int (length ReededGlass_colors))))"
    using assms by (simp add: js_nth_def ReededGlass_colors_def)
  then show ?thesis
    unfolding GradientBackground_blob_def Let_def
    by (intro ok_intros) simp_all
qed

lemma ReededGlassEffect_ok:
  "\<not> isl (ReededGlassEffect_values cfg 40 25 ReededGlass_colors frame)"
  unfolding ReededGlassEffect_values_def Let_def collect.simps
  by (intro ok_intros GradientBackground_blob_ok new_Array_ok) simp_all

lemma SaberNumber_ok: "\<not> isl (SaberNumber_values fw lf 30)"
  unfolding SaberNumber_values_def Let_def
  by (intro ok_intros) simp_all

lemma NeonSaberCountdown_ok: "\<not> isl (NeonSaberCountdown_values fw props frame 30)"
  unfolding NeonSaberCountdown_values_def
  by (intro ok_intros SaberNumber_ok)

lemma ticks_ok:
  assumes "0 \<le> n"
  shows "\<not> isl (ticks n)"
  unfolding ticks_def by (intro ok_intros new_Array_ok assms)

lemma SegmentedCountdown_ok:
  "\<not> isl (SegmentedCountdown_values SegmentedCountdown_config SegmentedCountdown_ticksCount r frame)"
proof -
  have D: "0 < cfg_durationInFrames SegmentedCountdown_config"
    by (simp add: SegmentedCountdown_config_def)
  have a: "\<not> isl (remainingSeconds frame (cfg_durationInFrames SegmentedCountdown_config))"
    by (simp add: remainingSeconds_eq[OF D])
  have b: "\<not> isl (currentTickThreshold frame (cfg_durationInFrames SegmentedCountdown_config)
                    SegmentedCountdown_ticksCount)"
    by (simp add: currentTickThreshold_eq[OF D])
  show ?thesis
    unfolding SegmentedCountdown_values_def Let_def
    by (intro ok_intros a b ticks_ok) (simp_all add: SegmentedCountdown_ticksCount_def)
qed

lemma BreakingNews_ok: "\<not> isl (BreakingNews_values fw seconds10_config frame)"
  unfolding BreakingNews_values_def LiveIndicator_values_def RotatingGlobe_values_def Let_def
  by (intro ok_intros) (simp_all add: seconds10_config_def)

lemma DualNeonChase_ok: "\<not> isl (DualNeonChase_values seconds10_config t g frame)"
  unfolding DualNeonChase_values_def Let_def
  by (intro ok_intros) (simp_all add: seconds10_config_def)

lemma NeonGrowth_ok: "\<not> isl (NeonGrowth_values cfg s frame)"
  unfolding NeonGrowth_values_def Let_def
  by (intro ok_intros) simp_all

lemma aurora_blob_ok:
  assumes "i < 6"
  shows "\<not> isl (aurora_blob cfg AuroraMeshGradient_colors frame i)"
proof -
  have "i = 0 \<or> i = 1 \<or> i = 2 \<or> i = 3 \<or> i = 4 \<or> i = 5" using assms by linarith
  then show ?thesis
    by (auto simp add: aurora_blob_def js_nth_def AuroraMeshGradient_colors_def Let_def)
qed

lemma AuroraMeshGradient_ok:
  "\<not> isl (AuroraMeshGradient_values cfg AuroraMeshGradient_colors b frame)"
proof -
  have e: "[0..<6] = [0, 1, 2, 3, 4, 5]" by (simp add: upt_rec)
  show ?thesis
    unfolding AuroraMeshGradient_values_def e collect.simps
    by (intro ok_intros aurora_blob_ok) simp_all
qed

lemma ZenProgressBar_ok:
  "\<not> isl (then_js (progressPercent frame 360) (\<lambda>percent. textOpacity frame))"
proof -
  have "\<not> isl (progressPercent frame 360)"
    by (simp add: progressPercent_def Easing_bezier_zen interpolate_two)
  moreover have "\<not> isl (textOpacity frame)"
    using textOpacity_range[of frame] by auto
  ultimately show ?thesis by (intro then_js_ok)
qed

lemma CleanProgressBar_ok:
  "\<not> isl (then_js (CleanProgressBar_percentage frame 300)
             (\<lambda>percentage. CleanProgressBar_fill_width frame 300))"
proof -
  have "\<not> isl (CleanProgressBar_progress frame 300)"
    by (simp add: CleanProgressBar_progress_eq)
  then show ?thesis
    by (cases "CleanProgressBar_progress frame 300")
       (simp_all add: CleanProgressBar_percentage_def CleanProgressBar_fill_width_def)
qed

lemma FallingHeartsEmoji_ok:
  assumes "\<And>s. 0 \<le> fw_random fw s \<and> fw_random fw s < 1"
  shows "\<not> isl (FallingHeartsEmoji fw cfg frame None)"
proof -
  obtain hearts where "make_hearts fw cfg = Inr hearts"
    using make_hearts_ok[OF assms] by blast
  then show ?thesis by (simp add: FallingHeartsEmoji_first)
qed

lemma SpeedDemonSpinner_ok:
  "\<not> isl (SpeedDemonSpinner props frame 300 mount)"
proof -
  obtain rotation where r: "totalRotation frame 300 = Inr rotation"
    using totalRotation_ok[of 300 frame] by auto
  have "memo mount = None" by (simp add: mount_def)
  from SpeedDemonSpinner_first_render[OF r this, of props]
  show ?thesis by auto
qed

lemma string_points_length:
  "length (string_points GlowingStringLights_config type yPos sway) = 193"
proof -
  have "\<lceil>(3840::real) / 20\<rceil> = 192" by simp
  then show ?thesis
    by (simp add: string_points_def GlowingStringLights_config_def Math_ceil_def Let_def)
qed

lemma bulb_index_range:
  assumes "1 \<le> i" and "i < 48"
  shows "0 \<le> bulb_index 48 193 i \<and> bulb_index 48 193 i < 193"
proof -
  have "0 \<le> real_of_int i / 48 * 193" using assms by simp
  then have lo: "0 \<le> \<lfloor>real_of_int i / 48 * 193\<rfloor>" by simp
  have "real_of_int i < 48" using assms by simp
  then have "real_of_int i / 48 * 193 < 193" by simp
  then have hi: "\<lfloor>real_of_int i / 48 * 193\<rfloor> < 193" by (simp add: floor_less_iff)
  show ?thesis using lo hi by (simp add: bulb_index_def Math_floor_def)
qed

lemma config_of_positive:
  "0 < cfg_fps (config_of c) \<and> 0 < cfg_durationInFrames (config_of c)"
  by (cases c)
     (simp_all add: NeonYearLoad_config_def FallingHeartsEmoji_config_def ErrorCross_config_def
        SuccessCheckmark_config_def SegmentedCountdown_config_def NeonEKG_config_def
        AuroraMeshGradient_config_def GlowingStringLights_config_def frames300_config_def
        seconds10_config_def)

lemma render_default_ok:
  assumes "\<And>s. 0 \<le> fw_random fw s \<and> fw_random fw s < 1"
  shows "render_default fw rnd c frame = Inr ()"
proof (cases c)
  case C_NeonYearLoad
  then show ?thesis by (simp add: finished_ok NeonYearLoad_ok)
next
  case C_GlowingStringLights
  then show ?thesis by (simp add: finished_ok GlowingStringLights_ok)
next
  case C_StreamGlitch
  then show ?thesis by (simp only: render_default.simps finished_ok[OF StreamGlitch_ok])
next
  case C_ZenProgressBar
  then show ?thesis using finished_ok[OF ZenProgressBar_ok] by simp
next
  case C_NeonCircleFrame
  then show ?thesis by (simp add: finished_ok NeonCircleFrame_ok)
next
  case C_FallingHeartsEmoji
  then show ?thesis by (simp add: finished_ok FallingHeartsEmoji_ok[OF assms])
next
  case C_GyroscopeV2
  then show ?thesis by (simp add: finished_ok GyroscopeV2_ok)
next
  case C_NeonLiveIndicator
  then show ?thesis by (simp add: finished_ok NeonLiveIndicator_opacity_eq)
next
  case C_ErrorCross
  then show ?thesis by (simp add: finished_ok ErrorCross_ok)
next
  case C_GlowingLights
  then show ?thesis by (simp add: finished_ok GlowingLights_ok)
next
  case C_NeonRadioWaves
  then show ?thesis by (simp add: finished_ok NeonRadioWaves_ok)
next
  case C_SuccessCheckmark
  then show ?thesis by (simp add: finished_ok SuccessCheckmark_ok)
next
  case C_FloatingSlider
  then show ?thesis by (simp add: finished_ok FloatingSlider_ok)
next
  case C_ShapeShifter
  then show ?thesis by (simp add: finished_ok ShapeShifter_ok)
next
  case C_NeonEqualizer
  then show ?thesis by (simp add: finished_ok NeonEqualizer_ok)
next
  case C_CyberpunkDataRing
  then show ?thesis by (simp add: finished_ok CyberpunkDataRing_ok)
next
  case C_ReededGlassEffect
  then show ?thesis by (simp add: finished_ok ReededGlassEffect_ok)
next
  case C_NeonSaberCountdown
  then show ?thesis by (simp add: finished_ok NeonSaberCountdown_ok)
next
  case C_CleanProgressBar
  then show ?thesis using finished_ok[OF CleanProgressBar_ok] by (simp add: frames300_config_def)
next
  case C_SegmentedCountdown
  then show ?thesis by (simp add: finished_ok SegmentedCountdown_ok)
next
  case C_NeonRecIndicator
  then show ?thesis by (simp add: finished_ok NeonRecIndicator_opacity_eq)
next
  case C_BreakingNews
  then show ?thesis by (simp add: finished_ok BreakingNews_ok)
next
  case C_DualNeonChase
  then show ?thesis by (simp add: finished_ok DualNeonChase_ok)
next
  case C_NeonGrowth
  then show ?thesis by (simp add: finished_ok NeonGrowth_ok)
next
  case C_NeonEKG
  then show ?thesis by (simp add: finished_def)
next
  case C_SpeedDemonSpinner
  then show ?thesis using finished_ok[OF SpeedDemonSpinner_ok] by (simp add: frames300_config_def)
next
  case C_AuroraMeshGradient
  then show ?thesis by (simp add: finished_ok AuroraMeshGradient_ok)
qed

text \<open>
  C3. With the default props and the configuration of its composition, the render of
  every component returns at every integer frame, without an error: every call of
  \<open>interpolate\<close> and of an easing gets ranges the framework accepts, every array is
  created with a valid length and indexed inside its bounds. In FallingHeartsEmoji the
  colour index is 0, 1 or 2; in GlowingStringLights every bulb index is an index of the
  point array; and the divisors \<open>fps\<close>, \<open>durationInFrames\<close>, \<open>ticksCount\<close> and
  \<open>COLORS.length\<close> are not zero. The framework's \<open>random\<close> returns values in
  \<open>[0, 1)\<close>, which is the hypothesis.
\<close>

theorem every_render_total:
  assumes "\<forall>s. 0 \<le> fw_random fw s \<and> fw_random fw s < 1"
  shows "render_default fw rnd c frame = Inr ()
       \<and> color_index fw seed \<in> {0, 1, 2}
       \<and> (1 \<le> i \<and> i < 48 \<longrightarrow>
            0 \<le> bulb_index 48 (length (string_points (config_of C_GlowingStringLights) type yPos sway)) i
          \<and> bulb_index 48 (length (string_points (config_of C_GlowingStringLights) type yPos sway)) i
              < int (length (string_points (config_of C_GlowingStringLights) type yPos sway)))
       \<and> cfg_fps (config_of c) \<noteq> 0
       \<and> cfg_durationInFrames (config_of c) \<noteq> 0
       \<and> SegmentedCountdown_ticksCount \<noteq> 0
       \<and> length COLORS \<noteq> 0"
proof -
  have r: "\<And>s. 0 \<le> fw_random fw s \<and> fw_random fw s < 1" using assms by blast
  have a: "render_default fw rnd c frame = Inr ()" by (rule render_default_ok[OF r])
  have "0 \<le> color_index fw seed \<and> color_index fw seed < int (length COLORS)"
    using r by (intro color_index_range) auto
  then have b: "color_index fw seed \<in> {0, 1, 2}" by (auto simp: COLORS_def)
  have c: "1 \<le> i \<and> i < 48 \<longrightarrow>
            0 \<le> bulb_index 48 (length (string_points (config_of C_GlowingStringLights) type yPos sway)) i
          \<and> bulb_index 48 (length (string_points (config_of C_GlowingStringLights) type yPos sway)) i
              < int (length (string_points (config_of C_GlowingStringLights) type yPos sway))"
    using bulb_index_range[of i] by (simp add: string_points_length)
  have d: "cfg_fps (config_of c) \<noteq> 0 \<and> cfg_durationInFrames (config_of c) \<noteq> 0"
    using config_of_positive[of c] by simp
  have e: "SegmentedCountdown_ticksCount \<noteq> 0 \<and> length COLORS \<noteq> 0"
    by (simp add: SegmentedCountdown_ticksCount_def COLORS_def)
  show ?thesis using a b c d e by blast
qed

theorem every_render_total_witness:
  "(\<forall>s. (0::real) \<le> 1 / 2 \<and> (1::real) / 2 < 1)
   \<and> render_default \<lparr>fw_random = (\<lambda>s. 1 / 2), fw_spring = (\<lambda>a. 1),
                       fw_interpolateColors = (\<lambda>x ir cs. ''#00FFFF'')\<rparr>
        (\<lambda>n. 1 / 4) C_FallingHeartsEmoji 7 = Inr ()
   \<and> color_index \<lparr>fw_random = (\<lambda>s. 1 / 2), fw_spring = (\<lambda>a. 1),
                     fw_interpolateColors = (\<lambda>x ir cs. ''#00FFFF'')\<rparr> 3 \<in> {0, 1, 2}
   \<and> cfg_durationInFrames (config_of C_FallingHeartsEmoji) \<noteq> 0"
proof -
  have h: "\<forall>s. 0 \<le> fw_random \<lparr>fw_random = (\<lambda>s. 1 / 2), fw_spring = (\<lambda>a. 1),
                                   fw_interpolateColors = (\<lambda>x ir cs. ''#00FFFF'')\<rparr> s
              \<and> fw_random \<lparr>fw_random = (\<lambda>s. 1 / 2), fw_spring = (\<lambda>a. 1),
                            fw_interpolateColors = (\<lambda>x ir cs. ''#00FFFF'')\<rparr> s < 1"
    by simp
  from every_render_total [OF h, of "\<lambda>n. 1 / 4" C_FallingHeartsEmoji 7 3]
  show ?thesis by simp
qed

end
